theory Spec2Isabelle
  imports Main "HOL-Library.Signed_Division"
begin

unbundle bit_operations_syntax

section \<open>Structured (2:4) sparse linear operator: the metadata kernels\<close>

text \<open>
  The development follows \<^verbatim>\<open>StructuredSparseLinearCUTLASS.cu\<close>. A value of type
  \<^verbatim>\<open>int\<close> is an integer and a value of type \<^verbatim>\<open>unsigned int\<close> a natural number; the
  conversions between them, the wrap-around of unsigned arithmetic at \<open>2 ^ 32\<close> and the
  division of C, which truncates, are written out where the source has them. The sizes and
  strides of a tensor (\<^verbatim>\<open>int64_t\<close>, never negative in ATen) and flat memory offsets are
  natural numbers. Device memory is a total function from offsets to cell contents.
\<close>

subsection \<open>Conversions of integers\<close>

text \<open>
  The conversion of an \<^verbatim>\<open>int\<close> to \<^verbatim>\<open>unsigned int\<close>, as C makes it where the two meet in
  one expression (lines 47, 54 to 57, 85) and where an \<^verbatim>\<open>int\<close> initialises a \<^verbatim>\<open>dim3\<close> (lines 263
  and 287): the value modulo \<open>2 ^ 32\<close>.
\<close>

definition unsigned_int :: "int \<Rightarrow> nat" where
  "unsigned_int x = nat (x mod 2 ^ 32)"

text \<open>
  The conversion of a size or stride (\<^verbatim>\<open>int64_t\<close>, not negative) to \<^verbatim>\<open>int\<close>, at lines 185 to 187
  and in the arguments of the launch at lines 267 and 268: the value modulo \<open>2 ^ 32\<close>, taken
  in the range from \<open>- (2 ^ 31)\<close> up to \<open>2 ^ 31\<close>.
\<close>

definition narrow_int :: "nat \<Rightarrow> int" where
  "narrow_int n = (int n + 2 ^ 31) mod 2 ^ 32 - 2 ^ 31"

subsection \<open>\<^verbatim>\<open>two_four_create_meta_kernel\<close>: one thread\<close>

text \<open>
  The bounds test of line 47. The coordinates \<open>m\<close> and \<open>k\<close> are \<^verbatim>\<open>unsigned int\<close>, so each
  comparison converts its right-hand side; \<open>length_k / 4\<close> is a division of \<^verbatim>\<open>int\<close>.
\<close>

definition create_meta_in_range :: "int \<Rightarrow> int \<Rightarrow> nat \<Rightarrow> nat \<Rightarrow> bool" where
  "create_meta_in_range length_m length_k m k \<longleftrightarrow>
     m < unsigned_int length_m \<and> k < unsigned_int (length_k sdiv 4)"

text \<open>
  Lines 54 to 58: the four mask entries of group \<open>k\<close> in row \<open>m\<close>. The index is computed in
  \<^verbatim>\<open>unsigned int\<close>, with \<open>mask_stride\<close> converted, and wraps at \<open>2 ^ 32\<close>.
\<close>

definition pos_tuple :: "(nat \<Rightarrow> bool) \<Rightarrow> int \<Rightarrow> nat \<Rightarrow> nat \<Rightarrow> bool \<times> bool \<times> bool \<times> bool" where
  "pos_tuple mask_ptr mask_stride m k =
     (let pos0 = mask_ptr ((m * unsigned_int mask_stride + k * 4) mod 2 ^ 32);
          pos1 = mask_ptr ((m * unsigned_int mask_stride + k * 4 + 1) mod 2 ^ 32);
          pos2 = mask_ptr ((m * unsigned_int mask_stride + k * 4 + 2) mod 2 ^ 32);
          pos3 = mask_ptr ((m * unsigned_int mask_stride + k * 4 + 3) mod 2 ^ 32)
      in (pos0, pos1, pos2, pos3))"

text \<open>
  Lines 53 and 64 to 78: the value \<open>val\<close> of the thread after the chain of comparisons, and
  whether the thread executed \<^verbatim>\<open>atomicExch(error, 1)\<close>.
\<close>

definition create_meta_code :: "bool \<times> bool \<times> bool \<times> bool \<Rightarrow> nat \<times> bool" where
  "create_meta_code t =
     (if t = (True, True, False, False) then (4, False)
      else if t = (True, False, True, False) then (8, False)
      else if t = (False, True, True, False) then (9, False)
      else if t = (True, False, False, True) then (12, False)
      else if t = (False, True, False, True) then (13, False)
      else if t = (False, False, True, True) then (14, False)
      else (0, True))"

text \<open>The number of true entries of a group.\<close>

definition count_true :: "bool \<times> bool \<times> bool \<times> bool \<Rightarrow> nat" where
  "count_true t = (case t of (p0, p1, p2, p3) \<Rightarrow> length (filter id [p0, p1, p2, p3]))"

subsection \<open>\<^verbatim>\<open>two_four_create_meta_kernel\<close>: one warp\<close>

text \<open>
  The kernel is launched with blocks of 16 by 16 threads (line 264). A warp is 32 threads
  that are consecutive in the block, \<^verbatim>\<open>threadIdx.x\<close> running fastest, so warp \<open>warp_id\<close>
  of a block holds the rows \<^verbatim>\<open>threadIdx.y\<close> \<open>= 2 * warp_id\<close> (lanes 0 to 15) and
  \<open>2 * warp_id + 1\<close> (lanes 16 to 31).
\<close>

record warp =
  block_x :: nat
  block_y :: nat
  warp_id :: nat

text \<open>
  Lines 44 and 45: the coordinates \<open>k\<close> and \<open>m\<close> of a lane, computed in \<^verbatim>\<open>unsigned int\<close>.
\<close>

definition lane_k :: "warp \<Rightarrow> nat \<Rightarrow> nat" where
  "lane_k w lane = (16 * block_x w + lane mod 16) mod 2 ^ 32"

definition lane_m :: "warp \<Rightarrow> nat \<Rightarrow> nat" where
  "lane_m w lane = (16 * block_y w + (2 * warp_id w + lane div 16)) mod 2 ^ 32"

text \<open>
  The register \<open>val\<close> of the lanes of a warp: \<open>None\<close> for a lane that returned at line 50
  (it holds no value any more), and for a value that was read from such a lane, which
  CUDA leaves undefined.
\<close>

type_synonym lanes = "nat \<Rightarrow> nat option"

text \<open>Lines 47 to 78: \<open>val\<close> of every lane before the exchange.\<close>

definition lane_val :: "int \<Rightarrow> int \<Rightarrow> int \<Rightarrow> (nat \<Rightarrow> bool) \<Rightarrow> warp \<Rightarrow> lanes" where
  "lane_val length_m length_k mask_stride mask_ptr w lane =
     (if create_meta_in_range length_m length_k (lane_m w lane) (lane_k w lane)
      then Some (fst (create_meta_code (pos_tuple mask_ptr mask_stride (lane_m w lane) (lane_k w lane))))
      else None)"

text \<open>Line 77: whether a lane sets the failure flag.\<close>

definition lane_error :: "int \<Rightarrow> int \<Rightarrow> int \<Rightarrow> (nat \<Rightarrow> bool) \<Rightarrow> warp \<Rightarrow> nat \<Rightarrow> bool" where
  "lane_error length_m length_k mask_stride mask_ptr w lane \<longleftrightarrow>
     create_meta_in_range length_m length_k (lane_m w lane) (lane_k w lane)
     \<and> snd (create_meta_code (pos_tuple mask_ptr mask_stride (lane_m w lane) (lane_k w lane)))"

text \<open>
  \<^verbatim>\<open>__shfl_down_sync(active_mask, val, delta)\<close> over a full warp: the value of the lane
  \<open>delta\<close> places up, the lane's own value where that lane is beyond the warp.
\<close>

definition shfl_down_sync :: "lanes \<Rightarrow> nat \<Rightarrow> nat \<Rightarrow> nat option" where
  "shfl_down_sync vals delta lane = (if lane + delta < 32 then vals (lane + delta) else vals lane)"

text \<open>
  Line 82 for one lane, \<open>val |= received << (4 * i)\<close>, stored back into \<open>T\<close> of
  \<open>sizeof_T\<close> bytes.
\<close>

definition shfl_combine :: "nat \<Rightarrow> nat \<Rightarrow> nat option \<Rightarrow> nat option \<Rightarrow> nat option" where
  "shfl_combine sizeof_T i own received =
     (case own of None \<Rightarrow> None
      | Some v \<Rightarrow> (case received of None \<Rightarrow> None
          | Some u \<Rightarrow> Some ((v OR push_bit (4 * i) u) mod 2 ^ (8 * sizeof_T))))"

text \<open>
  Lines 80 to 83: the loop over \<open>i = 1, 2, 4, ...\<close> below \<open>tile_size = 2 * sizeof(T)\<close>, all
  lanes of the warp in lockstep. The source starts it at \<open>i = 1\<close>; the test \<open>0 < i\<close> only
  makes the recursion total.
\<close>

function shfl_loop :: "nat \<Rightarrow> nat \<Rightarrow> lanes \<Rightarrow> lanes" where
  "shfl_loop sizeof_T i vals =
     (if 0 < i \<and> i < 2 * sizeof_T
      then shfl_loop sizeof_T (i * 2)
             (\<lambda>lane. shfl_combine sizeof_T i (vals lane) (shfl_down_sync vals i lane))
      else vals)"
  by pat_completeness auto
termination
  by (relation "measure (\<lambda>(sizeof_T, i, vals). 2 * sizeof_T - i)") auto

declare shfl_loop.simps [simp del]

text \<open>Lines 47 to 83: \<open>val\<close> of every lane after the exchange.\<close>

definition lane_packed :: "nat \<Rightarrow> int \<Rightarrow> int \<Rightarrow> int \<Rightarrow> (nat \<Rightarrow> bool) \<Rightarrow> warp \<Rightarrow> lanes" where
  "lane_packed sizeof_T length_m length_k mask_stride mask_ptr w =
     shfl_loop sizeof_T 1 (lane_val length_m length_k mask_stride mask_ptr w)"

text \<open>Line 84: whether a lane stores its value.\<close>

definition lane_writes :: "nat \<Rightarrow> int \<Rightarrow> int \<Rightarrow> warp \<Rightarrow> nat \<Rightarrow> bool" where
  "lane_writes sizeof_T length_m length_k w lane \<longleftrightarrow>
     create_meta_in_range length_m length_k (lane_m w lane) (lane_k w lane)
     \<and> lane_k w lane mod (2 * sizeof_T) = 0"

text \<open>
  Lines 84 to 86: the stores of a warp, as pairs of the offset into \<open>meta\<close> and the value
  (\<open>None\<close> when the value is undefined). The product \<open>m * meta_stride\<close> is computed in
  \<^verbatim>\<open>unsigned int\<close> and wraps at \<open>2 ^ 32\<close>; \<open>tile_size\<close> is a \<^verbatim>\<open>size_t\<close>, so the quotient and
  the sum are computed in 64 bits.
\<close>

definition warp_stores :: "nat \<Rightarrow> int \<Rightarrow> int \<Rightarrow> int \<Rightarrow> (nat \<Rightarrow> bool) \<Rightarrow> int \<Rightarrow> warp \<Rightarrow> (nat \<times> nat option) list" where
  "warp_stores sizeof_T length_m length_k mask_stride mask_ptr meta_stride w =
     map (\<lambda>lane. ((lane_m w lane * unsigned_int meta_stride) mod 2 ^ 32
                    + lane_k w lane div (2 * sizeof_T),
                  lane_packed sizeof_T length_m length_k mask_stride mask_ptr w lane))
       (filter (lane_writes sizeof_T length_m length_k w) [0..<32])"

subsection \<open>\<^verbatim>\<open>two_four_create_meta_kernel\<close>: the launch\<close>

text \<open>
  Lines 262 to 264: the grid has \<open>(length_k + 63) / 64\<close> by \<open>(length_m + 15) / 16\<close> blocks,
  each of 8 warps. The two quotients are computed in \<^verbatim>\<open>int\<close> and converted by \<^verbatim>\<open>dim3\<close>;
  the sums do not overflow, for the lengths have passed the checks of lines 193 to 201.
\<close>

definition create_meta_warps :: "int \<Rightarrow> int \<Rightarrow> warp list" where
  "create_meta_warps length_m length_k =
     map (\<lambda>(y, x, wi). \<lparr>block_x = x, block_y = y, warp_id = wi\<rparr>)
       (List.product [0..<unsigned_int ((length_m + 15) sdiv 16)]
          (List.product [0..<unsigned_int ((length_k + 63) sdiv 64)] [0..<8]))"

text \<open>A store of an undefined value leaves the cell without a defined content.\<close>

definition store :: "(nat \<rightharpoonup> nat) \<Rightarrow> nat \<times> nat option \<Rightarrow> (nat \<rightharpoonup> nat)" where
  "store mem w = mem (fst w := snd w)"

text \<open>
  The whole kernel: the defined cells of \<open>meta\<close> (starting from \<open>meta\<close>) and the failure flag
  (starting from \<open>error\<close>) when all threads are done.
\<close>

definition two_four_create_meta_kernel ::
  "nat \<Rightarrow> int \<Rightarrow> int \<Rightarrow> int \<Rightarrow> (nat \<Rightarrow> bool) \<Rightarrow> int \<Rightarrow> (nat \<rightharpoonup> nat) \<Rightarrow> bool \<Rightarrow> (nat \<rightharpoonup> nat) \<times> bool" where
  "two_four_create_meta_kernel sizeof_T length_m length_k mask_stride mask_ptr meta_stride meta error =
     (let warps = create_meta_warps length_m length_k
      in (foldl store meta
            (concat (map (warp_stores sizeof_T length_m length_k mask_stride mask_ptr meta_stride) warps)),
          error \<or> list_ex (\<lambda>w. list_ex (lane_error length_m length_k mask_stride mask_ptr w) [0..<32]) warps))"

subsection \<open>\<^verbatim>\<open>two_four_reorder_meta_kernel\<close>\<close>

text \<open>
  Lines 112 to 125: the destination coordinate of the element at \<open>(m, k)\<close>, for metadata
  elements of \<open>sizeof_Element\<close> bytes. The decrements are guarded by the parity tests, so
  they never go below zero.
\<close>

definition reorder_dst :: "nat \<Rightarrow> nat \<times> nat \<Rightarrow> nat \<times> nat" where
  "reorder_dst sizeof_Element c =
     (case c of (m, k) \<Rightarrow>
       (let group = (if sizeof_Element = 2 then 32 else 16);
            interweave = (if sizeof_Element = 2 then 4 else 2);
            dst_row = m div group * group + (m mod 8) * interweave + (m mod group) div 8;
            dst_col = k
        in if dst_row mod 2 = 0 \<and> dst_col mod 2 = 1 then (dst_row + 1, dst_col - 1)
           else if dst_row mod 2 = 1 \<and> dst_col mod 2 = 0 then (dst_row - 1, dst_col + 1)
           else (dst_row, dst_col)))"

text \<open>
  Lines 104 to 109 with the launch of lines 286 to 288: blocks of 16 by 16 threads,
  \<open>(length_k + 15) / 16\<close> by \<open>(length_m + 15) / 16\<close> of them; the threads that pass the
  bounds test, as their coordinates \<open>(m, k)\<close>.
\<close>

definition reorder_threads :: "nat \<Rightarrow> nat \<Rightarrow> (nat \<times> nat) list" where
  "reorder_threads length_m length_k =
     filter (\<lambda>(m, k). \<not> (m \<ge> length_m \<or> k \<ge> length_k))
       (List.product [0..<16 * ((length_m + 15) div 16)] [0..<16 * ((length_k + 15) div 16)])"

text \<open>
  A \<^verbatim>\<open>cutlass::TensorRef\<close> is a base pointer with a layout; \<open>at\<close> maps a coordinate through
  the layout to an offset from the base. The layouts are CUTLASS's and are parameters here:
  \<open>src_at\<close> and \<open>dst_at\<close> are the offset functions of the two references.
\<close>

text \<open>
  Line 126 for every thread: \<open>dst.at({dst_row, dst_col}) = src.at({m, k})\<close>. Threads run in
  an unspecified order; the model takes the order of \<open>reorder_threads\<close>.
\<close>

definition two_four_reorder_meta_kernel ::
  "nat \<Rightarrow> nat \<Rightarrow> nat \<Rightarrow> (nat \<times> nat \<Rightarrow> nat) \<Rightarrow> (nat \<Rightarrow> 'v) \<Rightarrow> (nat \<times> nat \<Rightarrow> nat) \<Rightarrow> (nat \<Rightarrow> 'v) \<Rightarrow> (nat \<Rightarrow> 'v)" where
  "two_four_reorder_meta_kernel sizeof_Element length_m length_k src_at src dst_at dst =
     foldl (\<lambda>mem c. mem (dst_at (reorder_dst sizeof_Element c) := src (src_at c)))
       dst (reorder_threads length_m length_k)"

section \<open>The sparse GEMM dispatcher\<close>

subsection \<open>Tensors, errors and the external collaborators\<close>

datatype ScalarType = kByte | kChar | kShort | kInt | kLong | kHalf | kFloat | kDouble | kBool | kBFloat16

datatype Layout = Strided | Sparse | SparseCsr | Mkldnn

text \<open>
  A tensor handle: element type, layout, sizes and strides per axis, and the memory behind
  \<^verbatim>\<open>data_ptr()\<close> as the cell contents by offset. ATen keeps \<open>sizes\<close> and \<open>strides\<close> of equal
  length, which is \<^verbatim>\<open>dim()\<close>.
\<close>

record Tensor =
  scalar_type :: ScalarType
  layout :: Layout
  sizes :: "nat list"
  strides :: "nat list"
  data_ptr :: "nat \<Rightarrow> int"

datatype MatrixLayout = RowMajor | ColumnMajor

datatype Element = int8_t | int32_t | half_t | float_t

text \<open>The template arguments of \<^verbatim>\<open>two_four_sgemm_cutlass\<close> (lines 132 to 143).\<close>

record gemm_config =
  ElementInputA :: Element
  ElementInputB :: Element
  ElementOutput :: Element
  ElementAccumulator :: Element
  ElementComputeEpilogue :: Element
  ThreadblockShape :: "nat \<times> nat \<times> nat"
  WarpShape :: "nat \<times> nat \<times> nat"
  InstructionShape :: "nat \<times> nat \<times> nat"
  EpilogueOp :: "Element \<times> nat \<times> Element \<times> Element"
  LayoutInputA :: MatrixLayout
  LayoutInputB :: MatrixLayout

text \<open>
  What the code reads off CUTLASS's \<^verbatim>\<open>SparseGemm\<close> instantiation (lines 177 to 182): the
  size of \<^verbatim>\<open>Gemm::ElementE\<close>, \<^verbatim>\<open>Gemm::kSparse\<close>, \<^verbatim>\<open>Gemm::kElementsPerElementE\<close>, and the
  offset function of \<^verbatim>\<open>Gemm::LayoutE\<close> packed for an extent. CUTLASS is not among the
  sources, so these are parameters.
\<close>

record gemm_traits =
  sizeof_ElementInputE :: nat
  kSparse :: nat
  kElementsPerElementE :: nat
  ReorderedLayoutInputE_packed :: "nat \<times> nat \<Rightarrow> nat \<times> nat \<Rightarrow> nat"

datatype Status = kSuccess | kErrorMisalignedOperand | kErrorInvalidProblem | kErrorNotSupported
  | kErrorWorkspaceNull | kErrorInternal

text \<open>
  A \<^verbatim>\<open>cutlass::TensorRef\<close> of an operand: memory, layout tag and the leading dimension
  that the constructor of the layout is given.
\<close>

record TensorRef =
  ref_ptr :: "nat \<Rightarrow> int"
  ref_layout :: MatrixLayout
  ref_stride :: nat

text \<open>
  The offset functions of \<^verbatim>\<open>cutlass::layout::RowMajor\<close> and \<^verbatim>\<open>cutlass::layout::ColumnMajor\<close>
  with leading dimension \<open>ld\<close>, and the offset of a coordinate (row, column) in a reference.
\<close>

definition RowMajor_at :: "nat \<Rightarrow> nat \<times> nat \<Rightarrow> nat" where
  "RowMajor_at ld c = fst c * ld + snd c"



text \<open>\<^verbatim>\<open>Gemm::Arguments\<close> as built at lines 300 to 330.\<close>

record gemm_arguments =
  problem_size :: "int \<times> int \<times> int"
  ref_A :: TensorRef
  ref_B :: TensorRef
  ref_C :: TensorRef
  ref_D :: TensorRef
  ref_E :: "nat \<Rightarrow> int"
  epilogue :: "int \<times> int"
  split_k_slices :: nat

text \<open>
  The requests to the device, in program order: allocations (the request is recorded also
  when the allocator refuses it), kernel launches, the read-back of the failure flag
  (\<^verbatim>\<open>error.item()\<close>, which waits for the stream) and the calls into the engine.
\<close>

datatype event =
    Alloc_tensor_d
  | Alloc_meta
  | Alloc_error
  | Launch_create_meta
  | Item_error
  | Alloc_meta_reordered
  | Launch_reorder_meta
  | Alloc_workspace
  | Gemm_initialize gemm_arguments
  | Gemm_run gemm_arguments

text \<open>
  The external collaborators of one call: the device (its major compute capability, what
  \<^verbatim>\<open>C10_CUDA_KERNEL_LAUNCH_CHECK\<close> finds after each of the three places it stands), the
  allocator (the strides it gives a tensor of given sizes, and the contents of freshly
  allocated memory) and the CUTLASS engine (the traits of an instantiation and the four entry
  points; \<open>run\<close> also gives the contents of the output afterwards).
\<close>

record env =
  device_major :: nat
  launch_check_create_meta :: bool
  launch_check_reorder_meta :: bool
  launch_check_gemm :: bool
  fresh_strides :: "nat list \<Rightarrow> nat list"
  uninitialized :: "nat \<Rightarrow> int"
  traits :: "gemm_config \<Rightarrow> gemm_traits"
  can_implement :: "gemm_config \<Rightarrow> gemm_arguments \<Rightarrow> Status"
  get_workspace_size :: "gemm_config \<Rightarrow> gemm_arguments \<Rightarrow> nat"
  initialize :: "gemm_config \<Rightarrow> gemm_arguments \<Rightarrow> Status"
  run :: "gemm_config \<Rightarrow> gemm_arguments \<Rightarrow> Status \<times> (nat \<Rightarrow> int)"

text \<open>
  Every \<^verbatim>\<open>TORCH_CHECK\<close> and \<^verbatim>\<open>AT_ERROR\<close> of the file, by what it reports, and the error
  of the allocator.
\<close>

datatype error =
    Unsupported_compute_capability
  | Expected_strided string
  | Expected_2D string
  | Invalid_strides string
  | Rows_of_sparse_not_divisible nat
  | Rows_of_dense_not_divisible nat
  | Columns_of_dense_not_divisible nat
  | Invalid_output_datatype
  | Invalid_meta_size
  | Mask_not_2_4_sparse
  | Cuda_launch_error
  | Cutlass_error Status
  | Combination_not_supported bool bool
  | Negative_dimension

type_synonym 'a result = "event list \<times> (error + 'a)"

subsection \<open>Allocation\<close>

text \<open>
  Modelled from the spec: \<^verbatim>\<open>Tensor::new_empty\<close> is ATen's and not among the sources. Sections
  3 and 5 of the specification have the Dispatcher allocate the Output Matrix and the two
  metadata matrices as strided matrix handles with the dimensions and the datatype it
  determines; so the tensor has the sizes and the element type of the call. The
  specification gives no layout for the Output Matrix: the strides are the allocator's, as is
  the content before the first write. A negative size is refused, which is an error of the
  allocator.
\<close>

definition new_empty :: "env \<Rightarrow> int list \<Rightarrow> ScalarType \<Rightarrow> Tensor option" where
  "new_empty e shape dtype =
     (if list_ex (\<lambda>s. s < 0) shape then None
      else Some \<lparr>scalar_type = dtype, layout = Strided, sizes = map nat shape,
                 strides = fresh_strides e (map nat shape), data_ptr = uninitialized e\<rparr>)"

subsection \<open>\<^verbatim>\<open>two_four_sgemm_cutlass\<close>\<close>

text \<open>Lines 242 to 255: the element type of the metadata tensor.\<close>

definition meta_dtype :: "nat \<Rightarrow> ScalarType option" where
  "meta_dtype sizeof_E =
     (if sizeof_E = 1 then Some kChar
      else if sizeof_E = 2 then Some kShort
      else if sizeof_E = 4 then Some kInt
      else None)"

text \<open>Lines 204 to 214: the element type of the output tensor.\<close>

definition tensor_d_dtype :: "Element \<Rightarrow> ScalarType option" where
  "tensor_d_dtype out =
     (if out = int32_t then Some kInt
      else if out = half_t then Some kHalf
      else None)"

text \<open>
  The value that a tensor of signed elements of \<open>sizeof_T\<close> bytes (\<^verbatim>\<open>kChar\<close>, \<^verbatim>\<open>kShort\<close>,
  \<^verbatim>\<open>kInt\<close>) shows for a cell that holds the bits \<open>v\<close>.
\<close>

definition signed_value :: "nat \<Rightarrow> nat \<Rightarrow> int" where
  "signed_value sizeof_T v =
     (if v mod 2 ^ (8 * sizeof_T) < 2 ^ (8 * sizeof_T - 1) then int (v mod 2 ^ (8 * sizeof_T))
      else int (v mod 2 ^ (8 * sizeof_T)) - 2 ^ (8 * sizeof_T))"

text \<open>
  The memory of a tensor after a kernel defined some of its cells; a cell that was stored
  an undefined value keeps whatever it held.
\<close>

definition written :: "nat \<Rightarrow> (nat \<Rightarrow> int) \<Rightarrow> (nat \<rightharpoonup> nat) \<Rightarrow> (nat \<Rightarrow> int)" where
  "written sizeof_T mem cells =
     (\<lambda>i. case cells i of None \<Rightarrow> mem i | Some v \<Rightarrow> signed_value sizeof_T v)"

text \<open>
  Lines 275 to 293: the reordered metadata. \<open>meta.sizes()\<close> holds \<open>length_m\<close> and
  \<open>meta_ncols\<close>, which are not negative once \<open>meta\<close> has been allocated, so they are the
  natural numbers that \<^verbatim>\<open>two_four_reorder_meta_kernel\<close> and the two packed layouts take.
\<close>

definition sgemm_reorder :: "env \<Rightarrow> gemm_traits \<Rightarrow> int \<Rightarrow> int \<Rightarrow> Tensor \<Rightarrow> Tensor result" where
  "sgemm_reorder e tr length_m meta_ncols meta =
     (case new_empty e (map int (sizes meta)) (scalar_type meta) of
        None \<Rightarrow> ([Alloc_meta_reordered], Inl Negative_dimension)
      | Some meta_reordered \<Rightarrow>
         (let meta_reordered = meta_reordered
                \<lparr>data_ptr := two_four_reorder_meta_kernel (sizeof_ElementInputE tr)
                    (nat length_m) (nat meta_ncols)
                    (RowMajor_at (nat meta_ncols)) (data_ptr meta)
                    (ReorderedLayoutInputE_packed tr (nat length_m, nat meta_ncols))
                    (data_ptr meta_reordered)\<rparr>
          in if \<not> launch_check_reorder_meta e
             then ([Alloc_meta_reordered, Launch_reorder_meta], Inl Cuda_launch_error)
             else ([Alloc_meta_reordered, Launch_reorder_meta], Inr meta_reordered)))"

text \<open>
  Lines 224 to 297: the metadata handed to the engine. For a boolean \<open>mask_or_meta\<close> the
  mask is validated, the metadata is built, the failure flag is read back and checked, and
  the metadata is reordered; otherwise \<open>mask_or_meta\<close> itself is taken. The row strides of
  the mask and of the metadata are converted to \<^verbatim>\<open>int\<close> for the kernel.
\<close>

definition sgemm_meta :: "env \<Rightarrow> gemm_traits \<Rightarrow> int \<Rightarrow> int \<Rightarrow> int \<Rightarrow> Tensor \<Rightarrow> Tensor result" where
  "sgemm_meta e tr length_m length_k meta_ncols mask_or_meta =
     (if scalar_type mask_or_meta = kBool then
        (let mask = mask_or_meta in
         if layout mask \<noteq> Strided then ([], Inl (Expected_strided ''mask''))
         else if length (sizes mask) \<noteq> 2 then ([], Inl (Expected_2D ''mask''))
         else
           (let strides_mask = strides mask in
            if strides_mask ! 1 \<noteq> 1 then ([], Inl (Invalid_strides ''mask_or_meta''))
            else
              (case meta_dtype (sizeof_ElementInputE tr) of
                 None \<Rightarrow> ([], Inl Invalid_meta_size)
               | Some dtype \<Rightarrow>
                  (case new_empty e [length_m, meta_ncols] dtype of
                     None \<Rightarrow> ([Alloc_meta], Inl Negative_dimension)
                   | Some meta \<Rightarrow>
                      (let built = two_four_create_meta_kernel (sizeof_ElementInputE tr)
                                     length_m length_k (narrow_int (strides_mask ! 0))
                                     (\<lambda>i. data_ptr mask i \<noteq> 0)
                                     (narrow_int (strides meta ! 0)) Map.empty False;
                           meta = meta \<lparr>data_ptr :=
                                    written (sizeof_ElementInputE tr) (data_ptr meta) (fst built)\<rparr>
                       in if \<not> launch_check_create_meta e
                          then ([Alloc_meta, Alloc_error, Launch_create_meta], Inl Cuda_launch_error)
                          else if snd built
                          then ([Alloc_meta, Alloc_error, Launch_create_meta, Item_error],
                                Inl Mask_not_2_4_sparse)
                          else
                            (case sgemm_reorder e tr length_m meta_ncols meta of
                               (evs, r) \<Rightarrow>
                                 ([Alloc_meta, Alloc_error, Launch_create_meta, Item_error] @ evs,
                                  r)))))))
      else ([], Inr mask_or_meta))"

text \<open>Lines 300 to 330: the arguments of the engine.\<close>

definition sgemm_arguments ::
  "gemm_config \<Rightarrow> int \<Rightarrow> int \<Rightarrow> int \<Rightarrow> Tensor \<Rightarrow> nat \<Rightarrow> Tensor \<Rightarrow> nat \<Rightarrow> Tensor \<Rightarrow> Tensor \<Rightarrow> gemm_arguments" where
  "sgemm_arguments cfg length_m length_n length_k tensor_a tensor_a_stride tensor_b tensor_b_stride
      tensor_d meta_reordered =
     (let tensor_a_device_ref =
            \<lparr>ref_ptr = data_ptr tensor_a, ref_layout = LayoutInputA cfg, ref_stride = tensor_a_stride\<rparr>;
          tensor_b_device_ref =
            \<lparr>ref_ptr = data_ptr tensor_b, ref_layout = LayoutInputB cfg, ref_stride = tensor_b_stride\<rparr>;
          tensor_d_device_ref =
            \<lparr>ref_ptr = data_ptr tensor_d, ref_layout = RowMajor, ref_stride = strides tensor_d ! 0\<rparr>
      in \<lparr>problem_size = (length_m, length_n, length_k),
          ref_A = tensor_a_device_ref,
          ref_B = tensor_b_device_ref,
          ref_C = tensor_d_device_ref,
          ref_D = tensor_d_device_ref,
          ref_E = data_ptr meta_reordered,
          epilogue = (1, 0),
          split_k_slices = 1\<rparr>)"

text \<open>Lines 332 to 358: the engine is asked, initialised and run, each status checked.\<close>

definition sgemm_run :: "env \<Rightarrow> gemm_config \<Rightarrow> gemm_arguments \<Rightarrow> Tensor \<Rightarrow> Tensor \<Rightarrow> (Tensor \<times> Tensor) result" where
  "sgemm_run e cfg arguments tensor_d meta_reordered =
     (if can_implement e cfg arguments \<noteq> kSuccess
      then ([], Inl (Cutlass_error (can_implement e cfg arguments)))
      else if initialize e cfg arguments \<noteq> kSuccess
      then ([Alloc_workspace, Gemm_initialize arguments],
            Inl (Cutlass_error (initialize e cfg arguments)))
      else if fst (run e cfg arguments) \<noteq> kSuccess
      then ([Alloc_workspace, Gemm_initialize arguments, Gemm_run arguments],
            Inl (Cutlass_error (fst (run e cfg arguments))))
      else if \<not> launch_check_gemm e
      then ([Alloc_workspace, Gemm_initialize arguments, Gemm_run arguments], Inl Cuda_launch_error)
      else ([Alloc_workspace, Gemm_initialize arguments, Gemm_run arguments],
            Inr (tensor_d \<lparr>data_ptr := snd (run e cfg arguments)\<rparr>, meta_reordered)))"

text \<open>
  Lines 144 to 359. The three sizes are converted to \<^verbatim>\<open>int\<close> (lines 185 to 187), and the
  quotients and remainders are C's; \<^verbatim>\<open>kSparse\<close> and \<^verbatim>\<open>kElementsPerElementE\<close> are positive
  constants of type \<^verbatim>\<open>int\<close>.
\<close>

definition two_four_sgemm_cutlass ::
  "env \<Rightarrow> gemm_config \<Rightarrow> Tensor \<Rightarrow> nat \<Rightarrow> Tensor \<Rightarrow> nat \<Rightarrow> Tensor \<Rightarrow> (Tensor \<times> Tensor) result" where
  "two_four_sgemm_cutlass e cfg tensor_a tensor_a_stride tensor_b tensor_b_stride mask_or_meta =
     (let tr = traits e cfg;
          length_m = narrow_int (sizes tensor_a ! 0);
          length_k = narrow_int (sizes tensor_b ! 0);
          length_n = narrow_int (sizes tensor_b ! 1);
          meta_ncols = length_k sdiv int (kSparse tr) sdiv int (kElementsPerElementE tr);
          input_a_is_half = (ElementInputA cfg = half_t)
      in if length_m smod 32 \<noteq> 0 then ([], Inl (Rows_of_sparse_not_divisible 32))
         else if length_k smod (if input_a_is_half then 64 else 128) \<noteq> 0
         then ([], Inl (Rows_of_dense_not_divisible (if input_a_is_half then 64 else 128)))
         else if length_n smod (if input_a_is_half then 8 else 16) \<noteq> 0
         then ([], Inl (Columns_of_dense_not_divisible (if input_a_is_half then 8 else 16)))
         else
           (case tensor_d_dtype (ElementOutput cfg) of
              None \<Rightarrow> ([], Inl Invalid_output_datatype)
            | Some dtype \<Rightarrow>
               (case new_empty e [length_m, length_n] dtype of
                  None \<Rightarrow> ([Alloc_tensor_d], Inl Negative_dimension)
                | Some tensor_d \<Rightarrow>
                   (case sgemm_meta e tr length_m length_k meta_ncols mask_or_meta of
                      (evs, Inl err) \<Rightarrow> (Alloc_tensor_d # evs, Inl err)
                    | (evs, Inr meta_reordered) \<Rightarrow>
                       (case sgemm_run e cfg
                               (sgemm_arguments cfg length_m length_n length_k tensor_a
                                  tensor_a_stride tensor_b tensor_b_stride tensor_d meta_reordered)
                               tensor_d meta_reordered of
                          (evs', r) \<Rightarrow> (Alloc_tensor_d # evs @ evs', r))))))"

subsection \<open>\<^verbatim>\<open>_structured_sparse_linear\<close>\<close>

text \<open>The template arguments of the two cases of the dispatch (lines 445 to 457 and 488 to 500).\<close>

definition config_Char :: "MatrixLayout \<Rightarrow> MatrixLayout \<Rightarrow> gemm_config" where
  "config_Char la lb =
     \<lparr>ElementInputA = int8_t, ElementInputB = int8_t, ElementOutput = int32_t,
      ElementAccumulator = int32_t, ElementComputeEpilogue = int32_t,
      ThreadblockShape = (128, 128, 128), WarpShape = (64, 64, 128), InstructionShape = (16, 8, 64),
      EpilogueOp = (int32_t, 128 div 32, int32_t, int32_t),
      LayoutInputA = la, LayoutInputB = lb\<rparr>"

definition config_Half :: "MatrixLayout \<Rightarrow> MatrixLayout \<Rightarrow> gemm_config" where
  "config_Half la lb =
     \<lparr>ElementInputA = half_t, ElementInputB = half_t, ElementOutput = half_t,
      ElementAccumulator = float_t, ElementComputeEpilogue = half_t,
      ThreadblockShape = (128, 128, 64), WarpShape = (64, 64, 64), InstructionShape = (16, 8, 32),
      EpilogueOp = (half_t, 128 div 16, float_t, half_t),
      LayoutInputA = la, LayoutInputB = lb\<rparr>"

text \<open>
  Modelled from the spec: the \<^verbatim>\<open>default\<close> branch of \<^verbatim>\<open>AT_DISPATCH_SWITCH\<close>
  (\<^verbatim>\<open>ATen/Dispatch.h\<close>, not among the sources), taken for an element type that has no
  \<^verbatim>\<open>AT_DISPATCH_CASE\<close>. Sections 4.3 and 9 of the specification: unmatched cases are an
  explicit error branch, the fatal "combination not supported" error, never a silent
  default.
\<close>

definition AT_DISPATCH_default :: "ScalarType \<Rightarrow> bool \<Rightarrow> bool \<Rightarrow> error" where
  "AT_DISPATCH_default st tensor_a_row_major tensor_b_row_major =
     Combination_not_supported tensor_a_row_major tensor_b_row_major"

text \<open>
  Lines 439 to 581: the specialisation selected for an element type and a pair of layouts,
  or the error raised instead. The fourth test of the half-precision case (line 561) holds
  whenever the first three have failed, so it is the last branch here.
\<close>

definition dispatch :: "ScalarType \<Rightarrow> bool \<Rightarrow> bool \<Rightarrow> error + gemm_config" where
  "dispatch st tensor_a_row_major tensor_b_row_major =
     (if st = kChar then
        (if tensor_a_row_major \<and> \<not> tensor_b_row_major then Inr (config_Char RowMajor ColumnMajor)
         else Inl (Combination_not_supported tensor_a_row_major tensor_b_row_major))
      else if st = kHalf then
        (if tensor_a_row_major \<and> tensor_b_row_major then Inr (config_Half RowMajor RowMajor)
         else if tensor_a_row_major \<and> \<not> tensor_b_row_major then Inr (config_Half RowMajor ColumnMajor)
         else if \<not> tensor_a_row_major \<and> tensor_b_row_major then Inr (config_Half ColumnMajor RowMajor)
         else Inr (config_Half ColumnMajor ColumnMajor))
      else Inl (AT_DISPATCH_default st tensor_a_row_major tensor_b_row_major))"

text \<open>Lines 387 to 582, in a build with CUTLASS (\<^verbatim>\<open>USE_ROCM\<close> not defined).\<close>

definition structured_sparse_linear :: "env \<Rightarrow> Tensor \<Rightarrow> Tensor \<Rightarrow> Tensor \<Rightarrow> (Tensor \<times> Tensor) result" where
  "structured_sparse_linear e tensor_a tensor_b mask_or_meta =
     (let is_sm8x = (device_major e = 8) in
      if \<not> is_sm8x then ([], Inl Unsupported_compute_capability)
      else if layout tensor_a \<noteq> Strided then ([], Inl (Expected_strided ''tensor_a''))
      else if length (sizes tensor_a) \<noteq> 2 then ([], Inl (Expected_2D ''tensor_a''))
      else
        (let strides_a = strides tensor_a in
         if \<not> ((strides_a ! 0 = 1 \<or> strides_a ! 1 = 1) \<and> strides_a ! 0 \<noteq> strides_a ! 1)
         then ([], Inl (Invalid_strides ''tensor_a''))
         else if layout tensor_b \<noteq> Strided then ([], Inl (Expected_strided ''tensor_b''))
         else if length (sizes tensor_b) \<noteq> 2 then ([], Inl (Expected_2D ''tensor_b''))
         else
           (let strides_b = strides tensor_b in
            if \<not> ((strides_b ! 0 = 1 \<or> strides_b ! 1 = 1) \<and> strides_b ! 0 \<noteq> strides_b ! 1)
            then ([], Inl (Invalid_strides ''tensor_b''))
            else
              (let tensor_a_row_major = (strides_a ! 1 = 1);
                   tensor_a_stride = (if tensor_a_row_major then strides_a ! 0 else strides_a ! 1);
                   tensor_b_row_major = (strides_b ! 1 = 1);
                   tensor_b_stride = (if tensor_b_row_major then strides_b ! 0 else strides_b ! 1)
               in case dispatch (scalar_type tensor_a) tensor_a_row_major tensor_b_row_major of
                    Inl err \<Rightarrow> ([], Inl err)
                  | Inr cfg \<Rightarrow>
                     two_four_sgemm_cutlass e cfg tensor_a tensor_a_stride tensor_b tensor_b_stride
                       mask_or_meta))))"

section \<open>The validations, gathered\<close>

text \<open>
  The checks of \<^verbatim>\<open>_structured_sparse_linear\<close> on the device and the two operands (lines
  395 to 423).
\<close>

definition operand_checks :: "env \<Rightarrow> Tensor \<Rightarrow> Tensor \<Rightarrow> bool" where
  "operand_checks e tensor_a tensor_b \<longleftrightarrow>
     device_major e = 8
     \<and> layout tensor_a = Strided \<and> length (sizes tensor_a) = 2
     \<and> (strides tensor_a ! 0 = 1 \<or> strides tensor_a ! 1 = 1) \<and> strides tensor_a ! 0 \<noteq> strides tensor_a ! 1
     \<and> layout tensor_b = Strided \<and> length (sizes tensor_b) = 2
     \<and> (strides tensor_b ! 0 = 1 \<or> strides tensor_b ! 1 = 1) \<and> strides tensor_b ! 0 \<noteq> strides tensor_b ! 1"

text \<open>
  The three size checks of \<^verbatim>\<open>two_four_sgemm_cutlass\<close> (lines 191 to 201).
\<close>

definition size_checks :: "gemm_config \<Rightarrow> Tensor \<Rightarrow> Tensor \<Rightarrow> bool" where
  "size_checks cfg tensor_a tensor_b \<longleftrightarrow>
     sizes tensor_a ! 0 mod 32 = 0
     \<and> sizes tensor_b ! 0 mod (if ElementInputA cfg = half_t then 64 else 128) = 0
     \<and> sizes tensor_b ! 1 mod (if ElementInputA cfg = half_t then 8 else 16) = 0"

text \<open>
  The checks on a boolean \<open>mask_or_meta\<close> (lines 229 to 239) and on the size of the metadata
  element (lines 242 to 255).
\<close>

definition mask_checks :: "gemm_traits \<Rightarrow> Tensor \<Rightarrow> bool" where
  "mask_checks tr msk \<longleftrightarrow>
     layout msk = Strided \<and> length (sizes msk) = 2 \<and> strides msk ! 1 = 1
     \<and> meta_dtype (sizeof_ElementInputE tr) \<noteq> None"

text \<open>
  The errors of the validations on the host, as opposed to the error of the mask's content,
  of a kernel launch, of the engine and of the allocator.
\<close>

fun precondition_error :: "error \<Rightarrow> bool" where
  "precondition_error Mask_not_2_4_sparse = False"
| "precondition_error Cuda_launch_error = False"
| "precondition_error (Cutlass_error s) = False"
| "precondition_error Negative_dimension = False"
| "precondition_error err = True"

text \<open>
  \<^verbatim>\<open>two_four_sgemm_cutlass\<close> from line 216 on, once the size checks have passed and the
  element type of the output is known.
\<close>

definition sgemm_body ::
  "env \<Rightarrow> gemm_config \<Rightarrow> ScalarType \<Rightarrow> Tensor \<Rightarrow> nat \<Rightarrow> Tensor \<Rightarrow> nat \<Rightarrow> Tensor \<Rightarrow> (Tensor \<times> Tensor) result" where
  "sgemm_body e cfg dtype tensor_a tensor_a_stride tensor_b tensor_b_stride mask_or_meta =
     (let tr = traits e cfg;
          length_m = narrow_int (sizes tensor_a ! 0);
          length_k = narrow_int (sizes tensor_b ! 0);
          length_n = narrow_int (sizes tensor_b ! 1);
          meta_ncols = length_k sdiv int (kSparse tr) sdiv int (kElementsPerElementE tr)
      in case new_empty e [length_m, length_n] dtype of
           None \<Rightarrow> ([Alloc_tensor_d], Inl Negative_dimension)
         | Some tensor_d \<Rightarrow>
            (case sgemm_meta e tr length_m length_k meta_ncols mask_or_meta of
               (evs, Inl err) \<Rightarrow> (Alloc_tensor_d # evs, Inl err)
             | (evs, Inr meta_reordered) \<Rightarrow>
                (case sgemm_run e cfg
                        (sgemm_arguments cfg length_m length_n length_k tensor_a tensor_a_stride
                           tensor_b tensor_b_stride tensor_d meta_reordered)
                        tensor_d meta_reordered of
                   (evs', r) \<Rightarrow> (Alloc_tensor_d # evs @ evs', r))))"

text \<open>
  The group of four entries \<open>4 * k\<close> to \<open>4 * k + 3\<close> of row \<open>m\<close> of a two-dimensional tensor,
  read through its strides.
\<close>

definition mask_group :: "Tensor \<Rightarrow> nat \<Rightarrow> nat \<Rightarrow> bool \<times> bool \<times> bool \<times> bool" where
  "mask_group msk m k =
     (data_ptr msk (m * strides msk ! 0 + (4 * k) * strides msk ! 1) \<noteq> 0,
      data_ptr msk (m * strides msk ! 0 + (4 * k + 1) * strides msk ! 1) \<noteq> 0,
      data_ptr msk (m * strides msk ! 0 + (4 * k + 2) * strides msk ! 1) \<noteq> 0,
      data_ptr msk (m * strides msk ! 0 + (4 * k + 3) * strides msk ! 1) \<noteq> 0)"

text \<open>Lines 426 to 429: the leading dimension of an operand.\<close>

definition stride_of :: "Tensor \<Rightarrow> nat" where
  "stride_of t = (if strides t ! 1 = 1 then strides t ! 0 else strides t ! 1)"

section \<open>Example inputs\<close>

text \<open>
  The traits CUTLASS has for the two instantiations of the dispatch: 2-byte metadata
  elements that stand for 8 elements of the sparse operand under half precision, 4-byte
  metadata elements that stand for 16 elements otherwise, and a column-major layout
  interleaved by 2 for the reordered metadata.
\<close>

definition example_traits :: "gemm_config \<Rightarrow> gemm_traits" where
  "example_traits cfg =
     (if ElementInputA cfg = half_t
      then \<lparr>sizeof_ElementInputE = 2, kSparse = 2, kElementsPerElementE = 8,
            ReorderedLayoutInputE_packed = (\<lambda>ext c. snd c div 2 * (fst ext * 2) + fst c * 2 + snd c mod 2)\<rparr>
      else \<lparr>sizeof_ElementInputE = 4, kSparse = 2, kElementsPerElementE = 16,
            ReorderedLayoutInputE_packed = (\<lambda>ext c. snd c div 2 * (fst ext * 2) + fst c * 2 + snd c mod 2)\<rparr>)"

text \<open>Row-major strides for given sizes, as ATen computes them for a contiguous tensor.\<close>

fun contiguous_strides :: "nat list \<Rightarrow> nat list" where
  "contiguous_strides [] = []"
| "contiguous_strides (n # ns) = prod_list (map (max 1) ns) # contiguous_strides ns"

text \<open>
  A device of compute capability 8.x on which every launch and every engine call succeeds,
  with an allocator of contiguous tensors.
\<close>

definition example_env :: env where
  "example_env =
     \<lparr>device_major = 8,
      launch_check_create_meta = True,
      launch_check_reorder_meta = True,
      launch_check_gemm = True,
      fresh_strides = contiguous_strides,
      uninitialized = (\<lambda>i. 0),
      traits = example_traits,
      can_implement = (\<lambda>cfg args. kSuccess),
      get_workspace_size = (\<lambda>cfg args. 0),
      initialize = (\<lambda>cfg args. kSuccess),
      run = (\<lambda>cfg args. (kSuccess, (\<lambda>i. 0)))\<rparr>"

text \<open>A contiguous row-major matrix of the given element type and shape, all cells 0.\<close>

definition example_tensor :: "ScalarType \<Rightarrow> nat \<Rightarrow> nat \<Rightarrow> Tensor" where
  "example_tensor dtype rows cols =
     \<lparr>scalar_type = dtype, layout = Strided, sizes = [rows, cols], strides = [cols, 1],
      data_ptr = (\<lambda>i. 0)\<rparr>"

text \<open>A column-major matrix.\<close>

definition example_tensor_cm :: "ScalarType \<Rightarrow> nat \<Rightarrow> nat \<Rightarrow> Tensor" where
  "example_tensor_cm dtype rows cols =
     \<lparr>scalar_type = dtype, layout = Strided, sizes = [rows, cols], strides = [1, rows],
      data_ptr = (\<lambda>i. 0)\<rparr>"

text \<open>The mask memory in which every group of four reads (1, 1, 0, 0).\<close>

definition example_mask_ptr :: "nat \<Rightarrow> bool" where
  "example_mask_ptr i \<longleftrightarrow> i mod 4 < 2"

text \<open>A metadata buffer none of whose cells is defined yet.\<close>

definition example_meta :: "nat \<rightharpoonup> nat" where
  "example_meta = Map.empty"

text \<open>The first warp of the first block.\<close>

definition example_warp :: warp where
  "example_warp = \<lparr>block_x = 0, block_y = 0, warp_id = 0\<rparr>"

text \<open>
  A boolean mask of 64 rows and 64 columns: in the first 32 rows every group of four reads
  (1, 1, 0, 0); the rows below hold no true entry.
\<close>

definition example_mask_tail :: Tensor where
  "example_mask_tail =
     \<lparr>scalar_type = kBool, layout = Strided, sizes = [64, 64], strides = [64, 1],
      data_ptr = (\<lambda>i. if i < 2048 \<and> i mod 4 < 2 then 1 else 0)\<rparr>"

text \<open>
  A half-precision matrix of 64 rows and \<open>2 ^ 32 + 8\<close> columns, one column expanded (the
  column stride is 0).
\<close>

definition example_tensor_expanded :: Tensor where
  "example_tensor_expanded =
     \<lparr>scalar_type = kHalf, layout = Strided, sizes = [64, 4294967304], strides = [1, 0],
      data_ptr = (\<lambda>i. 0)\<rparr>"

section \<open>Auxiliary notions for the proofs\<close>

text \<open>
  \<open>pack_codes c n\<close> is the value whose \<open>t\<close>-th nibble, for \<open>t < n\<close>, is the code \<open>c t\<close>.
\<close>

definition pack_codes :: "(nat \<Rightarrow> nat) \<Rightarrow> nat \<Rightarrow> nat" where
  "pack_codes c n = (\<Sum>t = 0..<n. c t * 16 ^ t)"

text \<open>
  The two steps of \<open>reorder_dst\<close> taken apart: the relocation of the row, and the swizzle
  of the 2 by 2 blocks; the group size; and the inverse of the row relocation.
\<close>

definition reorder_group :: "nat \<Rightarrow> nat" where
  "reorder_group sz = (if sz = 2 then 32 else 16)"

definition reorder_row :: "nat \<Rightarrow> nat \<Rightarrow> nat" where
  "reorder_row sz m =
     (let group = (if sz = 2 then 32 else 16);
          interweave = (if sz = 2 then 4 else 2)
      in m div group * group + (m mod 8) * interweave + (m mod group) div 8)"

definition swizzle :: "nat \<times> nat \<Rightarrow> nat \<times> nat" where
  "swizzle c =
     (case c of (dst_row, dst_col) \<Rightarrow>
        if dst_row mod 2 = 0 \<and> dst_col mod 2 = 1 then (dst_row + 1, dst_col - 1)
        else if dst_row mod 2 = 1 \<and> dst_col mod 2 = 0 then (dst_row - 1, dst_col + 1)
        else (dst_row, dst_col))"

definition row_inv :: "nat \<Rightarrow> nat \<Rightarrow> nat" where
  "row_inv sz r =
     (if sz = 2 then r div 32 * 32 + (r mod 32) mod 4 * 8 + (r mod 32) div 4
      else r div 16 * 16 + (r mod 16) mod 2 * 8 + (r mod 16) div 2)"

section \<open>Lemmas about the conversions of integers\<close>

lemma unsigned_int_of_nat: "n < 2 ^ 32 \<Longrightarrow> unsigned_int (int n) = n"
  by (simp add: unsigned_int_def)

lemma narrow_int_of_small: "n < 2 ^ 31 \<Longrightarrow> narrow_int n = int n"
  by (simp add: narrow_int_def)

lemma unsigned_int_narrow_int: "unsigned_int (narrow_int n) = n mod 2 ^ 32"
proof -
  have "(narrow_int n) mod 2 ^ 32 = ((int n + 2 ^ 31) mod 2 ^ 32 - 2 ^ 31 mod 2 ^ 32) mod 2 ^ 32"
    by (simp add: narrow_int_def)
  also have "\<dots> = (int n + 2 ^ 31 - 2 ^ 31) mod 2 ^ 32"
    by (simp only: mod_diff_eq)
  finally have "narrow_int n mod 2 ^ 32 = int n mod 2 ^ 32" by simp
  then show ?thesis by (simp add: unsigned_int_def nat_mod_distrib flip: zmod_int)
qed

lemma sdiv_of_nat: "int a sdiv int b = int (a div b)"
  by (simp add: signed_divide_int_def sgn_if zdiv_int)

lemma smod_of_nat: "int a smod int b = int (a mod b)"
  by (simp add: signed_modulo_int_def sgn_if zmod_int)

lemma smod_eq_0_iff_dvd: "(x::int) smod d = 0 \<longleftrightarrow> d dvd x"
  by (auto simp: signed_modulo_int_def sgn_if mod_eq_0_iff_dvd)

lemma narrow_int_dvd:
  assumes "d dvd (2::int) ^ 31"
  shows "d dvd narrow_int n \<longleftrightarrow> d dvd int n"
proof -
  have d32: "d dvd (2::int) ^ 32"
    using assms by (rule dvd_trans) (simp add: le_imp_power_dvd)
  have "d dvd narrow_int n \<longleftrightarrow> d dvd (int n + 2 ^ 31) mod 2 ^ 32"
    unfolding narrow_int_def using assms by (simp add: dvd_diff_left_iff)
  also have "\<dots> \<longleftrightarrow> d dvd int n + 2 ^ 31"
    using d32 by (rule dvd_mod_iff)
  also have "\<dots> \<longleftrightarrow> d dvd int n"
    using assms by (simp add: dvd_add_left_iff)
  finally show ?thesis .
qed

lemma narrow_int_smod:
  assumes "int d dvd 2 ^ 31"
  shows "narrow_int n smod int d = 0 \<longleftrightarrow> n mod d = 0"
  unfolding smod_eq_0_iff_dvd narrow_int_dvd [OF assms]
  by (simp add: mod_eq_0_iff_dvd)

lemma narrow_int_smod_numerals:
  "narrow_int n smod 8 = 0 \<longleftrightarrow> n mod 8 = 0"
  "narrow_int n smod 16 = 0 \<longleftrightarrow> n mod 16 = 0"
  "narrow_int n smod 32 = 0 \<longleftrightarrow> n mod 32 = 0"
  "narrow_int n smod 64 = 0 \<longleftrightarrow> n mod 64 = 0"
  "narrow_int n smod 128 = 0 \<longleftrightarrow> n mod 128 = 0"
  using narrow_int_smod [of 8 n] narrow_int_smod [of 16 n] narrow_int_smod [of 32 n]
    narrow_int_smod [of 64 n] narrow_int_smod [of 128 n]
  by simp_all

section \<open>Lemmas about the kernels\<close>

subsection \<open>The metadata builder\<close>

lemma or_push_bit_add:
  fixes v u :: nat
  assumes "v < 2 ^ n"
  shows "v OR push_bit n u = v + u * 2 ^ n"
proof -
  have v: "take_bit n v = v" using assms by (simp add: take_bit_nat_eq_self_iff)
  have "take_bit n v AND push_bit n u = 0"
    by (auto simp: bit_eq_iff bit_simps)
  then have "v AND push_bit n u = 0" by (simp only: v)
  then have "v + push_bit n u = v OR push_bit n u" by (rule disjunctive_add_eq_or)
  then show ?thesis by (simp add: push_bit_eq_mult)
qed

lemma shfl_loop_step:
  "0 < i \<Longrightarrow> i < 2 * sizeof_T \<Longrightarrow>
   shfl_loop sizeof_T i vals =
     shfl_loop sizeof_T (i * 2) (\<lambda>lane. shfl_combine sizeof_T i (vals lane) (shfl_down_sync vals i lane))"
  by (subst shfl_loop.simps) simp

lemma shfl_loop_stop: "\<not> i < 2 * sizeof_T \<Longrightarrow> shfl_loop sizeof_T i vals = vals"
  by (subst shfl_loop.simps) simp

lemma pack_codes_less:
  assumes "\<And>t. t < n \<Longrightarrow> c t < 16"
  shows "pack_codes c n < 16 ^ n"
  using assms
proof (induction n)
  case 0
  show ?case by (simp add: pack_codes_def)
next
  case (Suc n)
  have "pack_codes c n < 16 ^ n" using Suc by simp
  moreover have "c n * 16 ^ n \<le> 15 * 16 ^ n" using Suc.prems [of n] by simp
  ultimately have "pack_codes c n + c n * 16 ^ n < 16 ^ n + 15 * 16 ^ n"
    by (rule add_less_le_mono)
  then show ?case by (simp add: pack_codes_def)
qed

lemma pack_codes_double:
  "pack_codes c (i * 2) = pack_codes c i + pack_codes (\<lambda>t. c (t + i)) i * 16 ^ i"
proof -
  have "pack_codes c (i * 2) = (\<Sum>t = 0..<i. c t * 16 ^ t) + (\<Sum>t = 0 + i..<i + i. c t * 16 ^ t)"
    unfolding pack_codes_def using sum.atLeastLessThan_concat [of 0 i "i + i" "\<lambda>t. c t * 16 ^ t"]
    by (simp add: mult_2_right)
  also have "(\<Sum>t = 0 + i..<i + i. c t * 16 ^ t) = (\<Sum>t = 0..<i. c (t + i) * 16 ^ (t + i))"
    by (rule sum.shift_bounds_nat_ivl)
  also have "\<dots> = (\<Sum>t = 0..<i. c (t + i) * 16 ^ t) * 16 ^ i"
    by (simp add: sum_distrib_right power_add mult.assoc)
  finally show ?thesis by (simp add: pack_codes_def)
qed

lemma shfl_combine_pack:
  assumes "v < 16 ^ i" "u < 16 ^ i" "i < 2 * sizeof_T" "i * 2 \<le> 2 * sizeof_T"
  shows "shfl_combine sizeof_T i (Some v) (Some u) = Some (v + u * 16 ^ i)"
proof -
  have p: "(16::nat) ^ i = 2 ^ (4 * i)" by (simp add: power_mult)
  have "u + 1 \<le> 16 ^ i" using assms(2) by simp
  then have "(u + 1) * 16 ^ i \<le> 16 ^ i * 16 ^ i" by (rule mult_le_mono1)
  then have "v + u * 16 ^ i < 16 ^ i * 16 ^ i" using assms(1) by simp
  also have "\<dots> = (2::nat) ^ (8 * i)" by (simp add: p flip: power_add)
  also have "\<dots> \<le> 2 ^ (8 * sizeof_T)" using assms(4) by simp
  finally have "v + u * 16 ^ i < 2 ^ (8 * sizeof_T)" .
  moreover have "v OR push_bit (4 * i) u = v + u * 2 ^ (4 * i)"
    using assms(1) by (intro or_push_bit_add) (simp add: p)
  ultimately show ?thesis by (simp add: shfl_combine_def p)
qed

lemma shfl_loop_pack:
  assumes "2 * sizeof_T = i * 2 ^ e" and "0 < i" and "lane + 2 * sizeof_T \<le> 32"
    and "\<And>t. t < 2 * sizeof_T \<Longrightarrow> c t < 16"
    and "\<And>j. j + i \<le> 2 * sizeof_T \<Longrightarrow> vals (lane + j) = Some (pack_codes (\<lambda>t. c (t + j)) i)"
  shows "shfl_loop sizeof_T i vals lane = Some (pack_codes c (2 * sizeof_T))"
  using assms
proof (induction e arbitrary: i vals)
  case 0
  then have "vals (lane + 0) = Some (pack_codes (\<lambda>t. c (t + 0)) i)" by (intro "0.prems"(5)) simp
  then show ?case using "0.prems"(1) by (simp add: shfl_loop_stop)
next
  case (Suc e)
  let ?vals = "\<lambda>l. shfl_combine sizeof_T i (vals l) (shfl_down_sync vals i l)"
  have "i * 2 * 1 \<le> i * 2 * 2 ^ e" by (rule mult_le_mono2) simp
  then have le: "i * 2 \<le> 2 * sizeof_T" using Suc.prems(1) by simp
  then have lt: "i < 2 * sizeof_T" using Suc.prems(2) by simp
  have "shfl_loop sizeof_T (i * 2) ?vals lane = Some (pack_codes c (2 * sizeof_T))"
  proof (rule Suc.IH)
    show "2 * sizeof_T = i * 2 * 2 ^ e" using Suc.prems(1) by simp
    show "0 < i * 2" using Suc.prems(2) by simp
    show "lane + 2 * sizeof_T \<le> 32" by fact
    show "\<And>t. t < 2 * sizeof_T \<Longrightarrow> c t < 16" by fact
    fix j assume j: "j + i * 2 \<le> 2 * sizeof_T"
    have a: "vals (lane + j) = Some (pack_codes (\<lambda>t. c (t + j)) i)"
      using j by (intro Suc.prems(5)) simp
    have b: "vals (lane + (j + i)) = Some (pack_codes (\<lambda>t. c (t + (j + i))) i)"
      using j by (intro Suc.prems(5)) simp
    have "lane + (j + i) < 32" using j Suc.prems(2,3) by linarith
    then have s: "shfl_down_sync vals i (lane + j) = vals (lane + (j + i))"
      by (simp add: shfl_down_sync_def add.assoc)
    have "?vals (lane + j) = Some (pack_codes (\<lambda>t. c (t + j)) i + pack_codes (\<lambda>t. c (t + (j + i))) i * 16 ^ i)"
      unfolding s a b
    proof (rule shfl_combine_pack)
      show "pack_codes (\<lambda>t. c (t + j)) i < 16 ^ i"
        using j by (intro pack_codes_less Suc.prems(4)) simp
      show "pack_codes (\<lambda>t. c (t + (j + i))) i < 16 ^ i"
        using j by (intro pack_codes_less Suc.prems(4)) simp
    qed (use lt le in simp_all)
    also have "pack_codes (\<lambda>t. c (t + j)) i + pack_codes (\<lambda>t. c (t + (j + i))) i * 16 ^ i
        = pack_codes (\<lambda>t. c (t + j)) (i * 2)"
      by (simp add: pack_codes_double [of "\<lambda>t. c (t + j)"] add.commute add.left_commute)
    finally show "?vals (lane + j) = Some (pack_codes (\<lambda>t. c (t + j)) (i * 2))" .
  qed
  then show ?case using lt Suc.prems(2) by (simp add: shfl_loop_step)
qed

lemma fst_create_meta_code_less: "fst (create_meta_code t) < 16"
  by (simp add: create_meta_code_def)

lemma aligned_step:
  fixes a b t :: nat
  assumes "a mod t = 0" "b mod t = 0" "a < b"
  shows "a + t \<le> b"
proof -
  obtain x where a: "a = t * x" using assms(1) by (auto simp: mod_eq_0_iff_dvd)
  obtain y where b: "b = t * y" using assms(2) by (auto simp: mod_eq_0_iff_dvd)
  have "x < y" using assms(3) unfolding a b by (metis mult_less_cancel1)
  then have "x + 1 \<le> y" by simp
  then have "t * (x + 1) \<le> t * y" by (rule mult_le_mono2)
  then show ?thesis by (simp add: a b)
qed

lemma tile_cases:
  fixes sizeof_T :: nat
  assumes "sizeof_T \<in> {1, 2, 4, 8}"
  obtains e where "2 * sizeof_T = 1 * 2 ^ e" "16 mod (2 * sizeof_T) = 0" "0 < sizeof_T"
proof -
  consider "sizeof_T = 1" | "sizeof_T = 2" | "sizeof_T = 4" | "sizeof_T = 8" using assms by auto
  then show ?thesis
  proof cases
    case 1 then show ?thesis using that [of 1] by simp
  next
    case 2 then show ?thesis using that [of 2] by simp
  next
    case 3 then show ?thesis using that [of 3] by simp
  next
    case 4 then show ?thesis using that [of 4] by simp
  qed
qed

lemma store_apply: "store mem w a = (if a = fst w then snd w else mem a)"
  by (simp add: store_def)

lemma foldl_store_snoc:
  "foldl store mem (ws @ [w]) a = (if a = fst w then snd w else foldl store mem ws a)"
proof -
  define F where "F = foldl store mem ws"
  have "foldl store mem (ws @ [w]) = store F w" by (simp add: F_def)
  then show ?thesis by (simp add: store_apply flip: F_def)
qed

lemma foldl_store_unique:
  assumes "(a, v) \<in> set ws" and "\<And>v'. (a, v') \<in> set ws \<Longrightarrow> v' = v"
  shows "foldl store mem ws a = v"
  using assms
proof (induction ws rule: rev_induct)
  case Nil
  then show ?case by simp
next
  case (snoc x xs)
  show ?case
  proof (cases "fst x = a")
    case True
    then have "(a, snd x) \<in> set (xs @ [x])" by (cases x) simp
    then have "snd x = v" by (rule snoc.prems(2))
    then show ?thesis using True by (simp only: foldl_store_snoc) simp
  next
    case False
    then have "(a, v) \<in> set xs" using snoc.prems(1) by auto
    then have "foldl store mem xs a = v" using snoc.prems(2) by (intro snoc.IH) auto
    then show ?thesis using False by (simp only: foldl_store_snoc) simp
  qed
qed

lemma foldl_store_other:
  assumes "a \<notin> fst ` set ws"
  shows "foldl store mem ws a = mem a"
  using assms
proof (induction ws rule: rev_induct)
  case Nil
  show ?case by simp
next
  case (snoc x xs)
  then have "a \<noteq> fst x" "a \<notin> fst ` set xs" by auto
  then show ?case using snoc.IH by (simp only: foldl_store_snoc) simp
qed

lemma row_col_unique:
  fixes m m' c c' ld :: nat
  assumes "m' * ld + c' = m * ld + c" "c' < ld" "c < ld"
  shows "m' = m \<and> c' = c"
proof -
  have "(m' * ld + c') div ld = m'" "(m * ld + c) div ld = m" using assms(2,3) by simp_all
  then have "m' = m" using assms(1) by simp
  then show ?thesis using assms(1) by simp
qed

lemma pack_codes_Suc: "pack_codes c (Suc n) = pack_codes c n + c n * 16 ^ n"
  by (simp add: pack_codes_def)

lemma pack_codes_less_Suc: "(\<And>t. t < Suc n \<Longrightarrow> c t < 16) \<Longrightarrow> pack_codes c n < 16 ^ n"
  by (intro pack_codes_less) simp

lemma nibble_top: "P < 16 ^ n \<Longrightarrow> (x::nat) < 16 \<Longrightarrow> (P + x * 16 ^ n) div 16 ^ n mod 16 = x"
proof -
  assume lt: "P < 16 ^ n" and x: "x < 16"
  have "(P + x * 16 ^ n) div 16 ^ n = x + P div 16 ^ n" by (rule div_mult_self1) simp
  also have "P div 16 ^ n = 0" using lt by (rule div_less)
  finally show "(P + x * 16 ^ n) div 16 ^ n mod 16 = x" using x by simp
qed

lemma nibble_below: "n = t + Suc d \<Longrightarrow> (P + x * 16 ^ n) div 16 ^ t mod 16 = P div 16 ^ t mod (16::nat)"
proof -
  assume d: "n = t + Suc d"
  define y where "y = x * 16 ^ d"
  have "(16::nat) ^ n = 16 ^ t * 16 ^ Suc d" unfolding d by (rule power_add)
  also have "\<dots> = (16 ^ d * 16) * 16 ^ t" by (simp only: power_Suc mult.commute)
  finally have "x * 16 ^ n = (y * 16) * 16 ^ t" by (simp only: y_def mult.assoc)
  then have "(P + x * 16 ^ n) div 16 ^ t = y * 16 + P div 16 ^ t"
    by (simp only: div_mult_self1 [of "16 ^ t" P "y * 16"] power_not_zero zero_neq_numeral
            not_False_eq_True)
  then show "(P + x * 16 ^ n) div 16 ^ t mod 16 = P div 16 ^ t mod 16"
    by (simp only: mod_mult_self4 [of 16 y "P div 16 ^ t"] mult.commute [of y 16])
qed

lemma pack_codes_nibble:
  assumes "\<And>t. t < n \<Longrightarrow> c t < 16" and "t < n"
  shows "pack_codes c n div 16 ^ t mod 16 = c t"
  using assms
proof (induction n)
  case 0
  then show ?case by simp
next
  case (Suc n)
  have lt: "pack_codes c n < 16 ^ n" using Suc.prems(1) by (rule pack_codes_less_Suc)
  show ?case
  proof (cases "t = n")
    case True
    have "c n < 16" by (rule Suc.prems(1)) simp
    with lt show ?thesis unfolding pack_codes_Suc True by (rule nibble_top)
  next
    case False
    then have t: "t < n" using Suc.prems(2) by simp
    then obtain d' where "n = Suc (t + d')" by (auto dest: less_imp_Suc_add)
    then have d: "n = t + Suc d'" by simp
    have "pack_codes c n div 16 ^ t mod 16 = c t"
      using Suc.prems(1) t by (intro Suc.IH) simp_all
    then show ?thesis unfolding pack_codes_Suc by (simp only: nibble_below [OF d])
  qed
qed

lemma snd_create_meta_code: "snd (create_meta_code t) \<longleftrightarrow> count_true t \<noteq> 2"
proof -
  obtain p0 p1 p2 p3 where t: "t = (p0, p1, p2, p3)" by (cases t) auto
  show ?thesis unfolding t
    by (cases p0; cases p1; cases p2; cases p3) (simp_all add: create_meta_code_def count_true_def)
qed

lemma lane_k_split: "lane_k w lane = 16 * (block_x w mod 2 ^ 28) + lane mod 16"
proof -
  have "(16 * block_x w + lane mod 16) mod (16 * 2 ^ 28) =
        16 * ((16 * block_x w + lane mod 16) div 16 mod 2 ^ 28)
          + (16 * block_x w + lane mod 16) mod 16"
    by (rule mod_mult2_eq)
  then show ?thesis by (simp add: lane_k_def)
qed

lemma create_meta_in_range_nat:
  assumes "M < 2 ^ 32" "K < 2 ^ 32"
  shows "create_meta_in_range (int M) (int K) m k \<longleftrightarrow> m < M \<and> k < K div 4"
proof -
  have "K div 4 < 2 ^ 32" using assms(2) by simp
  then have "unsigned_int (int K sdiv 4) = K div 4"
    using sdiv_of_nat [of K 4] by (simp add: unsigned_int_of_nat)
  then show ?thesis using assms(1) by (simp add: create_meta_in_range_def unsigned_int_of_nat)
qed

lemma create_meta_grid_nat:
  assumes "M < 2 ^ 31" "K < 2 ^ 31"
  shows "unsigned_int ((int M + 15) sdiv 16) = (M + 15) div 16"
    and "unsigned_int ((int K + 63) sdiv 64) = (K + 63) div 64"
proof -
  have "(int M + 15) sdiv 16 = int ((M + 15) div 16)" using sdiv_of_nat [of "M + 15" 16] by simp
  moreover have "(M + 15) div 16 < 2 ^ 32" using assms(1) by simp
  ultimately show "unsigned_int ((int M + 15) sdiv 16) = (M + 15) div 16"
    by (simp add: unsigned_int_of_nat)
  have "(int K + 63) sdiv 64 = int ((K + 63) div 64)" using sdiv_of_nat [of "K + 63" 64] by simp
  moreover have "(K + 63) div 64 < 2 ^ 32" using assms(2) by simp
  ultimately show "unsigned_int ((int K + 63) sdiv 64) = (K + 63) div 64"
    by (simp add: unsigned_int_of_nat)
qed

lemma in_create_meta_warps:
  "w \<in> set (create_meta_warps length_m length_k) \<longleftrightarrow>
     block_x w < unsigned_int ((length_k + 63) sdiv 64)
     \<and> block_y w < unsigned_int ((length_m + 15) sdiv 16) \<and> warp_id w < 8"
proof (cases w)
  case (fields x y wi)
  have "w \<in> set (create_meta_warps length_m length_k) \<longleftrightarrow>
        (\<exists>y' < unsigned_int ((length_m + 15) sdiv 16). \<exists>x' < unsigned_int ((length_k + 63) sdiv 64).
            \<exists>wi' < 8. w = \<lparr>block_x = x', block_y = y', warp_id = wi'\<rparr>)"
    by (force simp: create_meta_warps_def image_iff)
  then show ?thesis by (auto simp: fields)
qed

lemma thread_covered:
  assumes "create_meta_in_range (int M) (int K) m k" and "M < 2 ^ 31" and "K < 2 ^ 31"
  obtains w lane where "w \<in> set (create_meta_warps (int M) (int K))" "lane < 32"
    "lane_m w lane = m" "lane_k w lane = k"
proof
  let ?w = "\<lparr>block_x = k div 16, block_y = m div 16, warp_id = (m mod 16) div 2\<rparr>"
  let ?lane = "(m mod 2) * 16 + k mod 16"
  have m: "m < M" and k: "k < K div 4"
    using assms by (simp_all add: create_meta_in_range_nat)
  have "k div 16 < (K + 63) div 64" using k by linarith
  moreover have "m div 16 < (M + 15) div 16" using m by linarith
  moreover have "(m mod 16) div 2 < 8" by linarith
  ultimately show "?w \<in> set (create_meta_warps (int M) (int K))"
    using assms(2,3) by (simp add: in_create_meta_warps create_meta_grid_nat)
  show "?lane < 32" by linarith
  have d: "?lane div 16 = m mod 2" by simp
  have "2 * ((m mod 16) div 2) + m mod 2 = m mod 16"
    by (metis mod_mod_cancel mult_div_mod_eq dvd_triv_left numeral_Bit0_eq_double)
  then have "16 * (m div 16) + (2 * ((m mod 16) div 2) + m mod 2) = m" by simp
  moreover have "m < 2 ^ 32" using m assms(2) by simp
  ultimately show "lane_m ?w ?lane = m" unfolding lane_m_def d by simp
  have "k < 2 ^ 32" using k assms(3) by simp
  then show "lane_k ?w ?lane = k" by (simp add: lane_k_def)
qed

lemma create_meta_kernel_flag:
  "snd (two_four_create_meta_kernel sizeof_T length_m length_k mask_stride mask_ptr meta_stride meta error)
   \<longleftrightarrow> error \<or> (\<exists>w \<in> set (create_meta_warps length_m length_k). \<exists>lane < 32.
                     lane_error length_m length_k mask_stride mask_ptr w lane)"
  by (auto simp: two_four_create_meta_kernel_def Let_def list_ex_iff)

lemma create_meta_kernel_error:
  assumes "M < 2 ^ 31" and "K < 2 ^ 31"
  shows "snd (two_four_create_meta_kernel sizeof_T (int M) (int K) mask_stride mask_ptr meta_stride meta error)
   \<longleftrightarrow> error \<or> (\<exists>m k. create_meta_in_range (int M) (int K) m k
                     \<and> snd (create_meta_code (pos_tuple mask_ptr mask_stride m k)))"
proof -
  have "(\<exists>w \<in> set (create_meta_warps (int M) (int K)). \<exists>lane < 32.
           lane_error (int M) (int K) mask_stride mask_ptr w lane)
        \<longleftrightarrow> (\<exists>m k. create_meta_in_range (int M) (int K) m k
                     \<and> snd (create_meta_code (pos_tuple mask_ptr mask_stride m k)))" (is "?L \<longleftrightarrow> ?R")
  proof
    assume ?L
    then show ?R by (auto simp: lane_error_def)
  next
    assume ?R
    then obtain m k where mk: "create_meta_in_range (int M) (int K) m k"
      "snd (create_meta_code (pos_tuple mask_ptr mask_stride m k))" by blast
    from mk(1) assms obtain w lane where "w \<in> set (create_meta_warps (int M) (int K))" "lane < 32"
      "lane_m w lane = m" "lane_k w lane = k" by (rule thread_covered)
    with mk have "lane_error (int M) (int K) mask_stride mask_ptr w lane"
      by (simp_all add: lane_error_def)
    with \<open>w \<in> set (create_meta_warps (int M) (int K))\<close> \<open>lane < 32\<close> show ?L by blast
  qed
  then show ?thesis by (simp only: create_meta_kernel_flag)
qed

lemma lane_packed_writer:
  assumes sz: "sizeof_T \<in> {1, 2, 4, 8}"
    and lane: "lane < 32"
    and w: "lane_writes sizeof_T length_m length_k w lane"
    and al: "unsigned_int (length_k sdiv 4) mod (2 * sizeof_T) = 0"
  shows "lane_packed sizeof_T length_m length_k mask_stride mask_ptr w lane =
         Some (pack_codes (\<lambda>t. fst (create_meta_code
                  (pos_tuple mask_ptr mask_stride (lane_m w lane) (lane_k w lane + t)))) (2 * sizeof_T))"
proof -
  let ?T = "2 * sizeof_T"
  let ?G = "unsigned_int (length_k sdiv 4)"
  let ?c = "\<lambda>t. fst (create_meta_code (pos_tuple mask_ptr mask_stride (lane_m w lane) (lane_k w lane + t)))"
  from sz obtain e where e: "?T = 1 * 2 ^ e" and d16: "16 mod ?T = 0" and pos: "0 < sizeof_T"
    by (rule tile_cases)
  have m: "lane_m w lane < unsigned_int length_m" and k: "lane_k w lane < ?G"
    and k0: "lane_k w lane mod ?T = 0"
    using w by (simp_all add: lane_writes_def create_meta_in_range_def)
  have "?T dvd 16 * (block_x w mod 2 ^ 28)" using d16 by (simp add: mod_eq_0_iff_dvd)
  moreover have "?T dvd 16 * (block_x w mod 2 ^ 28) + lane mod 16"
    using k0 by (simp add: lane_k_split mod_eq_0_iff_dvd)
  ultimately have "?T dvd lane mod 16" by (simp add: dvd_add_right_iff)
  then have "(lane mod 16) mod ?T = 0" by (simp add: mod_eq_0_iff_dvd)
  then have r: "lane mod 16 + ?T \<le> 16" using d16 by (rule aligned_step) simp
  have kk: "lane_k w lane + ?T \<le> ?G" using k0 al k by (rule aligned_step)
  have "lane = 16 * (lane div 16) + lane mod 16" by simp
  moreover have "lane div 16 \<le> 1" using lane by simp
  ultimately have l32: "lane + ?T \<le> 32" using r by linarith
  have "shfl_loop sizeof_T 1 (lane_val length_m length_k mask_stride mask_ptr w) lane =
        Some (pack_codes ?c ?T)"
  proof (rule shfl_loop_pack [OF e _ l32])
    show "0 < (1::nat)" by simp
    show "\<And>t. t < ?T \<Longrightarrow> ?c t < 16" by (rule fst_create_meta_code_less)
    fix j assume "j + 1 \<le> ?T"
    then have j: "j < ?T" by simp
    have "(lane + j) div 16 = lane div 16"
    proof -
      have "lane + j = (lane mod 16 + j) + 16 * (lane div 16)" by simp
      moreover have "lane mod 16 + j < 16" using j r by linarith
      ultimately have "(lane + j) div 16 = (lane mod 16 + j) div 16 + lane div 16"
        by (simp only: div_mult_self2 [of 16 "lane mod 16 + j" "lane div 16"] zero_neq_numeral not_False_eq_True add.commute)
      then show ?thesis using \<open>lane mod 16 + j < 16\<close> by simp
    qed
    then have lm: "lane_m w (lane + j) = lane_m w lane" by (simp add: lane_m_def)
    have "(lane + j) mod 16 = lane mod 16 + j"
    proof -
      have "lane mod 16 + j < 16" using j r by linarith
      then have "(lane mod 16 + j) mod 16 = lane mod 16 + j" by simp
      then show ?thesis by (simp add: mod_add_left_eq)
    qed
    then have lk: "lane_k w (lane + j) = lane_k w lane + j" by (simp add: lane_k_split)
    have "lane_k w lane + j < ?G" using kk j by linarith
    then show "lane_val length_m length_k mask_stride mask_ptr w (lane + j) =
               Some (pack_codes (\<lambda>t. ?c (t + j)) 1)"
      using m by (simp add: lane_val_def lm lk create_meta_in_range_def pack_codes_def)
  qed
  then show ?thesis by (simp add: lane_packed_def)
qed

lemma groups_nat:
  assumes "K < 2 ^ 31"
  shows "unsigned_int (int K sdiv 4) = K div 4"
proof -
  have "K div 4 < 2 ^ 32" using assms by simp
  then show ?thesis using sdiv_of_nat [of K 4] by (simp add: unsigned_int_of_nat)
qed

lemma store_offset_nat:
  assumes "m < M" "M * S \<le> 2 ^ 32" "S < 2 ^ 31"
  shows "(m * unsigned_int (int S)) mod 2 ^ 32 = m * S"
proof -
  have "m * S < 2 ^ 32"
  proof (cases "S = 0")
    case True then show ?thesis by simp
  next
    case False
    then have "m * S < M * S" using assms(1) by simp
    then show ?thesis using assms(2) by (rule less_le_trans)
  qed
  moreover have "unsigned_int (int S) = S" using assms(3) by (simp add: unsigned_int_of_nat)
  ultimately show ?thesis by simp
qed

lemma create_meta_kernel_cell:
  assumes sz: "sizeof_T \<in> {1, 2, 4, 8}"
    and al: "(K div 4) mod (2 * sizeof_T) = 0"
    and ms: "(K div 4) div (2 * sizeof_T) \<le> S"
    and bd: "M < 2 ^ 31" "K < 2 ^ 31" "S < 2 ^ 31" "M * S \<le> 2 ^ 32"
    and m: "m < M"
    and j: "j < (K div 4) div (2 * sizeof_T)"
  shows "fst (two_four_create_meta_kernel sizeof_T (int M) (int K) mask_stride mask_ptr (int S) meta error)
           (m * S + j) =
         Some (pack_codes (\<lambda>t. fst (create_meta_code
                  (pos_tuple mask_ptr mask_stride m (j * (2 * sizeof_T) + t)))) (2 * sizeof_T))"
proof -
  let ?T = "2 * sizeof_T"
  let ?W = "concat (map (warp_stores sizeof_T (int M) (int K) mask_stride mask_ptr (int S))
                     (create_meta_warps (int M) (int K)))"
  let ?v = "\<lambda>m k. Some (pack_codes (\<lambda>t. fst (create_meta_code
                  (pos_tuple mask_ptr mask_stride m (k + t)))) ?T)"
  have T: "0 < ?T" using sz by auto
  have M32: "M < 2 ^ 32" "K < 2 ^ 32" using bd(1,2) by simp_all
  note rng = create_meta_in_range_nat [OF M32]
  have al': "unsigned_int (int K sdiv 4) mod ?T = 0" using al bd(2) by (simp add: groups_nat)
  have stores: "\<exists>m' k'. create_meta_in_range (int M) (int K) m' k' \<and> k' mod ?T = 0
                  \<and> a = m' * S + k' div ?T \<and> v = ?v m' k'"
    if "(a, v) \<in> set ?W" for a v
  proof -
    from that obtain w lane where wl: "lane < 32" "lane_writes sizeof_T (int M) (int K) w lane"
      "a = (lane_m w lane * unsigned_int (int S)) mod 2 ^ 32 + lane_k w lane div ?T"
      "v = lane_packed sizeof_T (int M) (int K) mask_stride mask_ptr w lane"
      by (auto simp: warp_stores_def)
    have "v = ?v (lane_m w lane) (lane_k w lane)"
      unfolding wl(4) using sz wl(1,2) al' by (rule lane_packed_writer)
    moreover have r: "create_meta_in_range (int M) (int K) (lane_m w lane) (lane_k w lane)"
      "lane_k w lane mod ?T = 0" using wl(2) by (simp_all add: lane_writes_def)
    moreover have "lane_m w lane < M" using r(1) by (simp add: rng)
    then have "(lane_m w lane * unsigned_int (int S)) mod 2 ^ 32 = lane_m w lane * S"
      using bd(4,3) by (rule store_offset_nat)
    ultimately show ?thesis using wl(3)
      by (intro exI [of _ "lane_m w lane"] exI [of _ "lane_k w lane"]) simp
  qed
  have jT: "j * ?T < K div 4"
  proof -
    have "(j + 1) * ?T \<le> ((K div 4) div ?T) * ?T" using j by (intro mult_le_mono1) simp
    also have "\<dots> \<le> K div 4" by simp
    finally show ?thesis using T by simp
  qed
  then have "create_meta_in_range (int M) (int K) m (j * ?T)"
    using m by (simp add: rng)
  then obtain w lane where wl: "w \<in> set (create_meta_warps (int M) (int K))" "lane < 32"
    "lane_m w lane = m" "lane_k w lane = j * ?T" using bd(1,2) by (rule thread_covered)
  have lw: "lane_writes sizeof_T (int M) (int K) w lane"
    using wl(3,4) m jT by (simp add: lane_writes_def rng)
  have "lane_packed sizeof_T (int M) (int K) mask_stride mask_ptr w lane = ?v m (j * ?T)"
    using lane_packed_writer [OF sz wl(2) lw al'] by (simp add: wl(3,4))
  moreover have "lane_k w lane div ?T = j" using T by (simp add: wl(4))
  moreover have "(lane_m w lane * unsigned_int (int S)) mod 2 ^ 32 = m * S"
    unfolding wl(3) using m bd(4,3) by (rule store_offset_nat)
  ultimately have "(m * S + j, ?v m (j * ?T))
      \<in> set (warp_stores sizeof_T (int M) (int K) mask_stride mask_ptr (int S) w)"
    using wl(2) lw by (auto simp: warp_stores_def image_iff intro!: bexI [of _ lane])
  then have mem: "(m * S + j, ?v m (j * ?T)) \<in> set ?W" using wl(1) by auto
  have uniq: "v' = ?v m (j * ?T)" if "(m * S + j, v') \<in> set ?W" for v'
  proof -
    from stores [OF that] obtain m' k' where mk: "create_meta_in_range (int M) (int K) m' k'"
      "k' mod ?T = 0" "m * S + j = m' * S + k' div ?T" "v' = ?v m' k'" by auto
    have "k' div ?T < (K div 4) div ?T"
    proof -
      have "(K div 4) div ?T * ?T = K div 4"
        using al by (simp add: mod_eq_0_iff_dvd)
      moreover have "k' < K div 4" using mk(1) by (simp add: rng)
      ultimately have "k' < (K div 4) div ?T * ?T" by simp
      then show ?thesis by (simp only: div_less_iff_less_mult [OF T])
    qed
    then have "k' div ?T < S" using ms by simp
    moreover have "j < S" using j ms by simp
    ultimately have "m' = m \<and> k' div ?T = j" using mk(3) by (intro row_col_unique) simp_all
    moreover have "k' = k' div ?T * ?T" using mk(2) by (simp add: mod_eq_0_iff_dvd)
    ultimately show ?thesis using mk(4) by simp
  qed
  have "foldl store meta ?W (m * S + j) = ?v m (j * ?T)"
    using mem uniq by (rule foldl_store_unique)
  then show ?thesis by (simp add: two_four_create_meta_kernel_def Let_def)
qed

lemma create_meta_kernel_untouched:
  assumes al: "(K div 4) mod (2 * sizeof_T) = 0" and T: "0 < sizeof_T"
    and bd: "M < 2 ^ 31" "K < 2 ^ 31" "S < 2 ^ 31" "M * S \<le> 2 ^ 32"
    and j: "(K div 4) div (2 * sizeof_T) \<le> j" "j < S"
  shows "fst (two_four_create_meta_kernel sizeof_T (int M) (int K) mask_stride mask_ptr (int S) meta error)
           (m * S + j) = meta (m * S + j)"
proof -
  let ?T = "2 * sizeof_T"
  let ?W = "concat (map (warp_stores sizeof_T (int M) (int K) mask_stride mask_ptr (int S))
                     (create_meta_warps (int M) (int K)))"
  have M32: "M < 2 ^ 32" "K < 2 ^ 32" using bd(1,2) by simp_all
  note rng = create_meta_in_range_nat [OF M32]
  have "m * S + j \<notin> fst ` set ?W"
  proof
    assume "m * S + j \<in> fst ` set ?W"
    then obtain w lane where wl: "lane_writes sizeof_T (int M) (int K) w lane"
      "m * S + j = (lane_m w lane * unsigned_int (int S)) mod 2 ^ 32 + lane_k w lane div ?T"
      by (auto simp: warp_stores_def)
    have k: "lane_k w lane < K div 4" and lm: "lane_m w lane < M" using wl(1)
      by (simp_all add: lane_writes_def rng)
    have "(lane_m w lane * unsigned_int (int S)) mod 2 ^ 32 = lane_m w lane * S"
      using lm bd(4,3) by (rule store_offset_nat)
    then have eq: "m * S + j = lane_m w lane * S + lane_k w lane div ?T" using wl(2) by simp
    have "(K div 4) div ?T * ?T = K div 4" using al by (simp add: mod_eq_0_iff_dvd)
    then have "lane_k w lane < (K div 4) div ?T * ?T" using k by simp
    then have c: "lane_k w lane div ?T < (K div 4) div ?T"
      using T by (simp only: div_less_iff_less_mult [of ?T]) 
    then have "lane_k w lane div ?T < S" using j by simp
    with eq j(2) have "lane_k w lane div ?T = j"
      using row_col_unique [of "lane_m w lane" S "lane_k w lane div ?T" m j] by simp
    then show False using c j(1) by simp
  qed
  then have "foldl store meta ?W (m * S + j) = meta (m * S + j)"
    by (rule foldl_store_other)
  then show ?thesis by (simp add: two_four_create_meta_kernel_def Let_def)
qed

subsection \<open>The metadata reorderer\<close>

lemma reorder_dst_swizzle: "reorder_dst sz (m, k) = swizzle (reorder_row sz m, k)"
  by (simp add: reorder_dst_def reorder_row_def swizzle_def Let_def)

lemma perm32: "t < 32 \<Longrightarrow> ((t mod 8) * 4 + t div 8) mod 4 * 8 + ((t mod 8) * 4 + t div 8) div 4 = (t::nat)"
  by (simp add: div_add1_eq mod_add_eq)

lemma perm16: "t < 16 \<Longrightarrow> ((t mod 8) * 2 + t div 8) mod 2 * 8 + ((t mod 8) * 2 + t div 8) div 2 = (t::nat)"
  by (simp add: div_add1_eq mod_add_eq)

lemma perm32_less: "t < 32 \<Longrightarrow> (t mod 8) * 4 + t div 8 < (32::nat)"
proof -
  assume "t < 32"
  then have "t div 8 < 4" by simp
  moreover have "t mod 8 < 8" by simp
  ultimately show ?thesis by linarith
qed

lemma perm16_less: "t < 16 \<Longrightarrow> (t mod 8) * 2 + t div 8 < (16::nat)"
proof -
  assume "t < 16"
  then have "t div 8 < 2" by simp
  moreover have "t mod 8 < 8" by simp
  ultimately show ?thesis by linarith
qed

lemma reorder_row_split:
  "reorder_row sz m = m div reorder_group sz * reorder_group sz + ((m mod reorder_group sz) mod 8 * (reorder_group sz div 8) + (m mod reorder_group sz) div 8)"
  by (simp add: reorder_row_def reorder_group_def mod_mod_cancel)

lemma row_inv_reorder_row: "row_inv sz (reorder_row sz m) = m"
proof (cases "sz = 2")
  case True
  define t where "t = m mod 32"
  define p where "p = (t mod 8) * 4 + t div 8"
  have t: "t < 32" by (simp add: t_def)
  have lt: "p < 32" unfolding p_def using t by (rule perm32_less)
  have r: "reorder_row sz m = m div 32 * 32 + p"
    using True by (simp add: reorder_row_split reorder_group_def p_def t_def)
  have "row_inv sz (m div 32 * 32 + p) = m div 32 * 32 + (p mod 4 * 8 + p div 4)"
    using True lt by (simp add: row_inv_def)
  also have "p mod 4 * 8 + p div 4 = t" unfolding p_def using t by (rule perm32)
  finally show ?thesis unfolding r by (simp add: t_def)
next
  case False
  define t where "t = m mod 16"
  define p where "p = (t mod 8) * 2 + t div 8"
  have t: "t < 16" by (simp add: t_def)
  have lt: "p < 16" unfolding p_def using t by (rule perm16_less)
  have r: "reorder_row sz m = m div 16 * 16 + p"
    using False by (simp add: reorder_row_split reorder_group_def p_def t_def)
  have "row_inv sz (m div 16 * 16 + p) = m div 16 * 16 + (p mod 2 * 8 + p div 2)"
    using False lt by (simp add: row_inv_def)
  also have "p mod 2 * 8 + p div 2 = t" unfolding p_def using t by (rule perm16)
  finally show ?thesis unfolding r by (simp add: t_def)
qed

lemma reorder_row_less:
  assumes "m < M" and "M mod reorder_group sz = 0"
  shows "reorder_row sz m < M"
proof -
  let ?g = "reorder_group sz"
  let ?t = "m mod ?g"
  let ?p = "?t mod 8 * (?g div 8) + ?t div 8"
  have g: "0 < ?g" by (simp add: reorder_group_def)
  have lt: "?p < ?g"
    using perm32_less [of "m mod 32"] perm16_less [of "m mod 16"]
    by (auto simp: reorder_group_def)
  obtain q where M: "M = ?g * q" using assms(2) by (auto simp: mod_eq_0_iff_dvd)
  have "m div ?g < q" using assms(1) g unfolding M
    by (simp add: div_less_iff_less_mult mult.commute)
  then have "m div ?g + 1 \<le> q" by simp
  then have "(m div ?g + 1) * ?g \<le> q * ?g" by (rule mult_le_mono1)
  then have "m div ?g * ?g + ?g \<le> M" by (simp add: M mult.commute)
  then show ?thesis unfolding reorder_row_split using lt by linarith
qed

lemma swizzle_swizzle: "swizzle (swizzle c) = c"
proof (cases c)
  case (Pair r k)
  consider "even r" "odd k" | "odd r" "even k" | "even r" "even k" | "odd r" "odd k" by blast
  then show ?thesis
  proof cases
    case 1
    then obtain a b where "r = 2 * a" "k = 2 * b + 1" by (elim evenE oddE) auto
    then show ?thesis by (simp add: Pair swizzle_def)
  next
    case 2
    then obtain a b where "r = 2 * a + 1" "k = 2 * b" by (elim evenE oddE) auto
    then show ?thesis by (simp add: Pair swizzle_def)
  next
    case 3
    then obtain a b where "r = 2 * a" "k = 2 * b" by (elim evenE) auto
    then show ?thesis by (simp add: Pair swizzle_def)
  next
    case 4
    then obtain a b where "r = 2 * a + 1" "k = 2 * b + 1" by (elim oddE) auto
    then show ?thesis by (simp add: Pair swizzle_def)
  qed
qed

lemma swizzle_in_grid:
  assumes "r < M" "c < N" "even M" "even N"
  shows "fst (swizzle (r, c)) < M \<and> snd (swizzle (r, c)) < N"
proof -
  have a: "even r \<Longrightarrow> r + 1 < M" using assms(1,3) by (auto elim!: evenE)
  have b: "even c \<Longrightarrow> c + 1 < N" using assms(2,4) by (auto elim!: evenE)
  show ?thesis using assms(1,2) a b
    by (auto simp: swizzle_def even_iff_mod_2_eq_zero odd_iff_mod_2_eq_one)
qed

lemma swizzle_inj: "swizzle c = swizzle c' \<Longrightarrow> c = c'"
  by (metis swizzle_swizzle)

lemma reorder_row_inj: "reorder_row sz m = reorder_row sz m' \<Longrightarrow> m = m'"
  by (metis row_inv_reorder_row)

lemma reorder_dst_inj: "inj (reorder_dst sz)"
proof (rule injI)
  fix c c' :: "nat \<times> nat"
  assume eq: "reorder_dst sz c = reorder_dst sz c'"
  obtain m k m' k' where c: "c = (m, k)" "c' = (m', k')" by (cases c, cases c') auto
  from eq have "(reorder_row sz m, k) = (reorder_row sz m', k')"
    unfolding c reorder_dst_swizzle by (rule swizzle_inj)
  then show "c = c'" unfolding c by (auto dest: reorder_row_inj)
qed

lemma reorder_group_even: "even (reorder_group sz)"
  by (simp add: reorder_group_def)

lemma reorder_dst_in_grid:
  assumes "length_m mod reorder_group sz = 0" "even length_k" "c \<in> {..<length_m} \<times> {..<length_k}"
  shows "reorder_dst sz c \<in> {..<length_m} \<times> {..<length_k}"
proof -
  obtain m k where c: "c = (m, k)" by (cases c)
  have m: "m < length_m" and k: "k < length_k" using assms(3) by (simp_all add: c)
  have r: "reorder_row sz m < length_m" using m assms(1) by (rule reorder_row_less)
  have "reorder_group sz dvd length_m" using assms(1) by (simp add: mod_eq_0_iff_dvd)
  then have "even length_m" using reorder_group_even dvd_trans by blast
  with r k assms(2) have "fst (swizzle (reorder_row sz m, k)) < length_m
      \<and> snd (swizzle (reorder_row sz m, k)) < length_k" by (intro swizzle_in_grid)
  then show ?thesis by (simp add: c reorder_dst_swizzle mem_Times_iff)
qed

lemma reorder_dst_bij:
  assumes "length_m mod reorder_group sz = 0" "even length_k"
  shows "bij_betw (reorder_dst sz) ({..<length_m} \<times> {..<length_k}) ({..<length_m} \<times> {..<length_k})"
proof -
  let ?G = "{..<length_m} \<times> {..<length_k}"
  have inj: "inj_on (reorder_dst sz) ?G" using reorder_dst_inj by (rule inj_on_subset) simp
  have "reorder_dst sz ` ?G \<subseteq> ?G" using reorder_dst_in_grid [OF assms] by blast
  moreover have "finite ?G" by simp
  ultimately have "reorder_dst sz ` ?G = ?G" using inj by (intro endo_inj_surj)
  with inj show ?thesis by (simp add: bij_betw_def)
qed

lemma set_reorder_threads: "set (reorder_threads length_m length_k) = {..<length_m} \<times> {..<length_k}"
proof -
  have "m < 16 * ((length_m + 15) div 16)" if "m < length_m" for m using that by linarith
  moreover have "k < 16 * ((length_k + 15) div 16)" if "k < length_k" for k using that by linarith
  ultimately show ?thesis by (auto simp: reorder_threads_def)
qed

lemma foldl_assign:
  assumes "inj_on key (set cs)" "c \<in> set cs"
  shows "foldl (\<lambda>mem c. mem (key c := val c)) mem cs (key c) = val c"
  using assms
proof (induction cs rule: rev_induct)
  case Nil
  then show ?case by simp
next
  case (snoc x xs)
  show ?case
  proof (cases "x = c")
    case True
    then show ?thesis by simp
  next
    case False
    then have c: "c \<in> set xs" using snoc.prems(2) by simp
    have "key x \<noteq> key c" using snoc.prems False by (auto simp: inj_on_def)
    moreover have "inj_on key (set xs)" using snoc.prems(1) by (simp add: inj_on_def)
    ultimately show ?thesis using snoc.IH c by simp
  qed
qed

lemma foldl_assign_other:
  assumes "a \<notin> key ` set cs"
  shows "foldl (\<lambda>mem c. mem (key c := val c)) mem cs a = mem a"
  using assms by (induction cs rule: rev_induct) auto

lemma reorder_kernel_cell:
  assumes "inj_on dst_at (reorder_dst sz ` ({..<length_m} \<times> {..<length_k}))"
    and "c \<in> {..<length_m} \<times> {..<length_k}"
  shows "two_four_reorder_meta_kernel sz length_m length_k src_at src dst_at dst
           (dst_at (reorder_dst sz c)) = src (src_at c)"
proof -
  let ?key = "\<lambda>c. dst_at (reorder_dst sz c)"
  have "inj_on (reorder_dst sz) ({..<length_m} \<times> {..<length_k})"
    using reorder_dst_inj by (rule inj_on_subset) simp
  then have "inj_on ?key ({..<length_m} \<times> {..<length_k})"
    using assms(1) by (simp add: comp_inj_on [unfolded comp_def])
  then have "inj_on ?key (set (reorder_threads length_m length_k))"
    by (simp add: set_reorder_threads)
  moreover have "c \<in> set (reorder_threads length_m length_k)"
    using assms(2) by (simp add: set_reorder_threads)
  ultimately have "foldl (\<lambda>mem c. mem (?key c := src (src_at c))) dst
      (reorder_threads length_m length_k) (?key c) = src (src_at c)"
    by (rule foldl_assign)
  then show ?thesis by (simp add: two_four_reorder_meta_kernel_def)
qed

lemma reorder_kernel_other:
  assumes "a \<notin> dst_at ` reorder_dst sz ` ({..<length_m} \<times> {..<length_k})"
  shows "two_four_reorder_meta_kernel sz length_m length_k src_at src dst_at dst a = dst a"
proof -
  have "a \<notin> (\<lambda>c. dst_at (reorder_dst sz c)) ` set (reorder_threads length_m length_k)"
    using assms by (auto simp: set_reorder_threads)
  then show ?thesis unfolding two_four_reorder_meta_kernel_def by (rule foldl_assign_other)
qed

lemma RowMajor_at_inj: "length_k \<le> ld \<Longrightarrow> inj_on (RowMajor_at ld) ({..<length_m} \<times> {..<length_k})"
  by (auto simp: inj_on_def RowMajor_at_def dest!: row_col_unique)

section \<open>Lemmas about the dispatcher\<close>

lemma new_empty_nat:
  "new_empty e (map int ns) dtype =
     Some \<lparr>scalar_type = dtype, layout = Strided, sizes = ns,
           strides = fresh_strides e ns, data_ptr = uninitialized e\<rparr>"
  by (simp add: new_empty_def list_ex_iff comp_def)

lemma new_empty_None: "new_empty e shape dtype = None \<longleftrightarrow> (\<exists>s \<in> set shape. s < 0)"
  by (simp add: new_empty_def list_ex_iff)

lemma new_empty_Some:
  assumes "new_empty e shape dtype = Some t"
  shows "scalar_type t = dtype" "layout t = Strided" "sizes t = map nat shape"
    "strides t = fresh_strides e (sizes t)" "data_ptr t = uninitialized e" "\<forall>s \<in> set shape. 0 \<le> s"
  using assms by (auto simp: new_empty_def list_ex_iff split: if_splits)

lemma sgemm_meta_not_bool:
  "scalar_type mask_or_meta \<noteq> kBool \<Longrightarrow>
   sgemm_meta e tr length_m length_k meta_ncols mask_or_meta = ([], Inr mask_or_meta)"
  by (simp add: sgemm_meta_def)

lemma sgemm_reorder_cases:
  obtains (fail) "\<not> launch_check_reorder_meta e"
      "sgemm_reorder e tr length_m meta_ncols meta =
         ([Alloc_meta_reordered, Launch_reorder_meta], Inl Cuda_launch_error)"
  | (ok) meta_reordered where "launch_check_reorder_meta e"
      "sgemm_reorder e tr length_m meta_ncols meta =
         ([Alloc_meta_reordered, Launch_reorder_meta], Inr meta_reordered)"
  by (cases "launch_check_reorder_meta e") (simp_all add: sgemm_reorder_def new_empty_nat Let_def)

lemma sgemm_meta_unchecked:
  assumes "scalar_type msk = kBool" "\<not> mask_checks tr msk"
  shows "\<exists>err. sgemm_meta e tr length_m length_k meta_ncols msk = ([], Inl err) \<and> precondition_error err"
  using assms by (auto simp: sgemm_meta_def mask_checks_def Let_def split: option.splits)

lemma sgemm_meta_cases:
  assumes "scalar_type msk = kBool" "mask_checks tr msk"
  obtains (alloc) "sgemm_meta e tr length_m length_k meta_ncols msk = ([Alloc_meta], Inl Negative_dimension)"
      "length_m < 0 \<or> meta_ncols < 0"
  | (launch) "sgemm_meta e tr length_m length_k meta_ncols msk =
         ([Alloc_meta, Alloc_error, Launch_create_meta], Inl Cuda_launch_error)"
      "\<not> launch_check_create_meta e"
  | (flag) meta where "new_empty e [length_m, meta_ncols] (the (meta_dtype (sizeof_ElementInputE tr))) = Some meta"
      "launch_check_create_meta e"
      "snd (two_four_create_meta_kernel (sizeof_ElementInputE tr) length_m length_k
              (narrow_int (strides msk ! 0)) (\<lambda>i. data_ptr msk i \<noteq> 0)
              (narrow_int (strides meta ! 0)) Map.empty False)"
      "sgemm_meta e tr length_m length_k meta_ncols msk =
         ([Alloc_meta, Alloc_error, Launch_create_meta, Item_error], Inl Mask_not_2_4_sparse)"
  | (reorder) meta evs r where
      "new_empty e [length_m, meta_ncols] (the (meta_dtype (sizeof_ElementInputE tr))) = Some meta"
      "launch_check_create_meta e"
      "\<not> snd (two_four_create_meta_kernel (sizeof_ElementInputE tr) length_m length_k
              (narrow_int (strides msk ! 0)) (\<lambda>i. data_ptr msk i \<noteq> 0)
              (narrow_int (strides meta ! 0)) Map.empty False)"
      "sgemm_reorder e tr length_m meta_ncols
         (meta \<lparr>data_ptr := written (sizeof_ElementInputE tr) (data_ptr meta)
                  (fst (two_four_create_meta_kernel (sizeof_ElementInputE tr) length_m length_k
                          (narrow_int (strides msk ! 0)) (\<lambda>i. data_ptr msk i \<noteq> 0)
                          (narrow_int (strides meta ! 0)) Map.empty False))\<rparr>) = (evs, r)"
      "sgemm_meta e tr length_m length_k meta_ncols msk =
         ([Alloc_meta, Alloc_error, Launch_create_meta, Item_error] @ evs, r)"
proof -
  obtain dtype where dt: "meta_dtype (sizeof_ElementInputE tr) = Some dtype"
    using assms(2) by (auto simp: mask_checks_def)
  have c: "layout msk = Strided" "length (sizes msk) = 2" "strides msk ! Suc 0 = Suc 0"
    using assms(2) by (simp_all add: mask_checks_def)
  show ?thesis
  proof (cases "new_empty e [length_m, meta_ncols] dtype")
    case None
    then have "length_m < 0 \<or> meta_ncols < 0" by (auto simp: new_empty_None)
    moreover have "sgemm_meta e tr length_m length_k meta_ncols msk = ([Alloc_meta], Inl Negative_dimension)"
      using assms(1) c dt None by (simp add: sgemm_meta_def Let_def)
    ultimately show ?thesis by (rule alloc [rotated])
  next
    case (Some meta)
    let ?built = "two_four_create_meta_kernel (sizeof_ElementInputE tr) length_m length_k
              (narrow_int (strides msk ! 0)) (\<lambda>i. data_ptr msk i \<noteq> 0)
              (narrow_int (strides meta ! 0)) Map.empty False"
    let ?meta = "meta \<lparr>data_ptr := written (sizeof_ElementInputE tr) (data_ptr meta) (fst ?built)\<rparr>"
    show ?thesis
    proof (cases "launch_check_create_meta e")
      case False
      then have "sgemm_meta e tr length_m length_k meta_ncols msk =
         ([Alloc_meta, Alloc_error, Launch_create_meta], Inl Cuda_launch_error)"
        using assms(1) c dt Some by (simp add: sgemm_meta_def Let_def)
      then show ?thesis using False by (rule launch)
    next
      case lc: True
      show ?thesis
      proof (cases "snd ?built")
        case True
        then have "sgemm_meta e tr length_m length_k meta_ncols msk =
           ([Alloc_meta, Alloc_error, Launch_create_meta, Item_error], Inl Mask_not_2_4_sparse)"
          using assms(1) c dt Some lc by (simp add: sgemm_meta_def Let_def)
        with Some lc True show ?thesis by (intro flag [of meta]) (simp_all add: dt)
      next
        case False
        obtain evs r where r: "sgemm_reorder e tr length_m meta_ncols ?meta = (evs, r)"
          by (cases "sgemm_reorder e tr length_m meta_ncols ?meta")
        have "sgemm_meta e tr length_m length_k meta_ncols msk =
           ([Alloc_meta, Alloc_error, Launch_create_meta, Item_error] @ evs, r)"
          using assms(1) c dt Some lc False r by (simp add: sgemm_meta_def Let_def)
        with Some lc False r show ?thesis by (intro reorder [of meta evs r]) (simp_all add: dt)
      qed
    qed
  qed
qed

lemma sgemm_meta_Inl:
  assumes "sgemm_meta e tr length_m length_k meta_ncols mask_or_meta = (evs, Inl err)"
    and "scalar_type mask_or_meta = kBool \<longrightarrow> mask_checks tr mask_or_meta"
  shows "\<not> precondition_error err"
proof (cases "scalar_type mask_or_meta = kBool")
  case False
  then show ?thesis using assms(1) by (simp add: sgemm_meta_not_bool)
next
  case True
  then have mc: "mask_checks tr mask_or_meta" using assms(2) by simp
  from True mc show ?thesis
  proof (cases rule: sgemm_meta_cases [where msk = mask_or_meta and tr = tr and e = e
        and length_m = length_m and meta_ncols = meta_ncols and length_k = length_k])
    case (reorder meta evs' r)
    from reorder(5) assms(1) have r: "r = Inl err" by simp
    show ?thesis
      by (cases rule: sgemm_reorder_cases [where e = e and tr = tr and length_m = length_m
            and meta_ncols = meta_ncols and meta =
            "meta \<lparr>data_ptr := written (sizeof_ElementInputE tr) (data_ptr meta)
                  (fst (two_four_create_meta_kernel (sizeof_ElementInputE tr) length_m length_k
                          (narrow_int (strides mask_or_meta ! 0)) (\<lambda>i. data_ptr mask_or_meta i \<noteq> 0)
                          (narrow_int (strides meta ! 0)) Map.empty False))\<rparr>"])
         (use reorder(4) r in auto)
  qed (use assms(1) in auto)
qed


lemma sgemm_meta_sizes:
  assumes "scalar_type msk = kBool" "length (sizes msk) = 2"
  shows "sgemm_meta e tr length_m length_k meta_ncols (msk \<lparr>sizes := [r, c]\<rparr>)
         = sgemm_meta e tr length_m length_k meta_ncols msk"
  using assms by (simp add: sgemm_meta_def Let_def cong: option.case_cong if_cong)

lemma sgemm_run_cases:
  obtains (can) "can_implement e cfg arguments \<noteq> kSuccess"
      "sgemm_run e cfg arguments tensor_d meta_reordered =
         ([], Inl (Cutlass_error (can_implement e cfg arguments)))"
  | (init) "initialize e cfg arguments \<noteq> kSuccess"
      "sgemm_run e cfg arguments tensor_d meta_reordered =
         ([Alloc_workspace, Gemm_initialize arguments], Inl (Cutlass_error (initialize e cfg arguments)))"
  | (run) "fst (run e cfg arguments) \<noteq> kSuccess"
      "sgemm_run e cfg arguments tensor_d meta_reordered =
         ([Alloc_workspace, Gemm_initialize arguments, Gemm_run arguments],
          Inl (Cutlass_error (fst (run e cfg arguments))))"
  | (launch) "sgemm_run e cfg arguments tensor_d meta_reordered =
         ([Alloc_workspace, Gemm_initialize arguments, Gemm_run arguments], Inl Cuda_launch_error)"
  | (ok) "can_implement e cfg arguments = kSuccess" "initialize e cfg arguments = kSuccess"
      "fst (run e cfg arguments) = kSuccess" "launch_check_gemm e"
      "sgemm_run e cfg arguments tensor_d meta_reordered =
         ([Alloc_workspace, Gemm_initialize arguments, Gemm_run arguments],
          Inr (tensor_d \<lparr>data_ptr := snd (run e cfg arguments)\<rparr>, meta_reordered))"
  unfolding sgemm_run_def by (cases "can_implement e cfg arguments = kSuccess";
     cases "initialize e cfg arguments = kSuccess"; cases "fst (run e cfg arguments) = kSuccess";
     cases "launch_check_gemm e") simp_all

lemma sgemm_run_Inr:
  assumes "snd (sgemm_run e cfg arguments tensor_d meta_reordered) = Inr out"
  shows "out = (tensor_d \<lparr>data_ptr := snd (run e cfg arguments)\<rparr>, meta_reordered)
         \<and> fst (sgemm_run e cfg arguments tensor_d meta_reordered) =
             [Alloc_workspace, Gemm_initialize arguments, Gemm_run arguments]"
  using assms by (cases rule: sgemm_run_cases [of e cfg arguments tensor_d meta_reordered]) simp_all

lemma sgemm_run_Inl:
  assumes "snd (sgemm_run e cfg arguments tensor_d meta_reordered) = Inl err"
  shows "\<not> precondition_error err"
  using assms
  by (cases rule: sgemm_run_cases [of e cfg arguments tensor_d meta_reordered]) auto

lemma sgemm_run_events:
  "set (fst (sgemm_run e cfg arguments tensor_d meta_reordered))
     \<subseteq> {Alloc_workspace, Gemm_initialize arguments, Gemm_run arguments}"
  by (cases rule: sgemm_run_cases [of e cfg arguments tensor_d meta_reordered]) simp_all

lemma size_checks_narrow:
  "size_checks cfg tensor_a tensor_b \<longleftrightarrow>
     narrow_int (sizes tensor_a ! 0) smod 32 = 0
     \<and> narrow_int (sizes tensor_b ! 0) smod (if ElementInputA cfg = half_t then 64 else 128) = 0
     \<and> narrow_int (sizes tensor_b ! 1) smod (if ElementInputA cfg = half_t then 8 else 16) = 0"
  by (simp add: size_checks_def narrow_int_smod_numerals)

lemma sgemm_checked:
  assumes "size_checks cfg tensor_a tensor_b" "tensor_d_dtype (ElementOutput cfg) = Some dtype"
  shows "two_four_sgemm_cutlass e cfg tensor_a tensor_a_stride tensor_b tensor_b_stride mask_or_meta =
         sgemm_body e cfg dtype tensor_a tensor_a_stride tensor_b tensor_b_stride mask_or_meta"
proof -
  have "narrow_int (sizes tensor_a ! 0) smod 32 = 0"
    "narrow_int (sizes tensor_b ! 0) smod (if ElementInputA cfg = half_t then 64 else 128) = 0"
    "narrow_int (sizes tensor_b ! 1) smod (if ElementInputA cfg = half_t then 8 else 16) = 0"
    using assms(1) by (simp_all only: size_checks_narrow)
  then show ?thesis
    unfolding two_four_sgemm_cutlass_def sgemm_body_def Let_def
    by (simp only: assms(2) simp_thms if_False option.case)
qed

lemma sgemm_unchecked:
  assumes "\<not> size_checks cfg tensor_a tensor_b \<or> tensor_d_dtype (ElementOutput cfg) = None"
  shows "\<exists>err. two_four_sgemm_cutlass e cfg tensor_a tensor_a_stride tensor_b tensor_b_stride mask_or_meta
            = ([], Inl err) \<and> precondition_error err"
proof -
  let ?A = "narrow_int (sizes tensor_a ! 0) smod 32 = 0"
  let ?B = "narrow_int (sizes tensor_b ! 0) smod (if ElementInputA cfg = half_t then 64 else 128) = 0"
  let ?C = "narrow_int (sizes tensor_b ! 1) smod (if ElementInputA cfg = half_t then 8 else 16) = 0"
  from assms have "\<not> ?A \<or> \<not> ?B \<or> \<not> ?C \<or> tensor_d_dtype (ElementOutput cfg) = None"
    by (auto simp only: size_checks_narrow)
  then show ?thesis
    unfolding two_four_sgemm_cutlass_def Let_def
    by (cases ?A; cases ?B; cases ?C) (simp_all del: One_nat_def)
qed
lemma dispatch_Inr:
  assumes "dispatch st ar br = Inr cfg"
  shows "tensor_d_dtype (ElementOutput cfg) = Some (if st = kChar then kInt else kHalf)"
    and "ElementInputA cfg = half_t \<longleftrightarrow> st = kHalf"
    and "st = kChar \<or> st = kHalf"
    and "LayoutInputA cfg = (if ar then RowMajor else ColumnMajor)"
    and "LayoutInputB cfg = (if br then RowMajor else ColumnMajor)"
  using assms
  by (auto simp: dispatch_def config_Char_def config_Half_def tensor_d_dtype_def split: if_splits)

lemma dispatch_Inl:
  "dispatch st ar br = Inl err \<Longrightarrow> precondition_error err"
  by (auto simp: dispatch_def AT_DISPATCH_default_def split: if_splits)

lemma linear_checked:
  assumes "operand_checks e tensor_a tensor_b"
  shows "structured_sparse_linear e tensor_a tensor_b mask_or_meta =
     (case dispatch (scalar_type tensor_a) (strides tensor_a ! 1 = 1) (strides tensor_b ! 1 = 1) of
        Inl err \<Rightarrow> ([], Inl err)
      | Inr cfg \<Rightarrow>
         two_four_sgemm_cutlass e cfg tensor_a (stride_of tensor_a) tensor_b (stride_of tensor_b)
           mask_or_meta)"
proof -
  have a: "(strides tensor_a ! 0 = 1 \<or> strides tensor_a ! 1 = 1)
           \<and> strides tensor_a ! 0 \<noteq> strides tensor_a ! 1"
    and b: "(strides tensor_b ! 0 = 1 \<or> strides tensor_b ! 1 = 1)
           \<and> strides tensor_b ! 0 \<noteq> strides tensor_b ! 1"
    using assms by (simp_all add: operand_checks_def)
  have rest: "device_major e = 8" "layout tensor_a = Strided" "length (sizes tensor_a) = 2"
    "layout tensor_b = Strided" "length (sizes tensor_b) = 2"
    using assms by (simp_all add: operand_checks_def)
  show ?thesis
    unfolding structured_sparse_linear_def Let_def stride_of_def
    by (simp only: a b rest not_True_eq_False not_False_eq_True if_False if_True simp_thms)
qed

lemma linear_unchecked:
  assumes "\<not> operand_checks e tensor_a tensor_b"
  shows "\<exists>err. structured_sparse_linear e tensor_a tensor_b mask_or_meta = ([], Inl err)
            \<and> precondition_error err"
  using assms
  by (auto simp: structured_sparse_linear_def operand_checks_def Let_def)

lemma linear_cases:
  obtains (pre) err where
      "structured_sparse_linear e tensor_a tensor_b mask_or_meta = ([], Inl err)"
      "precondition_error err"
      "\<not> operand_checks e tensor_a tensor_b
       \<or> (\<forall>cfg. dispatch (scalar_type tensor_a) (strides tensor_a ! 1 = 1) (strides tensor_b ! 1 = 1) = Inr cfg
              \<longrightarrow> \<not> size_checks cfg tensor_a tensor_b)"
  | (body) cfg where
      "operand_checks e tensor_a tensor_b"
      "dispatch (scalar_type tensor_a) (strides tensor_a ! 1 = 1) (strides tensor_b ! 1 = 1) = Inr cfg"
      "size_checks cfg tensor_a tensor_b"
      "structured_sparse_linear e tensor_a tensor_b mask_or_meta =
         sgemm_body e cfg (if scalar_type tensor_a = kChar then kInt else kHalf)
           tensor_a (stride_of tensor_a) tensor_b (stride_of tensor_b) mask_or_meta"
proof (cases "operand_checks e tensor_a tensor_b")
  case False
  then show ?thesis using linear_unchecked [of e tensor_a tensor_b mask_or_meta] pre by blast
next
  case oc: True
  show ?thesis
  proof (cases "dispatch (scalar_type tensor_a) (strides tensor_a ! 1 = 1) (strides tensor_b ! 1 = 1)")
    case (Inl err)
    then have "structured_sparse_linear e tensor_a tensor_b mask_or_meta = ([], Inl err)"
      using oc by (simp add: linear_checked)
    moreover have "precondition_error err" using Inl by (rule dispatch_Inl)
    ultimately show ?thesis using Inl pre by simp
  next
    case (Inr cfg)
    note dt = dispatch_Inr(1) [OF Inr]
    have eq: "structured_sparse_linear e tensor_a tensor_b mask_or_meta =
        two_four_sgemm_cutlass e cfg tensor_a (stride_of tensor_a) tensor_b (stride_of tensor_b) mask_or_meta"
      using oc Inr by (simp add: linear_checked)
    show ?thesis
    proof (cases "size_checks cfg tensor_a tensor_b")
      case True
      then show ?thesis using oc Inr eq dt by (intro body [of cfg]) (simp_all add: sgemm_checked)
    next
      case False
      then obtain err where
        "two_four_sgemm_cutlass e cfg tensor_a (stride_of tensor_a) tensor_b (stride_of tensor_b) mask_or_meta
           = ([], Inl err)" "precondition_error err"
        using sgemm_unchecked [of cfg tensor_a tensor_b e] by blast
      then show ?thesis using eq Inr False by (intro pre [of err]) simp_all
    qed
  qed
qed

lemma sgemm_body_not_bool:
  assumes "scalar_type mask_or_meta \<noteq> kBool"
  shows "sgemm_body e cfg dtype tensor_a sa tensor_b sb mask_or_meta =
     (case new_empty e [narrow_int (sizes tensor_a ! 0), narrow_int (sizes tensor_b ! 1)] dtype of
        None \<Rightarrow> ([Alloc_tensor_d], Inl Negative_dimension)
      | Some tensor_d \<Rightarrow>
         (Alloc_tensor_d # fst (sgemm_run e cfg
              (sgemm_arguments cfg (narrow_int (sizes tensor_a ! 0)) (narrow_int (sizes tensor_b ! 1))
                 (narrow_int (sizes tensor_b ! 0)) tensor_a sa tensor_b sb tensor_d mask_or_meta)
              tensor_d mask_or_meta),
          snd (sgemm_run e cfg
              (sgemm_arguments cfg (narrow_int (sizes tensor_a ! 0)) (narrow_int (sizes tensor_b ! 1))
                 (narrow_int (sizes tensor_b ! 0)) tensor_a sa tensor_b sb tensor_d mask_or_meta)
              tensor_d mask_or_meta)))"
  using assms
  by (simp add: sgemm_body_def sgemm_meta_not_bool Let_def split: prod.split option.split)

lemma sgemm_body_Inr:
  assumes "snd (sgemm_body e cfg dtype tensor_a sa tensor_b sb mask_or_meta) = Inr (d, meta)"
  obtains tensor_d evs arguments where
    "new_empty e [narrow_int (sizes tensor_a ! 0), narrow_int (sizes tensor_b ! 1)] dtype = Some tensor_d"
    "sgemm_meta e (traits e cfg) (narrow_int (sizes tensor_a ! 0)) (narrow_int (sizes tensor_b ! 0))
       (narrow_int (sizes tensor_b ! 0) sdiv int (kSparse (traits e cfg))
          sdiv int (kElementsPerElementE (traits e cfg)))
       mask_or_meta = (evs, Inr meta)"
    "arguments = sgemm_arguments cfg (narrow_int (sizes tensor_a ! 0)) (narrow_int (sizes tensor_b ! 1))
                        (narrow_int (sizes tensor_b ! 0)) tensor_a sa tensor_b sb tensor_d meta"
    "d = tensor_d \<lparr>data_ptr := snd (run e cfg arguments)\<rparr>"
    "fst (sgemm_body e cfg dtype tensor_a sa tensor_b sb mask_or_meta) =
       Alloc_tensor_d # evs @ [Alloc_workspace, Gemm_initialize arguments, Gemm_run arguments]"
proof -
  let ?tr = "traits e cfg"
  let ?M = "narrow_int (sizes tensor_a ! 0)" let ?K = "narrow_int (sizes tensor_b ! 0)"
  let ?N = "narrow_int (sizes tensor_b ! 1)"
  let ?nc = "?K sdiv int (kSparse ?tr) sdiv int (kElementsPerElementE ?tr)"
  show ?thesis
  proof (cases "new_empty e [?M, ?N] dtype")
    case None
    then show ?thesis using assms by (simp add: sgemm_body_def Let_def)
  next
    case (Some td)
    obtain evs r where m: "sgemm_meta e ?tr ?M ?K ?nc mask_or_meta = (evs, r)"
      by (cases "sgemm_meta e ?tr ?M ?K ?nc mask_or_meta")
    show ?thesis
    proof (cases r)
      case (Inl err)
      then show ?thesis using assms m Some by (simp add: sgemm_body_def Let_def)
    next
      case (Inr mr)
      let ?args = "sgemm_arguments cfg ?M ?N ?K tensor_a sa tensor_b sb td mr"
      have b: "sgemm_body e cfg dtype tensor_a sa tensor_b sb mask_or_meta =
          (Alloc_tensor_d # evs @ fst (sgemm_run e cfg ?args td mr), snd (sgemm_run e cfg ?args td mr))"
        using m Inr Some by (simp add: sgemm_body_def Let_def split: prod.split)
      then have "snd (sgemm_run e cfg ?args td mr) = Inr (d, meta)" using assms by simp
      from sgemm_run_Inr [OF this] have
        "d = td \<lparr>data_ptr := snd (run e cfg ?args)\<rparr>" "mr = meta"
        "fst (sgemm_run e cfg ?args td mr) = [Alloc_workspace, Gemm_initialize ?args, Gemm_run ?args]"
        by simp_all
      then show ?thesis using m Inr b Some by (intro that [of td evs ?args]) simp_all
    qed
  qed
qed

lemma sgemm_body_hd:
  "hd (fst (sgemm_body e cfg dtype tensor_a sa tensor_b sb mask_or_meta)) = Alloc_tensor_d"
  by (simp add: sgemm_body_def Let_def split: prod.split sum.split option.split)

lemma sgemm_body_Inl:
  assumes "snd (sgemm_body e cfg dtype tensor_a sa tensor_b sb mask_or_meta) = Inl err"
    and "scalar_type mask_or_meta = kBool \<longrightarrow> mask_checks (traits e cfg) mask_or_meta"
  shows "\<not> precondition_error err"
proof -
  let ?tr = "traits e cfg"
  let ?M = "narrow_int (sizes tensor_a ! 0)" let ?K = "narrow_int (sizes tensor_b ! 0)"
  let ?N = "narrow_int (sizes tensor_b ! 1)"
  let ?nc = "?K sdiv int (kSparse ?tr) sdiv int (kElementsPerElementE ?tr)"
  show ?thesis
  proof (cases "new_empty e [?M, ?N] dtype")
    case None
    then show ?thesis using assms(1) by (auto simp: sgemm_body_def Let_def)
  next
    case (Some td)
    obtain evs r where m: "sgemm_meta e ?tr ?M ?K ?nc mask_or_meta = (evs, r)"
      by (cases "sgemm_meta e ?tr ?M ?K ?nc mask_or_meta")
    show ?thesis
    proof (cases r)
      case (Inl err')
      then have "err' = err" using assms(1) m Some by (simp add: sgemm_body_def Let_def)
      then show ?thesis using sgemm_meta_Inl [of e ?tr ?M ?K ?nc mask_or_meta evs err] m Inl assms(2)
        by simp
    next
      case (Inr mr)
      let ?args = "sgemm_arguments cfg ?M ?N ?K tensor_a sa tensor_b sb td mr"
      have "sgemm_body e cfg dtype tensor_a sa tensor_b sb mask_or_meta =
          (Alloc_tensor_d # evs @ fst (sgemm_run e cfg ?args td mr), snd (sgemm_run e cfg ?args td mr))"
        using m Inr Some by (simp add: sgemm_body_def Let_def split: prod.split)
      then have "snd (sgemm_run e cfg ?args td mr) = Inl err" using assms(1) by simp
      then show ?thesis by (rule sgemm_run_Inl)
    qed
  qed
qed

lemma bad_group_sets_flag:
  assumes "M < 2 ^ 31" "K < 2 ^ 31"
    and "m < M" "k < K div 4" "count_true (pos_tuple mask_ptr mask_stride m k) \<noteq> 2"
  shows "snd (two_four_create_meta_kernel sizeof_T (int M) (int K) mask_stride mask_ptr meta_stride meta error)"
proof -
  have "snd (create_meta_code (pos_tuple mask_ptr mask_stride m k))"
    using assms(5) by (simp add: snd_create_meta_code)
  moreover have "create_meta_in_range (int M) (int K) m k"
    using assms(1-4) by (simp add: create_meta_in_range_nat)
  ultimately show ?thesis unfolding create_meta_kernel_error [OF assms(1,2)] by blast
qed

lemma wrapped_offset:
  assumes "m * s + c < 2 ^ 32"
  shows "(m * unsigned_int (narrow_int s) + c) mod 2 ^ 32 = m * s + c"
proof -
  have "(m * (s mod 2 ^ 32) + c) mod 2 ^ 32 = (m * s + c) mod 2 ^ 32"
    by (metis mod_add_left_eq mod_mult_right_eq)
  then show ?thesis using assms by (simp add: unsigned_int_narrow_int)
qed

lemma pos_tuple_mask_group:
  assumes "strides msk ! 1 = 1" and "m * strides msk ! 0 + 4 * k + 3 < 2 ^ 32"
  shows "pos_tuple (\<lambda>i. data_ptr msk i \<noteq> 0) (narrow_int (strides msk ! 0)) m k = mask_group msk m k"
proof -
  let ?s = "strides msk ! 0"
  have "(m * unsigned_int (narrow_int ?s) + k * 4) mod 2 ^ 32 = m * ?s + k * 4"
    "(m * unsigned_int (narrow_int ?s) + k * 4 + 1) mod 2 ^ 32 = m * ?s + k * 4 + 1"
    "(m * unsigned_int (narrow_int ?s) + k * 4 + 2) mod 2 ^ 32 = m * ?s + k * 4 + 2"
    "(m * unsigned_int (narrow_int ?s) + k * 4 + 3) mod 2 ^ 32 = m * ?s + k * 4 + 3"
    using assms(2) wrapped_offset [of m ?s "k * 4"] wrapped_offset [of m ?s "k * 4 + 1"]
      wrapped_offset [of m ?s "k * 4 + 2"] wrapped_offset [of m ?s "k * 4 + 3"]
    by (simp_all add: add.assoc)
  then show ?thesis using assms(1)
    unfolding pos_tuple_def mask_group_def Let_def by (simp add: mult.commute add.assoc)
qed

lemma window_offset:
  fixes M K s m k :: nat
  assumes "m < M" "k < K div 4" "M * s + K \<le> 2 ^ 32"
  shows "m * s + 4 * k + 3 < 2 ^ 32"
proof -
  have "m * s \<le> M * s" using assms(1) by simp
  moreover have "4 * k + 3 < K" using assms(2) by linarith
  ultimately show ?thesis using assms(3) by linarith
qed

lemma sgemm_meta_bad_group:
  assumes "scalar_type msk = kBool"
    and "M < 2 ^ 31" "K < 2 ^ 31"
    and "m < M" "k < K div 4"
    and "count_true (mask_group msk m k) \<noteq> 2"
    and "M * strides msk ! 0 + K \<le> 2 ^ 32"
  shows "\<exists>evs err. sgemm_meta e tr (int M) (int K) meta_ncols msk = (evs, Inl err)"
    and "mask_checks tr msk \<Longrightarrow> launch_check_create_meta e \<Longrightarrow> 0 \<le> meta_ncols \<Longrightarrow>
         sgemm_meta e tr (int M) (int K) meta_ncols msk =
           ([Alloc_meta, Alloc_error, Launch_create_meta, Item_error], Inl Mask_not_2_4_sparse)"
proof -
  have flag: "snd (two_four_create_meta_kernel sizeof_T (int M) (int K) (narrow_int (strides msk ! 0))
                    (\<lambda>i. data_ptr msk i \<noteq> 0) meta_stride meta error)"
    if "mask_checks tr msk" for sizeof_T meta_stride meta error
  proof -
    have "strides msk ! 1 = 1" using that by (simp add: mask_checks_def)
    moreover have "m * strides msk ! 0 + 4 * k + 3 < 2 ^ 32"
      using assms(4,5,7) by (rule window_offset)
    ultimately have "pos_tuple (\<lambda>i. data_ptr msk i \<noteq> 0) (narrow_int (strides msk ! 0)) m k
        = mask_group msk m k" by (rule pos_tuple_mask_group)
    then have "count_true (pos_tuple (\<lambda>i. data_ptr msk i \<noteq> 0) (narrow_int (strides msk ! 0)) m k) \<noteq> 2"
      using assms(6) by simp
    with assms(2-5) show ?thesis by (rule bad_group_sets_flag)
  qed
  show "\<exists>evs err. sgemm_meta e tr (int M) (int K) meta_ncols msk = (evs, Inl err)"
  proof (cases "mask_checks tr msk")
    case False
    then show ?thesis using sgemm_meta_unchecked [OF assms(1) False] by blast
  next
    case True
    from assms(1) True show ?thesis
      by (cases rule: sgemm_meta_cases [where msk = msk and tr = tr and e = e
            and length_m = "int M" and meta_ncols = meta_ncols and length_k = "int K"])
         (use flag [OF True] in auto)
  qed
  show "sgemm_meta e tr (int M) (int K) meta_ncols msk =
           ([Alloc_meta, Alloc_error, Launch_create_meta, Item_error], Inl Mask_not_2_4_sparse)"
    if "mask_checks tr msk" "launch_check_create_meta e" "0 \<le> meta_ncols"
    using assms(1) that(1)
    by (cases rule: sgemm_meta_cases [where msk = msk and tr = tr and e = e
            and length_m = "int M" and meta_ncols = meta_ncols and length_k = "int K"])
       (use flag [OF that(1)] that(2,3) in auto)
qed

lemma sgemm_arguments_sizes:
  "sgemm_arguments cfg m n k (tensor_a \<lparr>sizes := s\<rparr>) sa tensor_b sb tensor_d meta
   = sgemm_arguments cfg m n k tensor_a sa tensor_b sb tensor_d meta"
  by (simp add: sgemm_arguments_def)

lemma sgemm_sizes:
  "two_four_sgemm_cutlass e cfg (tensor_a \<lparr>sizes := [sizes tensor_a ! 0, cols]\<rparr>) sa tensor_b sb mask_or_meta
   = two_four_sgemm_cutlass e cfg tensor_a sa tensor_b sb mask_or_meta"
proof -
  have sz0: "sizes (tensor_a \<lparr>sizes := [sizes tensor_a ! 0, cols]\<rparr>) ! 0 = sizes tensor_a ! 0"
    by simp
  show ?thesis
    unfolding two_four_sgemm_cutlass_def Let_def sgemm_arguments_sizes sz0 by (rule refl)
qed

lemma sgemm_mask_sizes:
  assumes "scalar_type msk = kBool" "length (sizes msk) = 2"
  shows "two_four_sgemm_cutlass e cfg tensor_a sa tensor_b sb (msk \<lparr>sizes := [r, c]\<rparr>)
   = two_four_sgemm_cutlass e cfg tensor_a sa tensor_b sb msk"
  unfolding two_four_sgemm_cutlass_def Let_def sgemm_meta_sizes [OF assms] by (rule refl)

lemma stride_of_sizes: "stride_of (t \<lparr>sizes := s\<rparr>) = stride_of t"
  by (simp add: stride_of_def)

lemma linear_unchecked_eq:
  assumes "\<not> operand_checks e tensor_a tensor_b"
  shows "structured_sparse_linear e tensor_a tensor_b mask_or_meta =
         structured_sparse_linear e tensor_a tensor_b mask_or_meta'"
  using assms
  by (auto simp: structured_sparse_linear_def operand_checks_def Let_def)

lemma sgemm_meta_good:
  assumes "scalar_type msk = kBool" "mask_checks tr msk" "0 \<le> length_m" "0 \<le> meta_ncols"
    and "launch_check_create_meta e" "launch_check_reorder_meta e"
    and "\<And>meta_stride. \<not> snd (two_four_create_meta_kernel (sizeof_ElementInputE tr) length_m length_k
              (narrow_int (strides msk ! 0)) (\<lambda>i. data_ptr msk i \<noteq> 0) meta_stride Map.empty False)"
  shows "\<exists>mr. sgemm_meta e tr length_m length_k meta_ncols msk =
           ([Alloc_meta, Alloc_error, Launch_create_meta, Item_error, Alloc_meta_reordered,
             Launch_reorder_meta], Inr mr)"
  using assms(1,2)
proof (cases rule: sgemm_meta_cases [where msk = msk and tr = tr and e = e
            and length_m = length_m and meta_ncols = meta_ncols and length_k = length_k])
  case (reorder meta evs r)
  show ?thesis
    by (cases rule: sgemm_reorder_cases [where e = e and tr = tr and length_m = length_m
            and meta_ncols = meta_ncols and meta =
            "meta \<lparr>data_ptr := written (sizeof_ElementInputE tr) (data_ptr meta)
                  (fst (two_four_create_meta_kernel (sizeof_ElementInputE tr) length_m length_k
                          (narrow_int (strides msk ! 0)) (\<lambda>i. data_ptr msk i \<noteq> 0)
                          (narrow_int (strides meta ! 0)) Map.empty False))\<rparr>"])
       (use reorder(4,5) assms(6) in auto)
qed (use assms(3-7) in auto)

lemma sgemm_body_good:
  assumes "new_empty e [narrow_int (sizes tensor_a ! 0), narrow_int (sizes tensor_b ! 1)] dtype = Some td"
    and "sgemm_meta e (traits e cfg) (narrow_int (sizes tensor_a ! 0)) (narrow_int (sizes tensor_b ! 0))
           (narrow_int (sizes tensor_b ! 0) sdiv int (kSparse (traits e cfg))
              sdiv int (kElementsPerElementE (traits e cfg))) mask_or_meta = (evs, Inr mr)"
  shows "snd (sgemm_body e cfg dtype tensor_a sa tensor_b sb mask_or_meta) =
         snd (sgemm_run e cfg
                (sgemm_arguments cfg (narrow_int (sizes tensor_a ! 0)) (narrow_int (sizes tensor_b ! 1))
                   (narrow_int (sizes tensor_b ! 0)) tensor_a sa tensor_b sb td mr) td mr)"
  using assms by (simp add: sgemm_body_def Let_def split: prod.split)

section \<open>Lemmas about the example inputs\<close>

lemma narrow_int_numerals:
  "narrow_int 8 = 8" "narrow_int 16 = 16" "narrow_int 32 = 32" "narrow_int 64 = 64"
  "narrow_int 128 = 128" "narrow_int 4 = 4" "narrow_int 4294967304 = 8"
  by (simp_all add: narrow_int_def)

lemma example_run:
  "sgemm_run example_env cfg arguments tensor_d meta_reordered =
     ([Alloc_workspace, Gemm_initialize arguments, Gemm_run arguments],
      Inr (tensor_d \<lparr>data_ptr := (\<lambda>i. 0)\<rparr>, meta_reordered))"
  by (simp add: sgemm_run_def example_env_def)

lemma example_new_empty:
  "0 < cols \<Longrightarrow> new_empty example_env [int rows, int cols] dtype = Some (example_tensor dtype rows cols)"
  by (simp add: new_empty_def example_env_def example_tensor_def)

lemma example_call:
  assumes "cols \<noteq> 1"
  shows "structured_sparse_linear example_env (example_tensor kHalf 32 cols) (example_tensor kHalf 64 8)
     (example_tensor kShort 32 4) =
   ([Alloc_tensor_d, Alloc_workspace,
     Gemm_initialize (sgemm_arguments (config_Half RowMajor RowMajor) 32 8 64
        (example_tensor kHalf 32 cols) cols (example_tensor kHalf 64 8) 8
        (example_tensor kHalf 32 8) (example_tensor kShort 32 4)),
     Gemm_run (sgemm_arguments (config_Half RowMajor RowMajor) 32 8 64
        (example_tensor kHalf 32 cols) cols (example_tensor kHalf 64 8) 8
        (example_tensor kHalf 32 8) (example_tensor kShort 32 4))],
    Inr (example_tensor kHalf 32 8, example_tensor kShort 32 4))"
proof -
  have ne: "new_empty example_env [32, 8] kHalf = Some (example_tensor kHalf 32 8)"
    using example_new_empty [of 8 32 kHalf] by simp
  have d: "(example_tensor kHalf 32 8) \<lparr>data_ptr := (\<lambda>i. 0)\<rparr> = example_tensor kHalf 32 8"
    by (simp add: example_tensor_def)
  have s: "sizes (example_tensor kHalf 32 cols) ! 0 = 32" "sizes (example_tensor kHalf 64 8) ! 0 = 64"
    "sizes (example_tensor kHalf 64 8) ! 1 = 8" "scalar_type (example_tensor kShort 32 4) \<noteq> kBool"
    by (simp_all add: example_tensor_def)
  have "two_four_sgemm_cutlass example_env (config_Half RowMajor RowMajor)
          (example_tensor kHalf 32 cols) cols (example_tensor kHalf 64 8) 8 (example_tensor kShort 32 4) =
   ([Alloc_tensor_d, Alloc_workspace,
     Gemm_initialize (sgemm_arguments (config_Half RowMajor RowMajor) 32 8 64
        (example_tensor kHalf 32 cols) cols (example_tensor kHalf 64 8) 8
        (example_tensor kHalf 32 8) (example_tensor kShort 32 4)),
     Gemm_run (sgemm_arguments (config_Half RowMajor RowMajor) 32 8 64
        (example_tensor kHalf 32 cols) cols (example_tensor kHalf 64 8) 8
        (example_tensor kHalf 32 8) (example_tensor kShort 32 4))],
    Inr (example_tensor kHalf 32 8, example_tensor kShort 32 4))"
    unfolding two_four_sgemm_cutlass_def Let_def s narrow_int_numerals
    by (simp add: config_Half_def tensor_d_dtype_def ne sgemm_meta_not_bool s example_run d
          signed_modulo_int_def)
  moreover have "structured_sparse_linear example_env (example_tensor kHalf 32 cols) (example_tensor kHalf 64 8)
     (example_tensor kShort 32 4) = two_four_sgemm_cutlass example_env (config_Half RowMajor RowMajor)
          (example_tensor kHalf 32 cols) cols (example_tensor kHalf 64 8) 8 (example_tensor kShort 32 4)"
    using assms
    by (simp add: structured_sparse_linear_def dispatch_def Let_def example_env_def example_tensor_def)
  ultimately show ?thesis by simp
qed

lemma example_checks:
  "operand_checks example_env (example_tensor kHalf 32 32) (example_tensor kHalf 64 8)"
  "dispatch kHalf True True = Inr (config_Half RowMajor RowMajor)"
  "size_checks (config_Half RowMajor RowMajor) (example_tensor kHalf 32 32) (example_tensor kHalf 64 8)"
  "mask_checks (traits example_env (config_Half RowMajor RowMajor)) (example_tensor kBool 32 64)"
  "launch_check_create_meta example_env"
  by (simp_all add: operand_checks_def size_checks_def mask_checks_def dispatch_def config_Half_def
        example_env_def example_tensor_def example_traits_def meta_dtype_def)

lemma example_sgemm_Half:
  "snd (two_four_sgemm_cutlass example_env (config_Half RowMajor RowMajor)
     (example_tensor kHalf 32 32) 32 (example_tensor kHalf 64 8) 8 (example_tensor kShort 32 4))
   = Inr (example_tensor kHalf 32 8, example_tensor kShort 32 4)"
proof -
  have ne: "new_empty example_env [32, 8] kHalf = Some (example_tensor kHalf 32 8)"
    using example_new_empty [of 8 32 kHalf] by simp
  have d: "(example_tensor kHalf 32 8) \<lparr>data_ptr := (\<lambda>i. 0)\<rparr> = example_tensor kHalf 32 8"
    by (simp add: example_tensor_def)
  have s: "sizes (example_tensor kHalf 32 32) ! 0 = 32" "sizes (example_tensor kHalf 64 8) ! 0 = 64"
    "sizes (example_tensor kHalf 64 8) ! 1 = 8" "scalar_type (example_tensor kShort 32 4) \<noteq> kBool"
    by (simp_all add: example_tensor_def)
  show ?thesis
    unfolding two_four_sgemm_cutlass_def Let_def s narrow_int_numerals
    by (simp add: config_Half_def tensor_d_dtype_def ne sgemm_meta_not_bool s example_run d
          signed_modulo_int_def)
qed

lemma example_sgemm_Char:
  "snd (two_four_sgemm_cutlass example_env (config_Char RowMajor ColumnMajor)
     (example_tensor kChar 32 64) 64 (example_tensor_cm kChar 128 16) 128 (example_tensor kInt 32 4))
   = Inr (example_tensor kInt 32 16, example_tensor kInt 32 4)"
proof -
  have ne: "new_empty example_env [32, 16] kInt = Some (example_tensor kInt 32 16)"
    using example_new_empty [of 16 32 kInt] by simp
  have d: "(example_tensor kInt 32 16) \<lparr>data_ptr := (\<lambda>i. 0)\<rparr> = example_tensor kInt 32 16"
    by (simp add: example_tensor_def)
  have s: "sizes (example_tensor kChar 32 64) ! 0 = 32" "sizes (example_tensor_cm kChar 128 16) ! 0 = 128"
    "sizes (example_tensor_cm kChar 128 16) ! 1 = 16" "scalar_type (example_tensor kInt 32 4) \<noteq> kBool"
    by (simp_all add: example_tensor_def example_tensor_cm_def)
  show ?thesis
    unfolding two_four_sgemm_cutlass_def Let_def s narrow_int_numerals
    by (simp add: config_Char_def tensor_d_dtype_def ne sgemm_meta_not_bool s example_run d
          signed_modulo_int_def)
qed

lemma example_sizes:
  "sizes (example_tensor dtype rows cols) ! 0 = rows"
  "sizes (example_tensor dtype rows cols) ! Suc 0 = cols"
  "sizes (example_tensor dtype rows cols) ! 1 = cols"
  "sizes (example_tensor_cm dtype rows cols) ! 0 = rows"
  "sizes (example_tensor_cm dtype rows cols) ! Suc 0 = cols"
  "sizes (example_tensor_cm dtype rows cols) ! 1 = cols"
  by (simp_all add: example_tensor_def example_tensor_cm_def)

lemma example_mask_code:
  "fst (create_meta_code (pos_tuple example_mask_ptr 64 m k)) = 4"
proof -
  define q where "q = m * 16 + k"
  have u: "unsigned_int 64 = 64" by (simp add: unsigned_int_def)
  have e: "m * 64 + k * 4 = 4 * q" by (simp add: q_def)
  have r: "((4 * q + r) mod 2 ^ 32) mod 4 = r mod 4" for r :: nat
    by (simp add: mod_mod_cancel)
  have "((4 * q) mod 2 ^ 32) mod 4 = 0" "((4 * q + 1) mod 2 ^ 32) mod 4 = 1"
    "((4 * q + 2) mod 2 ^ 32) mod 4 = 2" "((4 * q + 3) mod 2 ^ 32) mod 4 = 3"
    using r [of 0] r [of 1] r [of 2] r [of 3] by simp_all
  then have "pos_tuple example_mask_ptr 64 m k = (True, True, False, False)"
    unfolding pos_tuple_def example_mask_ptr_def u e Let_def by simp
  then show ?thesis by (simp add: create_meta_code_def)
qed

lemma pack_codes_4: "pack_codes c 4 = c 0 + c 1 * 16 + c 2 * 256 + c 3 * 4096"
proof -
  have "pack_codes c (Suc (Suc (Suc (Suc 0)))) = c 0 + c 1 * 16 + c 2 * 256 + c 3 * 4096"
    unfolding pack_codes_Suc by (simp add: pack_codes_def numeral_2_eq_2 numeral_3_eq_3)
  moreover have "(4::nat) = Suc (Suc (Suc (Suc 0)))" by simp
  ultimately show ?thesis by (simp only:)
qed

lemma pack_codes_2: "pack_codes c 2 = c 0 + c 1 * 16"
proof -
  have "pack_codes c (Suc (Suc 0)) = c 0 + c 1 * 16"
    unfolding pack_codes_Suc by (simp add: pack_codes_def)
  moreover have "(2::nat) = Suc (Suc 0)" by simp
  ultimately show ?thesis by (simp only:)
qed

lemma pack_codes_const_4: "pack_codes (\<lambda>t. 4) 4 = 17476"
  by (simp add: pack_codes_4)

lemma pack_codes_const_2: "pack_codes (\<lambda>t. 4) 2 = 68"
  by (simp add: pack_codes_2)

lemma example_mask_tail_group:
  assumes "m < 32" "k < 16"
  shows "pos_tuple (\<lambda>i. data_ptr example_mask_tail i \<noteq> 0) 64 m k = (True, True, False, False)"
proof -
  define q where "q = m * 16 + k"
  have u: "unsigned_int 64 = 64" by (simp add: unsigned_int_def)
  have e: "m * 64 + k * 4 = 4 * q" by (simp add: q_def)
  have "q < 512" using assms by (simp add: q_def)
  then have lt: "4 * q + 3 < 2048" by simp
  then have b: "4 * q + r < 2 ^ 32" if "r \<le> 3" for r using that by simp
  have "(4 * q) mod 2 ^ 32 = 4 * q" "(4 * q + 1) mod 2 ^ 32 = 4 * q + 1"
    "(4 * q + 2) mod 2 ^ 32 = 4 * q + 2" "(4 * q + 3) mod 2 ^ 32 = 4 * q + 3"
    using b [of 0] b [of 1] b [of 2] b [of 3] by simp_all
  moreover have r4: "(4 * q + r) mod 4 = r mod 4" for r :: nat by simp
  have "(4 * q) mod 4 = 0" "(4 * q + 1) mod 4 = 1" "(4 * q + 2) mod 4 = 2" "(4 * q + 3) mod 4 = 3"
    by (simp_all only: r4) simp_all
  ultimately show ?thesis
    using lt unfolding pos_tuple_def example_mask_tail_def u e Let_def by simp
qed

lemma example_mask_tail_flag:
  "\<not> snd (two_four_create_meta_kernel sizeof_T 32 64 64
            (\<lambda>i. data_ptr example_mask_tail i \<noteq> 0) meta_stride Map.empty False)"
proof -
  have b: "(32::nat) < 2 ^ 31" "(64::nat) < 2 ^ 31" "(32::nat) < 2 ^ 32" "(64::nat) < 2 ^ 32" by simp_all
  have "\<not> snd (two_four_create_meta_kernel sizeof_T (int 32) (int 64) 64
            (\<lambda>i. data_ptr example_mask_tail i \<noteq> 0) meta_stride Map.empty False)"
    unfolding create_meta_kernel_error [OF b(1,2)] create_meta_in_range_nat [OF b(3,4)]
    by (auto simp: example_mask_tail_group create_meta_code_def)
  then show ?thesis by simp
qed

lemma example_partial_tile:
  "lane_writes 2 1 8 example_warp 0"
  "lane_packed 2 1 8 8 example_mask_ptr example_warp 0 = None"
proof -
  have l: "lane_m example_warp n = n div 16" "lane_k example_warp n = n mod 16" if "n < 32" for n
    using that by (simp_all add: lane_m_def lane_k_def example_warp_def)
  have r: "create_meta_in_range 1 8 m k \<longleftrightarrow> m < 1 \<and> k < 2" for m k
    by (simp add: create_meta_in_range_def unsigned_int_def signed_divide_int_def)
  show "lane_writes 2 1 8 example_warp 0"
    by (simp add: lane_writes_def r l)
  have "lane_val 1 8 8 example_mask_ptr example_warp 2 = None"
    by (simp add: lane_val_def r l)
  then have v2: "lane_val 1 8 8 example_mask_ptr example_warp (Suc (Suc 0)) = None"
    by (simp only: numeral_2_eq_2)
  let ?vals = "lane_val 1 8 8 example_mask_ptr example_warp"
  let ?v1 = "\<lambda>lane. shfl_combine 2 1 (?vals lane) (shfl_down_sync ?vals 1 lane)"
  let ?v2 = "\<lambda>lane. shfl_combine 2 2 (?v1 lane) (shfl_down_sync ?v1 2 lane)"
  have "shfl_loop 2 1 ?vals = shfl_loop 2 (1 * 2) ?v1" by (rule shfl_loop_step) simp_all
  also have "\<dots> = shfl_loop 2 (2 * 2) ?v2" using shfl_loop_step [of 2 2 ?v1] by simp
  also have "\<dots> = ?v2" by (rule shfl_loop_stop) simp
  finally have "lane_packed 2 1 8 8 example_mask_ptr example_warp 0 = ?v2 0"
    by (simp add: lane_packed_def)
  also have "?v2 0 = None"
    by (simp add: shfl_combine_def shfl_down_sync_def v2 split: option.split)
  finally show "lane_packed 2 1 8 8 example_mask_ptr example_warp 0 = None" .
qed

lemma example_call_expanded:
  "snd (structured_sparse_linear example_env (example_tensor kHalf 32 32) example_tensor_expanded
          (example_tensor kShort 32 4))
   = Inr (example_tensor kHalf 32 8, example_tensor kShort 32 4)"
proof -
  let ?a = "example_tensor kHalf 32 32" let ?b = "example_tensor_expanded"
  let ?cfg = "config_Half RowMajor ColumnMajor"
  have ne: "new_empty example_env [32, 8] kHalf = Some (example_tensor kHalf 32 8)"
    using example_new_empty [of 8 32 kHalf] by simp
  have d: "(example_tensor kHalf 32 8) \<lparr>data_ptr := (\<lambda>i. 0)\<rparr> = example_tensor kHalf 32 8"
    by (simp add: example_tensor_def)
  have s: "sizes ?a ! 0 = 32" "sizes ?b ! 0 = 64" "sizes ?b ! 1 = 4294967304"
    "scalar_type (example_tensor kShort 32 4) \<noteq> kBool"
    by (simp_all add: example_tensor_def example_tensor_expanded_def)
  have "snd (two_four_sgemm_cutlass example_env ?cfg ?a 32 ?b 0 (example_tensor kShort 32 4)) =
      Inr (example_tensor kHalf 32 8, example_tensor kShort 32 4)"
    unfolding two_four_sgemm_cutlass_def Let_def s narrow_int_numerals
    by (simp add: config_Half_def tensor_d_dtype_def ne sgemm_meta_not_bool s example_run d
          signed_modulo_int_def)
  moreover have "structured_sparse_linear example_env ?a ?b (example_tensor kShort 32 4) =
      two_four_sgemm_cutlass example_env ?cfg ?a 32 ?b 0 (example_tensor kShort 32 4)"
    by (simp add: structured_sparse_linear_def dispatch_def Let_def example_env_def example_tensor_def
          example_tensor_expanded_def)
  ultimately show ?thesis by simp
qed

section \<open>The claims\<close>

text \<open>
  C1. A group of four mask entries with exactly two true entries yields the code of the
  table ((1,1,0,0) gives 4, (1,0,1,0) gives 8, (0,1,1,0) gives 9, (1,0,0,1) gives 12,
  (0,1,0,1) gives 13, (0,0,1,1) gives 14) and leaves the failure flag alone; every other
  group sets the failure flag and yields no code (the value stays 0). A worker within the
  bounds holds, before the exchange, the code of the group it read, and sets the flag exactly
  when that group does not have exactly two true entries; a worker outside the bounds holds
  no value and sets nothing. Over the whole launch the flag is set exactly when it was set
  before or some worker of the grid, within the bounds, read such a group; for lengths that
  are not negative these are the groups of the \<open>length_m\<close> rows and \<open>length_k / 4\<close> groups.
\<close>

theorem create_meta_code_table:
  "create_meta_code (True, True, False, False) = (4, False)
   \<and> create_meta_code (True, False, True, False) = (8, False)
   \<and> create_meta_code (False, True, True, False) = (9, False)
   \<and> create_meta_code (True, False, False, True) = (12, False)
   \<and> create_meta_code (False, True, False, True) = (13, False)
   \<and> create_meta_code (False, False, True, True) = (14, False)
   \<and> (count_true t = 2 \<longrightarrow>
        \<not> snd (create_meta_code t) \<and> fst (create_meta_code t) \<in> {4, 8, 9, 12, 13, 14})
   \<and> (count_true t \<noteq> 2 \<longrightarrow> create_meta_code t = (0, True))
   \<and> (create_meta_in_range length_m length_k (lane_m w lane) (lane_k w lane) \<longrightarrow>
        lane_val length_m length_k mask_stride mask_ptr w lane =
          Some (fst (create_meta_code (pos_tuple mask_ptr mask_stride (lane_m w lane) (lane_k w lane))))
        \<and> (lane_error length_m length_k mask_stride mask_ptr w lane \<longleftrightarrow>
             count_true (pos_tuple mask_ptr mask_stride (lane_m w lane) (lane_k w lane)) \<noteq> 2))
   \<and> (\<not> create_meta_in_range length_m length_k (lane_m w lane) (lane_k w lane) \<longrightarrow>
        lane_val length_m length_k mask_stride mask_ptr w lane = None
        \<and> \<not> lane_error length_m length_k mask_stride mask_ptr w lane)
   \<and> (snd (two_four_create_meta_kernel sizeof_T length_m length_k mask_stride mask_ptr
              meta_stride meta error)
        \<longleftrightarrow> error \<or> (\<exists>w' \<in> set (create_meta_warps length_m length_k). \<exists>lane' < 32.
                        create_meta_in_range length_m length_k (lane_m w' lane') (lane_k w' lane')
                        \<and> count_true (pos_tuple mask_ptr mask_stride (lane_m w' lane') (lane_k w' lane'))
                             \<noteq> 2))
   \<and> (M < 2 ^ 31 \<and> K < 2 ^ 31 \<longrightarrow>
        (snd (two_four_create_meta_kernel sizeof_T (int M) (int K) mask_stride mask_ptr
                meta_stride meta error)
          \<longleftrightarrow> error \<or> (\<exists>m < M. \<exists>k < K div 4.
                          count_true (pos_tuple mask_ptr mask_stride m k) \<noteq> 2)))"
proof -
  obtain p0 p1 p2 p3 where t: "t = (p0, p1, p2, p3)"
    by (cases t) auto
  have code: "create_meta_code (True, True, False, False) = (4, False)
   \<and> create_meta_code (True, False, True, False) = (8, False)
   \<and> create_meta_code (False, True, True, False) = (9, False)
   \<and> create_meta_code (True, False, False, True) = (12, False)
   \<and> create_meta_code (False, True, False, True) = (13, False)
   \<and> create_meta_code (False, False, True, True) = (14, False)
   \<and> (count_true t = 2 \<longrightarrow>
        \<not> snd (create_meta_code t) \<and> fst (create_meta_code t) \<in> {4, 8, 9, 12, 13, 14})
   \<and> (count_true t \<noteq> 2 \<longrightarrow> create_meta_code t = (0, True))"
    unfolding t
    by (cases p0; cases p1; cases p2; cases p3) (simp_all add: create_meta_code_def count_true_def)
  have lane: "create_meta_in_range length_m length_k (lane_m w lane) (lane_k w lane) \<longrightarrow>
        lane_val length_m length_k mask_stride mask_ptr w lane =
          Some (fst (create_meta_code (pos_tuple mask_ptr mask_stride (lane_m w lane) (lane_k w lane))))
        \<and> (lane_error length_m length_k mask_stride mask_ptr w lane \<longleftrightarrow>
             count_true (pos_tuple mask_ptr mask_stride (lane_m w lane) (lane_k w lane)) \<noteq> 2)"
    by (simp add: lane_val_def lane_error_def snd_create_meta_code)
  have out: "\<not> create_meta_in_range length_m length_k (lane_m w lane) (lane_k w lane) \<longrightarrow>
        lane_val length_m length_k mask_stride mask_ptr w lane = None
        \<and> \<not> lane_error length_m length_k mask_stride mask_ptr w lane"
    by (simp add: lane_val_def lane_error_def)
  have flag: "snd (two_four_create_meta_kernel sizeof_T length_m length_k mask_stride mask_ptr
              meta_stride meta error)
        \<longleftrightarrow> error \<or> (\<exists>w' \<in> set (create_meta_warps length_m length_k). \<exists>lane' < 32.
                        create_meta_in_range length_m length_k (lane_m w' lane') (lane_k w' lane')
                        \<and> count_true (pos_tuple mask_ptr mask_stride (lane_m w' lane') (lane_k w' lane'))
                             \<noteq> 2)"
    unfolding create_meta_kernel_flag lane_error_def snd_create_meta_code by (rule refl)
  have grid: "M < 2 ^ 31 \<and> K < 2 ^ 31 \<longrightarrow>
        (snd (two_four_create_meta_kernel sizeof_T (int M) (int K) mask_stride mask_ptr
                meta_stride meta error)
          \<longleftrightarrow> error \<or> (\<exists>m < M. \<exists>k < K div 4.
                          count_true (pos_tuple mask_ptr mask_stride m k) \<noteq> 2))"
  proof
    assume b: "M < 2 ^ 31 \<and> K < 2 ^ 31"
    then have "M < 2 ^ 32" "K < 2 ^ 32" by simp_all
    note rng = create_meta_in_range_nat [OF this]
    from b show "snd (two_four_create_meta_kernel sizeof_T (int M) (int K) mask_stride mask_ptr
                meta_stride meta error)
          \<longleftrightarrow> error \<or> (\<exists>m < M. \<exists>k < K div 4.
                          count_true (pos_tuple mask_ptr mask_stride m k) \<noteq> 2)"
      by (simp only: create_meta_kernel_error snd_create_meta_code rng) blast
  qed
  from code lane out flag grid show ?thesis by blast
qed

theorem create_meta_code_table_witness:
  "count_true (True, False, False, True) = 2
   \<and> \<not> snd (create_meta_code (True, False, False, True))
   \<and> fst (create_meta_code (True, False, False, True)) \<in> {4, 8, 9, 12, 13, 14}
   \<and> count_true (True, True, True, False) \<noteq> 2
   \<and> create_meta_code (True, True, True, False) = (0, True)
   \<and> create_meta_in_range 32 64 (lane_m example_warp 0) (lane_k example_warp 0)
   \<and> lane_val 32 64 64 example_mask_ptr example_warp 0 = Some 4
   \<and> \<not> lane_error 32 64 64 example_mask_ptr example_warp 0
   \<and> \<not> create_meta_in_range 1 8 (lane_m example_warp 2) (lane_k example_warp 2)
   \<and> lane_val 1 8 8 example_mask_ptr example_warp 2 = None
   \<and> snd (two_four_create_meta_kernel 2 32 64 64 (\<lambda>i. True) 4 Map.empty False)"
proof -
  note a = create_meta_code_table [where t = "(True, False, False, True)" and length_m = 32
      and length_k = 64 and mask_stride = 64 and mask_ptr = example_mask_ptr and w = example_warp
      and lane = 0 and sizeof_T = 2 and meta_stride = 4 and meta = Map.empty and error = False
      and M = 32 and K = 64]
  note b = create_meta_code_table [where t = "(True, True, True, False)" and length_m = 1
      and length_k = 8 and mask_stride = 8 and mask_ptr = example_mask_ptr and w = example_warp
      and lane = 2 and sizeof_T = 2 and meta_stride = 4 and meta = Map.empty and error = False
      and M = 32 and K = 64]
  note c = create_meta_code_table [where t = "(True, True, True, False)" and length_m = 1
      and length_k = 8 and mask_stride = 64 and mask_ptr = "\<lambda>i. True" and w = example_warp
      and lane = 2 and sizeof_T = 2 and meta_stride = 4 and meta = Map.empty and error = False
      and M = 32 and K = 64]
  have l: "lane_m example_warp 0 = 0" "lane_k example_warp 0 = 0"
    "lane_m example_warp 2 = 0" "lane_k example_warp 2 = 2"
    by (simp_all add: lane_m_def lane_k_def example_warp_def)
  have r1: "create_meta_in_range 32 64 (lane_m example_warp 0) (lane_k example_warp 0)"
    by (simp add: create_meta_in_range_def unsigned_int_def signed_divide_int_def l)
  have r2: "\<not> create_meta_in_range 1 8 (lane_m example_warp 2) (lane_k example_warp 2)"
    by (simp add: create_meta_in_range_def unsigned_int_def signed_divide_int_def l)
  have 1: "count_true (True, False, False, True) = 2" "count_true (True, True, True, False) \<noteq> 2"
    by (simp_all add: count_true_def)
  have t1: "\<not> snd (create_meta_code (True, False, False, True))
      \<and> fst (create_meta_code (True, False, False, True)) \<in> {4, 8, 9, 12, 13, 14}"
    using a 1(1) by blast
  have t2: "create_meta_code (True, True, True, False) = (0, True)"
    using b 1(2) by blast
  have "lane_val 32 64 64 example_mask_ptr example_warp 0 =
          Some (fst (create_meta_code (pos_tuple example_mask_ptr 64 (lane_m example_warp 0)
                  (lane_k example_warp 0))))
        \<and> (lane_error 32 64 64 example_mask_ptr example_warp 0 \<longleftrightarrow>
             count_true (pos_tuple example_mask_ptr 64 (lane_m example_warp 0) (lane_k example_warp 0)) \<noteq> 2)"
    using a r1 by blast
  moreover have "pos_tuple example_mask_ptr 64 0 0 = (True, True, False, False)"
    by (simp add: pos_tuple_def example_mask_ptr_def)
  ultimately have t3: "lane_val 32 64 64 example_mask_ptr example_warp 0 = Some 4"
    "\<not> lane_error 32 64 64 example_mask_ptr example_warp 0"
    by (simp_all add: l create_meta_code_def count_true_def)
  have t4: "lane_val 1 8 8 example_mask_ptr example_warp 2 = None"
    using b r2 by blast
  have "\<exists>m<32::nat. \<exists>k<64 div 4::nat. count_true (pos_tuple (\<lambda>i. True) 64 m k) \<noteq> 2"
    by (rule exI [of _ 0], simp, rule exI [of _ 0]) (simp add: count_true_def pos_tuple_def)
  moreover have "(32::nat) < 2 ^ 31 \<and> (64::nat) < 2 ^ 31" by simp
  ultimately have t5: "snd (two_four_create_meta_kernel 2 (int 32) (int 64) 64 (\<lambda>i. True) 4 Map.empty False)"
    using c by blast
  from 1 t1 t2 r1 r2 t3 t4 t5 show ?thesis by simp
qed

text \<open>
  C2, as stated, fails: with an odd number of columns the swizzle sends an element of the
  last column, in an odd destination row, one column beyond the grid. For 2-byte elements,
  32 rows and 1 column, the element at (8, 0) goes to (0, 1).
\<close>

theorem reorder_meta_odd_columns_counterexample:
  "\<not> bij_betw (reorder_dst 2) ({..<32} \<times> {..<1}) ({..<32} \<times> {..<1})"
proof
  assume "bij_betw (reorder_dst 2) ({..<32} \<times> {..<1}) ({..<32} \<times> {..<1})"
  then have "reorder_dst 2 ` ({..<32} \<times> {..<1}) = {..<32} \<times> {..<1}" by (simp add: bij_betw_def)
  moreover have "(8, 0) \<in> {..<32::nat} \<times> {..<1::nat}" by simp
  ultimately have "reorder_dst 2 (8, 0) \<in> {..<32} \<times> {..<1}" by blast
  then show False by (simp add: reorder_dst_def)
qed

text \<open>
  C2, amended. For every number of rows divisible by the group size (32 for 2-byte elements,
  16 otherwise) and every even number of columns, the index map of the reorderer is a
  bijection of the grid onto itself; after the kernel, the destination reference holds at
  the image of every grid coordinate exactly the source value of that coordinate, and no
  cell outside the grid is changed (for a destination layout that is injective on the
  grid).
\<close>

theorem reorder_meta_bijection:
  assumes "length_m mod (if sizeof_Element = 2 then 32 else 16) = 0" and "even length_k"
  shows "bij_betw (reorder_dst sizeof_Element)
           ({..<length_m} \<times> {..<length_k}) ({..<length_m} \<times> {..<length_k})
         \<and> (inj_on dst_at ({..<length_m} \<times> {..<length_k}) \<longrightarrow>
              (\<forall>c \<in> {..<length_m} \<times> {..<length_k}.
                 two_four_reorder_meta_kernel sizeof_Element length_m length_k src_at src dst_at dst
                   (dst_at (reorder_dst sizeof_Element c)) = src (src_at c))
              \<and> (\<forall>a. a \<notin> dst_at ` ({..<length_m} \<times> {..<length_k}) \<longrightarrow>
                 two_four_reorder_meta_kernel sizeof_Element length_m length_k src_at src dst_at dst a
                   = dst a))"
proof -
  let ?G = "{..<length_m} \<times> {..<length_k}"
  have g: "length_m mod reorder_group sizeof_Element = 0"
    using assms(1) by (simp add: reorder_group_def)
  have bij: "bij_betw (reorder_dst sizeof_Element) ?G ?G" using g assms(2) by (rule reorder_dst_bij)
  then have img: "reorder_dst sizeof_Element ` ?G = ?G" by (simp add: bij_betw_def)
  have "two_four_reorder_meta_kernel sizeof_Element length_m length_k src_at src dst_at dst
          (dst_at (reorder_dst sizeof_Element c)) = src (src_at c)"
    if "inj_on dst_at ?G" "c \<in> ?G" for c
    using that by (intro reorder_kernel_cell) (simp_all only: img)
  moreover have "two_four_reorder_meta_kernel sizeof_Element length_m length_k src_at src dst_at dst a
          = dst a" if "a \<notin> dst_at ` ?G" for a
    by (rule reorder_kernel_other) (use that in \<open>simp only: img\<close>, simp)
  ultimately show ?thesis using bij by blast
qed

theorem reorder_meta_bijection_witness:
  "bij_betw (reorder_dst 2) ({..<32} \<times> {..<4}) ({..<32} \<times> {..<4})
   \<and> two_four_reorder_meta_kernel 2 32 4 (RowMajor_at 4) (\<lambda>i. int i) (RowMajor_at 4) (\<lambda>i. 0)
        (RowMajor_at 4 (reorder_dst 2 (9, 2))) = int (RowMajor_at 4 (9, 2))"
proof -
  have i: "inj_on (RowMajor_at 4) ({..<32} \<times> {..<4})" by (rule RowMajor_at_inj) simp
  have c: "(9, 2) \<in> {..<32::nat} \<times> {..<4::nat}" by simp
  show ?thesis
    using reorder_meta_bijection [of 32 2 4 "RowMajor_at 4" "RowMajor_at 4" "\<lambda>i. int i" "\<lambda>i. 0"] i c
    by (simp del: lessThan_iff)
qed

text \<open>
  C3, as stated, fails: the builder reads the mask only within the rows of the sparse
  operand and the reduction length of the dense operand, and the sizes of the mask are never
  looked at. With operands of 32 by 32 and 64 by 8 and a mask of 64 rows, the first 32 of
  them 2:4 sparse and row 32 without a true entry, the call returns a product.
\<close>

theorem mask_group_outside_operands_counterexample:
  "scalar_type example_mask_tail = kBool
   \<and> count_true (mask_group example_mask_tail 32 0) \<noteq> 2
   \<and> \<not> isl (snd (structured_sparse_linear example_env (example_tensor kHalf 32 32)
                    (example_tensor kHalf 64 8) example_mask_tail))"
proof -
  let ?cfg = "config_Half RowMajor RowMajor"
  let ?a = "example_tensor kHalf 32 32" let ?b = "example_tensor kHalf 64 8"
  have 1: "scalar_type example_mask_tail = kBool" by (simp add: example_mask_tail_def)
  have 2: "count_true (mask_group example_mask_tail 32 0) \<noteq> 2"
    by (simp add: mask_group_def example_mask_tail_def count_true_def)
  have st: "scalar_type ?a = kHalf" "strides ?a ! Suc 0 = Suc 0" "strides ?b ! Suc 0 = Suc 0"
    "stride_of ?a = 32" "stride_of ?b = 8"
    by (simp_all add: example_tensor_def stride_of_def)
  have dt: "tensor_d_dtype (ElementOutput ?cfg) = Some kHalf"
    by (simp add: config_Half_def tensor_d_dtype_def)
  have eq: "structured_sparse_linear example_env ?a ?b example_mask_tail =
      sgemm_body example_env ?cfg kHalf ?a 32 ?b 8 example_mask_tail"
    using example_checks(1-3) dt by (simp add: linear_checked st sgemm_checked)
  have s: "sizes ?a ! 0 = 32" "sizes ?b ! 0 = 64" "sizes ?b ! 1 = 8" "sizes ?b ! Suc 0 = 8"
    by (simp_all add: example_tensor_def)
  have ne: "new_empty example_env [32, 8] kHalf = Some (example_tensor kHalf 32 8)"
    using example_new_empty [of 8 32 kHalf] by simp
  have tr: "traits example_env ?cfg = example_traits ?cfg"
    "sizeof_ElementInputE (example_traits ?cfg) = 2" "kSparse (example_traits ?cfg) = 2"
    "kElementsPerElementE (example_traits ?cfg) = 8"
    by (simp_all add: example_env_def example_traits_def config_Half_def)
  have mc: "mask_checks (example_traits ?cfg) example_mask_tail"
    by (simp add: mask_checks_def example_mask_tail_def tr meta_dtype_def)
  have lc: "launch_check_create_meta example_env" "launch_check_reorder_meta example_env"
    by (simp_all add: example_env_def)
  have sm: "strides example_mask_tail ! 0 = 64" by (simp add: example_mask_tail_def)
  have "\<exists>mr. sgemm_meta example_env (example_traits ?cfg) 32 64 4 example_mask_tail =
           ([Alloc_meta, Alloc_error, Launch_create_meta, Item_error, Alloc_meta_reordered,
             Launch_reorder_meta], Inr mr)"
    using 1 mc _ _ lc
  proof (rule sgemm_meta_good)
    show "\<not> snd (two_four_create_meta_kernel (sizeof_ElementInputE (example_traits ?cfg)) 32 64
              (narrow_int (strides example_mask_tail ! 0)) (\<lambda>i. data_ptr example_mask_tail i \<noteq> 0)
              meta_stride Map.empty False)" for meta_stride
      unfolding sm narrow_int_numerals by (rule example_mask_tail_flag)
  qed simp_all
  then obtain mr where m: "sgemm_meta example_env (example_traits ?cfg) 32 64 4 example_mask_tail =
           ([Alloc_meta, Alloc_error, Launch_create_meta, Item_error, Alloc_meta_reordered,
             Launch_reorder_meta], Inr mr)" by blast
  have nc: "(64::int) sdiv 2 sdiv 8 = 4" by (simp add: signed_divide_int_def)
  have "snd (sgemm_body example_env ?cfg kHalf ?a 32 ?b 8 example_mask_tail) =
         snd (sgemm_run example_env ?cfg
                (sgemm_arguments ?cfg (narrow_int (sizes ?a ! 0)) (narrow_int (sizes ?b ! 1))
                   (narrow_int (sizes ?b ! 0)) ?a 32 ?b 8 (example_tensor kHalf 32 8) mr)
                (example_tensor kHalf 32 8) mr)"
    by (rule sgemm_body_good) (simp_all only: s narrow_int_numerals ne tr m nc of_nat_numeral)
  then have 3: "\<not> isl (snd (structured_sparse_linear example_env ?a ?b example_mask_tail))"
    by (simp add: eq example_run)
  from 1 2 3 show ?thesis by simp
qed

text \<open>
  C3, amended. With a boolean mask in which some group of four, within the rows of the
  sparse operand and the reduction length of the dense operand, does not have exactly two
  true entries (the two lengths below \<open>2 ^ 31\<close>, and the offsets of that part of the mask
  below \<open>2 ^ 32\<close>), no call returns a product or metadata. When the validations before the
  builder pass (with the column count of the dense operand below \<open>2 ^ 31\<close>) and its launch
  succeeded, the call fails with the "not 2:4 sparse" error, and the requests to the device
  end with the launch of the builder and the read-back of the failure flag: neither the
  reorderer nor the engine runs.
\<close>

theorem mask_not_2_4_sparse_fails:
  assumes "scalar_type mask_or_meta = kBool"
    and "m < sizes tensor_a ! 0" and "k < sizes tensor_b ! 0 div 4"
    and "count_true (mask_group mask_or_meta m k) \<noteq> 2"
    and "sizes tensor_a ! 0 < 2 ^ 31" and "sizes tensor_b ! 0 < 2 ^ 31"
    and "sizes tensor_a ! 0 * strides mask_or_meta ! 0 + sizes tensor_b ! 0 \<le> 2 ^ 32"
  shows "(\<forall>out. snd (structured_sparse_linear e tensor_a tensor_b mask_or_meta) \<noteq> Inr out)
    \<and> (operand_checks e tensor_a tensor_b
          \<and> dispatch (scalar_type tensor_a) (strides tensor_a ! 1 = 1) (strides tensor_b ! 1 = 1) = Inr cfg
          \<and> size_checks cfg tensor_a tensor_b
          \<and> sizes tensor_b ! 1 < 2 ^ 31
          \<and> mask_checks (traits e cfg) mask_or_meta
          \<and> launch_check_create_meta e
        \<longrightarrow> structured_sparse_linear e tensor_a tensor_b mask_or_meta =
              ([Alloc_tensor_d, Alloc_meta, Alloc_error, Launch_create_meta, Item_error],
               Inl Mask_not_2_4_sparse))"
proof (cases rule: linear_cases [of e tensor_a tensor_b mask_or_meta])
  case (pre err)
  then show ?thesis by auto
next
  case (body cfg')
  let ?tr = "traits e cfg'"
  let ?M = "sizes tensor_a ! 0" let ?K = "sizes tensor_b ! 0" let ?N = "sizes tensor_b ! 1"
  define dt where "dt = (if scalar_type tensor_a = kChar then kInt else kHalf)"
  note b4 = body(4) [folded dt_def]
  let ?nc = "int ?K sdiv int (kSparse ?tr) sdiv int (kElementsPerElementE ?tr)"
  have n: "narrow_int ?M = int ?M" "narrow_int ?K = int ?K"
    using assms(5,6) by (simp_all add: narrow_int_of_small)
  note bad = sgemm_meta_bad_group [OF assms(1,5,6,2,3,4,7), where e = e and tr = ?tr and meta_ncols = ?nc]
  from bad(1) obtain evs err where
    m: "sgemm_meta e ?tr (int ?M) (int ?K) ?nc mask_or_meta = (evs, Inl err)"
    by blast
  have "\<exists>err'. snd (structured_sparse_linear e tensor_a tensor_b mask_or_meta) = Inl err'"
    unfolding b4 sgemm_body_def Let_def n
    by (cases "new_empty e [int ?M, narrow_int ?N] dt") (simp_all add: m)
  then have 1: "\<forall>out. snd (structured_sparse_linear e tensor_a tensor_b mask_or_meta) \<noteq> Inr out"
    by auto
  have 2: "structured_sparse_linear e tensor_a tensor_b mask_or_meta =
      ([Alloc_tensor_d, Alloc_meta, Alloc_error, Launch_create_meta, Item_error], Inl Mask_not_2_4_sparse)"
    if "mask_checks ?tr mask_or_meta" "launch_check_create_meta e" "?N < 2 ^ 31"
  proof -
    have nn: "narrow_int ?N = int ?N" using that(3) by (simp add: narrow_int_of_small)
    have "new_empty e [int ?M, int ?N] dt \<noteq> None" by (simp add: new_empty_None)
    then obtain td where td: "new_empty e [int ?M, int ?N] dt = Some td" by blast
    have "?nc = int (?K div kSparse ?tr div kElementsPerElementE ?tr)"
      by (simp only: sdiv_of_nat)
    then have "0 \<le> ?nc" by simp
    from bad(2) [OF that(1,2) this] td show ?thesis
      unfolding b4 sgemm_body_def Let_def n nn by simp
  qed
  show ?thesis
  proof (intro conjI impI)
    show "\<forall>out. snd (structured_sparse_linear e tensor_a tensor_b mask_or_meta) \<noteq> Inr out" by (rule 1)
    assume a: "operand_checks e tensor_a tensor_b
          \<and> dispatch (scalar_type tensor_a) (strides tensor_a ! 1 = 1) (strides tensor_b ! 1 = 1) = Inr cfg
          \<and> size_checks cfg tensor_a tensor_b
          \<and> sizes tensor_b ! 1 < 2 ^ 31
          \<and> mask_checks (traits e cfg) mask_or_meta
          \<and> launch_check_create_meta e"
    then have "cfg' = cfg" using body(2) by simp
    with a show "structured_sparse_linear e tensor_a tensor_b mask_or_meta =
              ([Alloc_tensor_d, Alloc_meta, Alloc_error, Launch_create_meta, Item_error],
               Inl Mask_not_2_4_sparse)"
      by (intro 2) simp_all
  qed
qed

theorem mask_not_2_4_sparse_fails_witness:
  "structured_sparse_linear example_env (example_tensor kHalf 32 32) (example_tensor kHalf 64 8)
     (example_tensor kBool 32 64) =
   ([Alloc_tensor_d, Alloc_meta, Alloc_error, Launch_create_meta, Item_error], Inl Mask_not_2_4_sparse)"
proof -
  have bad: "count_true (mask_group (example_tensor kBool 32 64) 0 0) \<noteq> 2"
    by (simp add: count_true_def mask_group_def example_tensor_def)
  have st: "scalar_type (example_tensor kBool 32 64) = kBool"
    "(0::nat) < sizes (example_tensor kHalf 32 32) ! 0"
    "(0::nat) < sizes (example_tensor kHalf 64 8) ! 0 div 4"
    "sizes (example_tensor kHalf 32 32) ! 0 < 2 ^ 31"
    "sizes (example_tensor kHalf 64 8) ! 0 < 2 ^ 31"
    "sizes (example_tensor kHalf 32 32) ! 0 * strides (example_tensor kBool 32 64) ! 0
       + sizes (example_tensor kHalf 64 8) ! 0 \<le> 2 ^ 32"
    by (simp_all add: example_tensor_def)
  have st': "strides (example_tensor kHalf 32 32) ! Suc 0 = Suc 0" "strides (example_tensor kHalf 64 8) ! Suc 0 = Suc 0"
    "scalar_type (example_tensor kHalf 32 32) = kHalf" "sizes (example_tensor kHalf 64 8) ! Suc 0 < 2 ^ 31"
    by (simp_all add: example_tensor_def)
  show ?thesis
    using mask_not_2_4_sparse_fails [OF st(1-3) bad st(4-6), of example_env "config_Half RowMajor RowMajor"]
      example_checks
    by (simp add: st' example_sizes)
qed

text \<open>
  C4. The dispatch selects the byte-integer specialisation only for a row-major sparse
  operand with a column-major dense operand, the half-precision specialisation for each of
  the four pairings of layouts, and raises the "combination not supported" error for every
  other element type and pairing; once the operands have passed their validations, the
  operation is that error with no effect on the device, or the call of
  \<^verbatim>\<open>two_four_sgemm_cutlass\<close> with the selected specialisation.
\<close>

theorem dispatch_table:
  "dispatch kChar True False = Inr (config_Char RowMajor ColumnMajor)
   \<and> dispatch kHalf True True = Inr (config_Half RowMajor RowMajor)
   \<and> dispatch kHalf True False = Inr (config_Half RowMajor ColumnMajor)
   \<and> dispatch kHalf False True = Inr (config_Half ColumnMajor RowMajor)
   \<and> dispatch kHalf False False = Inr (config_Half ColumnMajor ColumnMajor)
   \<and> (\<not> (st = kChar \<and> ar \<and> \<not> br) \<and> st \<noteq> kHalf \<longrightarrow>
        dispatch st ar br = Inl (Combination_not_supported ar br))
   \<and> (operand_checks e tensor_a tensor_b \<longrightarrow>
        structured_sparse_linear e tensor_a tensor_b mask_or_meta =
          (case dispatch (scalar_type tensor_a) (strides tensor_a ! 1 = 1) (strides tensor_b ! 1 = 1) of
             Inl err \<Rightarrow> ([], Inl err)
           | Inr cfg \<Rightarrow>
              two_four_sgemm_cutlass e cfg tensor_a (stride_of tensor_a) tensor_b (stride_of tensor_b)
                mask_or_meta))"
  by (simp add: dispatch_def AT_DISPATCH_default_def linear_checked)

theorem dispatch_table_witness:
  "dispatch kFloat True False = Inl (Combination_not_supported True False)
   \<and> dispatch kChar True True = Inl (Combination_not_supported True True)
   \<and> structured_sparse_linear example_env (example_tensor kChar 32 64) (example_tensor kChar 128 16)
        (example_tensor kInt 32 4) = ([], Inl (Combination_not_supported True True))"
proof -
  have oc: "operand_checks example_env (example_tensor kChar 32 64) (example_tensor kChar 128 16)"
    by (simp add: operand_checks_def example_env_def example_tensor_def)
  have st: "scalar_type (example_tensor kChar 32 64) = kChar"
    "strides (example_tensor kChar 32 64) ! Suc 0 = Suc 0" "strides (example_tensor kChar 128 16) ! Suc 0 = Suc 0"
    by (simp_all add: example_tensor_def)
  show ?thesis
    using dispatch_table [of kFloat True False example_env "example_tensor kChar 32 64"
        "example_tensor kChar 128 16" "example_tensor kInt 32 4"]
      dispatch_table [of kChar True True example_env "example_tensor kChar 32 64"
        "example_tensor kChar 128 16" "example_tensor kInt 32 4"] oc
    by (simp add: st)
qed

text \<open>
  C5. The row count of the sparse operand must be divisible by 32, the row count of the
  dense operand (the reduction length) by 64 under half precision and by 128 under the
  byte-integer specialisation, and the column count of the dense operand by 8 under half
  precision and by 16 under byte-integer. Each violation is an error of its own, raised
  with no effect on the device, and a call that returns has passed all three.
\<close>

theorem divisibility_preconditions:
  "(sizes tensor_a ! 0 mod 32 \<noteq> 0 \<longrightarrow>
      two_four_sgemm_cutlass e cfg tensor_a sa tensor_b sb mask_or_meta
        = ([], Inl (Rows_of_sparse_not_divisible 32)))
   \<and> (sizes tensor_a ! 0 mod 32 = 0 \<and> sizes tensor_b ! 0 mod 64 \<noteq> 0 \<longrightarrow>
      two_four_sgemm_cutlass e (config_Half la lb) tensor_a sa tensor_b sb mask_or_meta
        = ([], Inl (Rows_of_dense_not_divisible 64)))
   \<and> (sizes tensor_a ! 0 mod 32 = 0 \<and> sizes tensor_b ! 0 mod 64 = 0 \<and> sizes tensor_b ! 1 mod 8 \<noteq> 0 \<longrightarrow>
      two_four_sgemm_cutlass e (config_Half la lb) tensor_a sa tensor_b sb mask_or_meta
        = ([], Inl (Columns_of_dense_not_divisible 8)))
   \<and> ((\<exists>out. snd (two_four_sgemm_cutlass e (config_Half la lb) tensor_a sa tensor_b sb mask_or_meta) = Inr out) \<longrightarrow>
      sizes tensor_a ! 0 mod 32 = 0 \<and> sizes tensor_b ! 0 mod 64 = 0 \<and> sizes tensor_b ! 1 mod 8 = 0)
   \<and> (sizes tensor_a ! 0 mod 32 = 0 \<and> sizes tensor_b ! 0 mod 128 \<noteq> 0 \<longrightarrow>
      two_four_sgemm_cutlass e (config_Char la lb) tensor_a sa tensor_b sb mask_or_meta
        = ([], Inl (Rows_of_dense_not_divisible 128)))
   \<and> (sizes tensor_a ! 0 mod 32 = 0 \<and> sizes tensor_b ! 0 mod 128 = 0 \<and> sizes tensor_b ! 1 mod 16 \<noteq> 0 \<longrightarrow>
      two_four_sgemm_cutlass e (config_Char la lb) tensor_a sa tensor_b sb mask_or_meta
        = ([], Inl (Columns_of_dense_not_divisible 16)))
   \<and> ((\<exists>out. snd (two_four_sgemm_cutlass e (config_Char la lb) tensor_a sa tensor_b sb mask_or_meta) = Inr out) \<longrightarrow>
      sizes tensor_a ! 0 mod 32 = 0 \<and> sizes tensor_b ! 0 mod 128 = 0 \<and> sizes tensor_b ! 1 mod 16 = 0)"
proof -
  have h: "ElementInputA (config_Half la lb) = half_t" and c: "ElementInputA (config_Char la lb) \<noteq> half_t"
    by (simp_all add: config_Half_def config_Char_def)
  have 1: "sizes tensor_a ! 0 mod 32 \<noteq> 0 \<longrightarrow>
      two_four_sgemm_cutlass e cfg tensor_a sa tensor_b sb mask_or_meta
        = ([], Inl (Rows_of_sparse_not_divisible 32))"
    by (simp add: two_four_sgemm_cutlass_def Let_def narrow_int_smod_numerals)
  have 2: "sizes tensor_a ! 0 mod 32 = 0 \<and>
      sizes tensor_b ! 0 mod (if ElementInputA cfg = half_t then 64 else 128) \<noteq> 0 \<longrightarrow>
      two_four_sgemm_cutlass e cfg tensor_a sa tensor_b sb mask_or_meta
        = ([], Inl (Rows_of_dense_not_divisible (if ElementInputA cfg = half_t then 64 else 128)))" for cfg
    by (simp add: two_four_sgemm_cutlass_def Let_def narrow_int_smod_numerals)
  have 3: "sizes tensor_a ! 0 mod 32 = 0 \<and>
      sizes tensor_b ! 0 mod (if ElementInputA cfg = half_t then 64 else 128) = 0 \<and>
      sizes tensor_b ! 1 mod (if ElementInputA cfg = half_t then 8 else 16) \<noteq> 0 \<longrightarrow>
      two_four_sgemm_cutlass e cfg tensor_a sa tensor_b sb mask_or_meta
        = ([], Inl (Columns_of_dense_not_divisible (if ElementInputA cfg = half_t then 8 else 16)))" for cfg
    by (simp add: two_four_sgemm_cutlass_def Let_def narrow_int_smod_numerals)
  have 4: "(\<exists>out. snd (two_four_sgemm_cutlass e cfg tensor_a sa tensor_b sb mask_or_meta) = Inr out) \<longrightarrow>
      sizes tensor_a ! 0 mod 32 = 0
      \<and> sizes tensor_b ! 0 mod (if ElementInputA cfg = half_t then 64 else 128) = 0
      \<and> sizes tensor_b ! 1 mod (if ElementInputA cfg = half_t then 8 else 16) = 0" for cfg
  proof (intro impI, elim exE)
    fix out
    assume ok: "snd (two_four_sgemm_cutlass e cfg tensor_a sa tensor_b sb mask_or_meta) = Inr out"
    have "size_checks cfg tensor_a tensor_b"
    proof (rule ccontr)
      assume "\<not> size_checks cfg tensor_a tensor_b"
      then obtain err where "two_four_sgemm_cutlass e cfg tensor_a sa tensor_b sb mask_or_meta = ([], Inl err)"
        using sgemm_unchecked [of cfg tensor_a tensor_b e sa sb mask_or_meta] by blast
      then show False using ok by simp
    qed
    then show "sizes tensor_a ! 0 mod 32 = 0
      \<and> sizes tensor_b ! 0 mod (if ElementInputA cfg = half_t then 64 else 128) = 0
      \<and> sizes tensor_b ! 1 mod (if ElementInputA cfg = half_t then 8 else 16) = 0"
      by (simp add: size_checks_def)
  qed
  have h2: "sizes tensor_a ! 0 mod 32 = 0 \<and> sizes tensor_b ! 0 mod 64 \<noteq> 0 \<longrightarrow>
      two_four_sgemm_cutlass e (config_Half la lb) tensor_a sa tensor_b sb mask_or_meta
        = ([], Inl (Rows_of_dense_not_divisible 64))"
    using 2 [of "config_Half la lb"] unfolding h by (simp only: simp_thms if_True)
  have h3: "sizes tensor_a ! 0 mod 32 = 0 \<and> sizes tensor_b ! 0 mod 64 = 0 \<and> sizes tensor_b ! 1 mod 8 \<noteq> 0 \<longrightarrow>
      two_four_sgemm_cutlass e (config_Half la lb) tensor_a sa tensor_b sb mask_or_meta
        = ([], Inl (Columns_of_dense_not_divisible 8))"
    using 3 [of "config_Half la lb"] unfolding h by (simp only: simp_thms if_True)
  have h4: "(\<exists>out. snd (two_four_sgemm_cutlass e (config_Half la lb) tensor_a sa tensor_b sb mask_or_meta) = Inr out) \<longrightarrow>
      sizes tensor_a ! 0 mod 32 = 0 \<and> sizes tensor_b ! 0 mod 64 = 0 \<and> sizes tensor_b ! 1 mod 8 = 0"
    using 4 [of "config_Half la lb"] unfolding h by (simp only: simp_thms if_True)
  have c2: "sizes tensor_a ! 0 mod 32 = 0 \<and> sizes tensor_b ! 0 mod 128 \<noteq> 0 \<longrightarrow>
      two_four_sgemm_cutlass e (config_Char la lb) tensor_a sa tensor_b sb mask_or_meta
        = ([], Inl (Rows_of_dense_not_divisible 128))"
    using 2 [of "config_Char la lb"] c by (simp only: simp_thms if_False)
  have c3: "sizes tensor_a ! 0 mod 32 = 0 \<and> sizes tensor_b ! 0 mod 128 = 0 \<and> sizes tensor_b ! 1 mod 16 \<noteq> 0 \<longrightarrow>
      two_four_sgemm_cutlass e (config_Char la lb) tensor_a sa tensor_b sb mask_or_meta
        = ([], Inl (Columns_of_dense_not_divisible 16))"
    using 3 [of "config_Char la lb"] c by (simp only: simp_thms if_False)
  have c4: "(\<exists>out. snd (two_four_sgemm_cutlass e (config_Char la lb) tensor_a sa tensor_b sb mask_or_meta) = Inr out) \<longrightarrow>
      sizes tensor_a ! 0 mod 32 = 0 \<and> sizes tensor_b ! 0 mod 128 = 0 \<and> sizes tensor_b ! 1 mod 16 = 0"
    using 4 [of "config_Char la lb"] c by (simp only: simp_thms if_False)
  show ?thesis
    by (intro conjI) (fact 1 h2 h3 h4 c2 c3 c4)+
qed

theorem divisibility_preconditions_witness:
  "two_four_sgemm_cutlass example_env (config_Half RowMajor RowMajor)
     (example_tensor kHalf 33 32) 32 (example_tensor kHalf 64 8) 8 (example_tensor kShort 32 4)
     = ([], Inl (Rows_of_sparse_not_divisible 32))
   \<and> two_four_sgemm_cutlass example_env (config_Half RowMajor RowMajor)
     (example_tensor kHalf 32 32) 32 (example_tensor kHalf 65 8) 8 (example_tensor kShort 32 4)
     = ([], Inl (Rows_of_dense_not_divisible 64))
   \<and> two_four_sgemm_cutlass example_env (config_Half RowMajor RowMajor)
     (example_tensor kHalf 32 32) 32 (example_tensor kHalf 64 9) 9 (example_tensor kShort 32 4)
     = ([], Inl (Columns_of_dense_not_divisible 8))
   \<and> two_four_sgemm_cutlass example_env (config_Char RowMajor ColumnMajor)
     (example_tensor kChar 32 32) 32 (example_tensor_cm kChar 64 16) 64 (example_tensor kInt 32 4)
     = ([], Inl (Rows_of_dense_not_divisible 128))
   \<and> two_four_sgemm_cutlass example_env (config_Char RowMajor ColumnMajor)
     (example_tensor kChar 32 64) 64 (example_tensor_cm kChar 128 8) 128 (example_tensor kInt 32 4)
     = ([], Inl (Columns_of_dense_not_divisible 16))
   \<and> sizes (example_tensor kHalf 64 8) ! 0 mod 64 = 0
   \<and> sizes (example_tensor_cm kChar 128 16) ! 0 mod 128 = 0"
proof -
  note c1 = divisibility_preconditions [THEN conjunct1]
  note c2 = divisibility_preconditions [THEN conjunct2, THEN conjunct1]
  note c3 = divisibility_preconditions [THEN conjunct2, THEN conjunct2, THEN conjunct1]
  note c5 = divisibility_preconditions [THEN conjunct2, THEN conjunct2, THEN conjunct2, THEN conjunct2,
      THEN conjunct1]
  note c6 = divisibility_preconditions [THEN conjunct2, THEN conjunct2, THEN conjunct2, THEN conjunct2,
      THEN conjunct2, THEN conjunct1]
  have 1: "two_four_sgemm_cutlass example_env (config_Half RowMajor RowMajor)
     (example_tensor kHalf 33 32) 32 (example_tensor kHalf 64 8) 8 (example_tensor kShort 32 4)
     = ([], Inl (Rows_of_sparse_not_divisible 32))"
    by (rule c1 [THEN mp]) (simp add: example_sizes)
  have 2: "two_four_sgemm_cutlass example_env (config_Half RowMajor RowMajor)
     (example_tensor kHalf 32 32) 32 (example_tensor kHalf 65 8) 8 (example_tensor kShort 32 4)
     = ([], Inl (Rows_of_dense_not_divisible 64))"
    by (rule c2 [THEN mp]) (simp add: example_sizes)
  have 3: "two_four_sgemm_cutlass example_env (config_Half RowMajor RowMajor)
     (example_tensor kHalf 32 32) 32 (example_tensor kHalf 64 9) 9 (example_tensor kShort 32 4)
     = ([], Inl (Columns_of_dense_not_divisible 8))"
    by (rule c3 [THEN mp]) (simp add: example_sizes)
  have 4: "sizes (example_tensor kHalf 32 32) ! 0 mod 32 = 0
      \<and> sizes (example_tensor kHalf 64 8) ! 0 mod 64 = 0 \<and> sizes (example_tensor kHalf 64 8) ! 1 mod 8 = 0"
    by (rule divisibility_preconditions [where e = example_env and la = RowMajor and lb = RowMajor
          and sa = 32 and sb = 8 and mask_or_meta = "example_tensor kShort 32 4",
          THEN conjunct2, THEN conjunct2, THEN conjunct2, THEN conjunct1, THEN mp])
       (simp add: example_sgemm_Half)
  have 5: "two_four_sgemm_cutlass example_env (config_Char RowMajor ColumnMajor)
     (example_tensor kChar 32 32) 32 (example_tensor_cm kChar 64 16) 64 (example_tensor kInt 32 4)
     = ([], Inl (Rows_of_dense_not_divisible 128))"
    by (rule c5 [THEN mp]) (simp add: example_sizes)
  have 6: "two_four_sgemm_cutlass example_env (config_Char RowMajor ColumnMajor)
     (example_tensor kChar 32 64) 64 (example_tensor_cm kChar 128 8) 128 (example_tensor kInt 32 4)
     = ([], Inl (Columns_of_dense_not_divisible 16))"
    by (rule c6 [THEN mp]) (simp add: example_sizes)
  have 7: "sizes (example_tensor kChar 32 64) ! 0 mod 32 = 0
      \<and> sizes (example_tensor_cm kChar 128 16) ! 0 mod 128 = 0
      \<and> sizes (example_tensor_cm kChar 128 16) ! 1 mod 16 = 0"
    by (rule divisibility_preconditions [where e = example_env and la = RowMajor and lb = ColumnMajor
          and sa = 64 and sb = 128 and mask_or_meta = "example_tensor kInt 32 4",
          THEN conjunct2, THEN conjunct2, THEN conjunct2, THEN conjunct2, THEN conjunct2,
          THEN conjunct2, THEN mp])
       (simp add: example_sgemm_Char)
  from 1 2 3 4 5 6 7 show ?thesis by blast
qed

text \<open>
  C6. When \<open>mask_or_meta\<close> is not boolean, no call allocates metadata, launches the builder,
  reads a failure flag or launches the reorderer, and every call that returns gives back
  \<open>mask_or_meta\<close> itself as the metadata.
\<close>

theorem prebuilt_metadata_bypass:
  assumes "scalar_type mask_or_meta \<noteq> kBool"
  shows "set (fst (structured_sparse_linear e tensor_a tensor_b mask_or_meta))
           \<inter> {Alloc_meta, Alloc_error, Launch_create_meta, Item_error,
                Alloc_meta_reordered, Launch_reorder_meta} = {}
         \<and> (\<forall>d meta. snd (structured_sparse_linear e tensor_a tensor_b mask_or_meta) = Inr (d, meta)
               \<longrightarrow> meta = mask_or_meta)"
proof (cases rule: linear_cases [of e tensor_a tensor_b mask_or_meta])
  case (pre err)
  then show ?thesis by simp
next
  case (body cfg)
  define dt where "dt = (if scalar_type tensor_a = kChar then kInt else kHalf)"
  note b4 = body(4) [folded dt_def]
  let ?M = "narrow_int (sizes tensor_a ! 0)" let ?K = "narrow_int (sizes tensor_b ! 0)"
  let ?N = "narrow_int (sizes tensor_b ! 1)"
  show ?thesis
  proof (cases "new_empty e [?M, ?N] dt")
    case None
    then have "structured_sparse_linear e tensor_a tensor_b mask_or_meta =
        ([Alloc_tensor_d], Inl Negative_dimension)"
      using assms by (simp add: b4 sgemm_body_not_bool)
    then show ?thesis by simp
  next
    case (Some td)
    let ?args = "sgemm_arguments cfg ?M ?N ?K tensor_a (stride_of tensor_a) tensor_b
                   (stride_of tensor_b) td mask_or_meta"
    have eq: "structured_sparse_linear e tensor_a tensor_b mask_or_meta =
        (Alloc_tensor_d # fst (sgemm_run e cfg ?args td mask_or_meta),
         snd (sgemm_run e cfg ?args td mask_or_meta))"
      using assms Some by (simp add: b4 sgemm_body_not_bool)
    have "set (fst (sgemm_run e cfg ?args td mask_or_meta))
            \<subseteq> {Alloc_workspace, Gemm_initialize ?args, Gemm_run ?args}"
      by (rule sgemm_run_events)
    then have ev: "set (fst (structured_sparse_linear e tensor_a tensor_b mask_or_meta))
            \<subseteq> {Alloc_tensor_d, Alloc_workspace, Gemm_initialize ?args, Gemm_run ?args}"
      unfolding eq by auto
    have "meta = mask_or_meta"
      if "snd (structured_sparse_linear e tensor_a tensor_b mask_or_meta) = Inr (d, meta)" for d meta
      using that sgemm_run_Inr [of e cfg ?args td mask_or_meta "(d, meta)"] unfolding eq by simp
    then show ?thesis using ev by auto
  qed
qed

theorem prebuilt_metadata_bypass_witness:
  "scalar_type (example_tensor kShort 32 4) \<noteq> kBool
   \<and> snd (structured_sparse_linear example_env (example_tensor kHalf 32 32) (example_tensor kHalf 64 8)
           (example_tensor kShort 32 4))
       = Inr (example_tensor kHalf 32 8, example_tensor kShort 32 4)
   \<and> set (fst (structured_sparse_linear example_env (example_tensor kHalf 32 32)
                  (example_tensor kHalf 64 8) (example_tensor kShort 32 4)))
         \<inter> {Alloc_meta, Alloc_error, Launch_create_meta, Item_error,
              Alloc_meta_reordered, Launch_reorder_meta} = {}"
proof -
  have nb: "scalar_type (example_tensor kShort 32 4) \<noteq> kBool" by (simp add: example_tensor_def)
  have ok: "snd (structured_sparse_linear example_env (example_tensor kHalf 32 32)
                   (example_tensor kHalf 64 8) (example_tensor kShort 32 4))
       = Inr (example_tensor kHalf 32 8, example_tensor kShort 32 4)"
    by (simp add: example_call)
  from prebuilt_metadata_bypass [OF nb, of example_env "example_tensor kHalf 32 32"
      "example_tensor kHalf 64 8"] nb ok
  show ?thesis by blast
qed

text \<open>
  C7, as stated, fails twice. Codes are packed two per byte, not two per storage unit: with
  2-byte units, a reduction length of 64 and every group reading (1,1,0,0), the first unit of
  a row holds the four codes \<open>0x4444\<close>, not the two codes \<open>0x44\<close>; and a row has 4 units,
  not \<open>64 / 4 / 2 = 8\<close>: in a metadata matrix of 8 columns the last one is never written.
  And when the number of groups of a row is not a multiple of the number of codes of a unit,
  the workers of the last unit are not all within the bounds: with 2-byte units and a
  reduction length of 8, the first worker stores a value that is not defined.
\<close>

theorem two_codes_per_unit_counterexample:
  "fst (two_four_create_meta_kernel 2 32 64 64 example_mask_ptr 8 example_meta False) 0 = Some 17476
   \<and> fst (two_four_create_meta_kernel 2 32 64 64 example_mask_ptr 8 example_meta False) 0
        \<noteq> Some (4 + 4 * 16)
   \<and> fst (two_four_create_meta_kernel 2 32 64 64 example_mask_ptr 8 example_meta False)
        (64 div 4 div 2 - 1) = None
   \<and> lane_writes 2 1 8 example_warp 0
   \<and> lane_packed 2 1 8 8 example_mask_ptr example_warp 0 = None"
proof -
  have "fst (two_four_create_meta_kernel 2 (int 32) (int 64) 64 example_mask_ptr (int 8) example_meta False)
          (0 * 8 + 0)
      = Some (pack_codes (\<lambda>t. fst (create_meta_code (pos_tuple example_mask_ptr 64 0 (0 * (2 * 2) + t))))
                (2 * 2))"
    by (rule create_meta_kernel_cell) simp_all
  then have 1: "fst (two_four_create_meta_kernel 2 32 64 64 example_mask_ptr 8 example_meta False) 0
      = Some 17476"
    by (simp add: example_mask_code pack_codes_const_4)
  have "fst (two_four_create_meta_kernel 2 (int 32) (int 64) 64 example_mask_ptr (int 8) example_meta False)
          (0 * 8 + 7)
      = example_meta (0 * 8 + 7)"
    by (rule create_meta_kernel_untouched) simp_all
  then have 2: "fst (two_four_create_meta_kernel 2 32 64 64 example_mask_ptr 8 example_meta False)
      (64 div 4 div 2 - 1) = None"
    by (simp add: example_meta_def)
  from 1 2 example_partial_tile show ?thesis by simp
qed

text \<open>
  C7, amended. For storage units of 1, 2, 4 or 8 bytes and lengths that are not negative,
  with \<open>length_k / 4\<close> a multiple of \<open>2 * sizeof(T)\<close>, it is \<open>2 * sizeof(T)\<close> adjacent workers
  that cover one unit. The worker whose group index is a multiple of \<open>2 * sizeof(T)\<close> ends
  with the codes of its own group and of the next \<open>2 * sizeof(T) - 1\<close> groups of the row, the
  code of the \<open>t\<close>-th of them in nibble \<open>t\<close>; only such workers store; and after the kernel
  every row of the metadata holds these packed values in its first
  \<open>length_k / 4 / (2 * sizeof(T))\<close> columns and is unchanged beyond (for a row stride of at
  least that many columns, and offsets into the metadata below \<open>2 ^ 32\<close>).
\<close>

theorem create_meta_packs_unit:
  assumes "sizeof_T \<in> {1, 2, 4, 8}" and "(K div 4) mod (2 * sizeof_T) = 0"
    and "M < 2 ^ 31" and "K < 2 ^ 31"
  shows "(\<forall>lane < 32. lane_writes sizeof_T (int M) (int K) w lane \<longrightarrow>
            lane_packed sizeof_T (int M) (int K) mask_stride mask_ptr w lane =
              Some (pack_codes (\<lambda>t. fst (create_meta_code
                      (pos_tuple mask_ptr mask_stride (lane_m w lane) (lane_k w lane + t))))
                    (2 * sizeof_T)))
    \<and> (\<forall>s \<in> set (warp_stores sizeof_T (int M) (int K) mask_stride mask_ptr meta_stride w).
          \<exists>lane < 32. lane_k w lane mod (2 * sizeof_T) = 0
            \<and> s = ((lane_m w lane * unsigned_int meta_stride) mod 2 ^ 32
                      + lane_k w lane div (2 * sizeof_T),
                   lane_packed sizeof_T (int M) (int K) mask_stride mask_ptr w lane))
    \<and> ((K div 4) div (2 * sizeof_T) \<le> S \<and> S < 2 ^ 31 \<and> M * S \<le> 2 ^ 32 \<longrightarrow>
         (\<forall>m < M. \<forall>j < S.
            fst (two_four_create_meta_kernel sizeof_T (int M) (int K) mask_stride mask_ptr
                   (int S) meta error) (m * S + j) =
              (if j < (K div 4) div (2 * sizeof_T)
               then Some (pack_codes (\<lambda>t. fst (create_meta_code
                             (pos_tuple mask_ptr mask_stride m (j * (2 * sizeof_T) + t))))
                           (2 * sizeof_T))
               else meta (m * S + j))))
    \<and> (\<forall>c. (\<forall>t < 2 * sizeof_T. c t < 16) \<longrightarrow>
          (\<forall>t < 2 * sizeof_T. pack_codes c (2 * sizeof_T) div 16 ^ t mod 16 = c t))"
proof (intro conjI allI impI ballI)
  fix lane
  assume "lane < 32" "lane_writes sizeof_T (int M) (int K) w lane"
  moreover have "unsigned_int (int K sdiv 4) mod (2 * sizeof_T) = 0"
    using assms(2,4) by (simp add: groups_nat)
  ultimately show "lane_packed sizeof_T (int M) (int K) mask_stride mask_ptr w lane =
              Some (pack_codes (\<lambda>t. fst (create_meta_code
                      (pos_tuple mask_ptr mask_stride (lane_m w lane) (lane_k w lane + t))))
                    (2 * sizeof_T))"
    using assms(1) by (intro lane_packed_writer)
next
  fix s
  assume "s \<in> set (warp_stores sizeof_T (int M) (int K) mask_stride mask_ptr meta_stride w)"
  then show "\<exists>lane < 32. lane_k w lane mod (2 * sizeof_T) = 0
            \<and> s = ((lane_m w lane * unsigned_int meta_stride) mod 2 ^ 32
                      + lane_k w lane div (2 * sizeof_T),
                   lane_packed sizeof_T (int M) (int K) mask_stride mask_ptr w lane)"
    by (auto simp: warp_stores_def lane_writes_def)
next
  fix m j
  assume h: "(K div 4) div (2 * sizeof_T) \<le> S \<and> S < 2 ^ 31 \<and> M * S \<le> 2 ^ 32" and m: "m < M"
    and j: "j < S"
  from h have ms: "(K div 4) div (2 * sizeof_T) \<le> S" and S: "S < 2 ^ 31" and nw: "M * S \<le> 2 ^ 32"
    by simp_all
  have T: "0 < sizeof_T" using assms(1) by auto
  show "fst (two_four_create_meta_kernel sizeof_T (int M) (int K) mask_stride mask_ptr
                   (int S) meta error) (m * S + j) =
              (if j < (K div 4) div (2 * sizeof_T)
               then Some (pack_codes (\<lambda>t. fst (create_meta_code
                             (pos_tuple mask_ptr mask_stride m (j * (2 * sizeof_T) + t))))
                           (2 * sizeof_T))
               else meta (m * S + j))"
  proof (cases "j < (K div 4) div (2 * sizeof_T)")
    case True
    then show ?thesis
      using create_meta_kernel_cell [OF assms(1,2) ms assms(3,4) S nw m True] by simp
  next
    case False
    then show ?thesis
      using create_meta_kernel_untouched [OF assms(2) T assms(3,4) S nw _ j] by simp
  qed
next
  fix c :: "nat \<Rightarrow> nat" and t
  assume "\<forall>t < 2 * sizeof_T. c t < 16" "t < 2 * sizeof_T"
  then show "pack_codes c (2 * sizeof_T) div 16 ^ t mod 16 = c t"
    by (intro pack_codes_nibble) simp_all
qed

theorem create_meta_packs_unit_witness:
  "lane_packed 2 32 64 64 example_mask_ptr example_warp 0 = Some 17476
   \<and> fst (two_four_create_meta_kernel 2 32 64 64 example_mask_ptr 4 Map.empty False) (1 * 4 + 3)
       = Some 17476
   \<and> pack_codes (\<lambda>t. 4) (2 * 2) div 16 ^ 2 mod 16 = 4"
proof -
  note t = create_meta_packs_unit [where sizeof_T = 2 and M = 32 and K = 64
      and mask_stride = 64 and mask_ptr = example_mask_ptr and meta_stride = 4 and S = 4
      and meta = Map.empty and error = False and w = example_warp]
  have h: "(2::nat) \<in> {1, 2, 4, 8}" "(64 div 4) mod (2 * 2) = (0::nat)" "(32::nat) < 2 ^ 31"
    "(64::nat) < 2 ^ 31" by simp_all
  have w: "lane_writes 2 (int 32) (int 64) example_warp 0"
    by (simp add: lane_writes_def create_meta_in_range_def lane_m_def lane_k_def example_warp_def
          unsigned_int_def signed_divide_int_def)
  have 1: "lane_packed 2 32 64 64 example_mask_ptr example_warp 0
      = Some (pack_codes (\<lambda>t. 4) 4)"
    using t [OF h, THEN conjunct1] w by (simp add: example_mask_code)
  have 2: "fst (two_four_create_meta_kernel 2 32 64 64 example_mask_ptr 4 Map.empty False) (1 * 4 + 3)
      = Some (pack_codes (\<lambda>t. 4) 4)"
    using t [OF h, THEN conjunct2, THEN conjunct2, THEN conjunct1, THEN mp, THEN spec, THEN mp,
        THEN spec, THEN mp, of 1 3]
    by (simp add: example_mask_code)
  have 3: "pack_codes (\<lambda>t. 4) (2 * 2) div 16 ^ 2 mod 16 = 4"
    using t [OF h, THEN conjunct2, THEN conjunct2, THEN conjunct2, THEN spec, THEN mp, THEN spec,
        THEN mp, of "\<lambda>t. 4" 2]
    by simp
  from 1 2 3 show ?thesis by (simp only: pack_codes_const_4) 
qed

text \<open>
  C8, as stated, fails: the sizes are converted to \<^verbatim>\<open>int\<close> (lines 185 to 187). With a dense
  operand of \<open>2 ^ 32 + 8\<close> columns the call returns a product of 8 columns.
\<close>

theorem narrowed_sizes_counterexample:
  "\<not> isl (snd (structured_sparse_linear example_env (example_tensor kHalf 32 32)
                 example_tensor_expanded (example_tensor kShort 32 4)))
   \<and> sizes (example_tensor kHalf 32 32) ! 0 = 32
   \<and> sizes example_tensor_expanded ! 1 = 4294967304
   \<and> sizes (fst (projr (snd (structured_sparse_linear example_env (example_tensor kHalf 32 32)
                 example_tensor_expanded (example_tensor kShort 32 4))))) = [32, 8]"
  by (simp add: example_call_expanded) (simp add: example_tensor_def example_tensor_expanded_def)

text \<open>
  C8, amended. The product of every call that returns has the shape (rows of the sparse
  operand) by (columns of the dense operand) as the conversion to \<^verbatim>\<open>int\<close> leaves them, which
  is the shape the operands have whenever the two counts are below \<open>2 ^ 31\<close>; its element
  type is 32-bit integer for byte-integer operands and half precision for half-precision
  operands, and no other operand type returns.
\<close>

theorem output_shape_and_dtype:
  assumes "snd (structured_sparse_linear e tensor_a tensor_b mask_or_meta) = Inr (d, meta)"
  shows "sizes d = [nat (narrow_int (sizes tensor_a ! 0)), nat (narrow_int (sizes tensor_b ! 1))]
         \<and> (sizes tensor_a ! 0 < 2 ^ 31 \<and> sizes tensor_b ! 1 < 2 ^ 31 \<longrightarrow>
              sizes d = [sizes tensor_a ! 0, sizes tensor_b ! 1])
         \<and> (scalar_type tensor_a = kChar \<or> scalar_type tensor_a = kHalf)
         \<and> (scalar_type tensor_a = kChar \<longrightarrow> scalar_type d = kInt)
         \<and> (scalar_type tensor_a = kHalf \<longrightarrow> scalar_type d = kHalf)"
proof (cases rule: linear_cases [of e tensor_a tensor_b mask_or_meta])
  case (pre err)
  then show ?thesis using assms by simp
next
  case (body cfg)
  define dt where "dt = (if scalar_type tensor_a = kChar then kInt else kHalf)"
  from assms have "snd (sgemm_body e cfg dt
           tensor_a (stride_of tensor_a) tensor_b (stride_of tensor_b) mask_or_meta) = Inr (d, meta)"
    by (simp add: body(4) dt_def)
  then obtain tensor_d arguments where
    td: "new_empty e [narrow_int (sizes tensor_a ! 0), narrow_int (sizes tensor_b ! 1)] dt = Some tensor_d"
    and d: "d = tensor_d \<lparr>data_ptr := snd (run e cfg arguments)\<rparr>"
    by (rule sgemm_body_Inr)
  have sz: "sizes d = [nat (narrow_int (sizes tensor_a ! 0)), nat (narrow_int (sizes tensor_b ! 1))]"
    and ty: "scalar_type d = dt"
    using new_empty_Some(1,3) [OF td] by (simp_all add: d)
  have "sizes d = [sizes tensor_a ! 0, sizes tensor_b ! 1]"
    if "sizes tensor_a ! 0 < 2 ^ 31" "sizes tensor_b ! 1 < 2 ^ 31"
    unfolding sz using that by (simp add: narrow_int_of_small)
  then show ?thesis using sz ty dispatch_Inr(3) [OF body(2)] by (auto simp: dt_def)
qed

theorem output_shape_and_dtype_witness:
  "snd (structured_sparse_linear example_env (example_tensor kHalf 32 32) (example_tensor kHalf 64 8)
          (example_tensor kShort 32 4))
     = Inr (example_tensor kHalf 32 8, example_tensor kShort 32 4)
   \<and> sizes (example_tensor kHalf 32 8) = [32, 8]
   \<and> scalar_type (example_tensor kHalf 32 8) = kHalf"
proof -
  have ok: "snd (structured_sparse_linear example_env (example_tensor kHalf 32 32)
                   (example_tensor kHalf 64 8) (example_tensor kShort 32 4))
       = Inr (example_tensor kHalf 32 8, example_tensor kShort 32 4)"
    by (simp add: example_call)
  have st: "scalar_type (example_tensor kHalf 32 32) = kHalf" by (simp add: example_tensor_def)
  from output_shape_and_dtype [OF ok] ok show ?thesis
    by (simp add: example_sizes st narrow_int_numerals)
qed



text \<open>
  C10. The outcome of a call does not depend on the column count of the sparse operand, nor
  on the sizes of a boolean two-dimensional mask; and when the operands pass the device,
  layout, stride, dispatch and divisibility checks (and a boolean mask its own checks), no
  error of a validation is raised, whatever the column count of the sparse operand and the
  sizes of the mask are.
\<close>

theorem reduction_length_not_cross_checked:
  "(length (sizes tensor_a) = 2 \<longrightarrow>
      structured_sparse_linear e (tensor_a \<lparr>sizes := [sizes tensor_a ! 0, cols]\<rparr>) tensor_b mask_or_meta
        = structured_sparse_linear e tensor_a tensor_b mask_or_meta)
   \<and> (scalar_type mask_or_meta = kBool \<and> length (sizes mask_or_meta) = 2 \<longrightarrow>
      structured_sparse_linear e tensor_a tensor_b (mask_or_meta \<lparr>sizes := [r, c]\<rparr>)
        = structured_sparse_linear e tensor_a tensor_b mask_or_meta)
   \<and> (operand_checks e tensor_a tensor_b
       \<and> dispatch (scalar_type tensor_a) (strides tensor_a ! 1 = 1) (strides tensor_b ! 1 = 1) = Inr cfg
       \<and> size_checks cfg tensor_a tensor_b
       \<and> (scalar_type mask_or_meta = kBool \<longrightarrow> mask_checks (traits e cfg) mask_or_meta)
      \<longrightarrow> hd (fst (structured_sparse_linear e tensor_a tensor_b mask_or_meta)) = Alloc_tensor_d
          \<and> (\<forall>err. snd (structured_sparse_linear e tensor_a tensor_b mask_or_meta) = Inl err
                \<longrightarrow> \<not> precondition_error err))"
proof (intro conjI impI)
  assume l: "length (sizes tensor_a) = 2"
  let ?a = "tensor_a \<lparr>sizes := [sizes tensor_a ! 0, cols]\<rparr>"
  have oc: "operand_checks e ?a tensor_b = operand_checks e tensor_a tensor_b"
    using l by (simp add: operand_checks_def)
  show "structured_sparse_linear e ?a tensor_b mask_or_meta
        = structured_sparse_linear e tensor_a tensor_b mask_or_meta"
  proof (cases "operand_checks e tensor_a tensor_b")
    case True
    then show ?thesis using oc
      by (simp add: linear_checked sgemm_sizes stride_of_sizes cong: sum.case_cong)
  next
    case False
    then show ?thesis using l
      by (auto simp: structured_sparse_linear_def operand_checks_def Let_def)
  qed
next
  assume "scalar_type mask_or_meta = kBool \<and> length (sizes mask_or_meta) = 2"
  then have m: "scalar_type mask_or_meta = kBool" "length (sizes mask_or_meta) = 2" by simp_all
  show "structured_sparse_linear e tensor_a tensor_b (mask_or_meta \<lparr>sizes := [r, c]\<rparr>)
        = structured_sparse_linear e tensor_a tensor_b mask_or_meta"
  proof (cases "operand_checks e tensor_a tensor_b")
    case True
    then show ?thesis
      by (simp add: linear_checked sgemm_mask_sizes [OF m] cong: sum.case_cong)
  next
    case False
    then show ?thesis by (rule linear_unchecked_eq)
  qed
next
  assume a: "operand_checks e tensor_a tensor_b
       \<and> dispatch (scalar_type tensor_a) (strides tensor_a ! 1 = 1) (strides tensor_b ! 1 = 1) = Inr cfg
       \<and> size_checks cfg tensor_a tensor_b
       \<and> (scalar_type mask_or_meta = kBool \<longrightarrow> mask_checks (traits e cfg) mask_or_meta)"
  define dt where "dt = (if scalar_type tensor_a = kChar then kInt else kHalf)"
  have dt: "tensor_d_dtype (ElementOutput cfg) = Some dt" using a dispatch_Inr(1) dt_def by blast
  have eq: "structured_sparse_linear e tensor_a tensor_b mask_or_meta =
      sgemm_body e cfg dt tensor_a (stride_of tensor_a) tensor_b (stride_of tensor_b) mask_or_meta"
    using a dt by (simp add: linear_checked sgemm_checked)
  have "hd (fst (sgemm_body e cfg dt tensor_a (stride_of tensor_a) tensor_b (stride_of tensor_b)
                   mask_or_meta)) = Alloc_tensor_d"
    by (rule sgemm_body_hd)
  moreover have "\<forall>err. snd (structured_sparse_linear e tensor_a tensor_b mask_or_meta) = Inl err
              \<longrightarrow> \<not> precondition_error err"
    unfolding eq using a by (auto dest: sgemm_body_Inl)
  ultimately show "hd (fst (structured_sparse_linear e tensor_a tensor_b mask_or_meta)) = Alloc_tensor_d"
    and "\<forall>err. snd (structured_sparse_linear e tensor_a tensor_b mask_or_meta) = Inl err
                \<longrightarrow> \<not> precondition_error err"
    by (simp_all add: eq)
qed

theorem reduction_length_not_cross_checked_witness:
  "sizes (example_tensor kHalf 32 5) ! 1 \<noteq> sizes (example_tensor kHalf 64 8) ! 0 div 2
   \<and> hd (fst (structured_sparse_linear example_env (example_tensor kHalf 32 5)
                 (example_tensor kHalf 64 8) (example_tensor kShort 32 4))) = Alloc_tensor_d
   \<and> structured_sparse_linear example_env
        ((example_tensor kHalf 32 5) \<lparr>sizes := [sizes (example_tensor kHalf 32 5) ! 0, 32]\<rparr>)
        (example_tensor kHalf 64 8) (example_tensor kShort 32 4)
      = structured_sparse_linear example_env (example_tensor kHalf 32 5)
          (example_tensor kHalf 64 8) (example_tensor kShort 32 4)"
proof -
  have c: "operand_checks example_env (example_tensor kHalf 32 5) (example_tensor kHalf 64 8)"
    "dispatch (scalar_type (example_tensor kHalf 32 5)) (strides (example_tensor kHalf 32 5) ! 1 = 1)
       (strides (example_tensor kHalf 64 8) ! 1 = 1) = Inr (config_Half RowMajor RowMajor)"
    "size_checks (config_Half RowMajor RowMajor) (example_tensor kHalf 32 5) (example_tensor kHalf 64 8)"
    "scalar_type (example_tensor kShort 32 4) \<noteq> kBool"
    "length (sizes (example_tensor kHalf 32 5)) = 2"
    by (simp_all add: operand_checks_def size_checks_def dispatch_def config_Half_def
        example_env_def example_tensor_def)
  note t = reduction_length_not_cross_checked [where e = example_env
      and tensor_a = "example_tensor kHalf 32 5" and tensor_b = "example_tensor kHalf 64 8"
      and mask_or_meta = "example_tensor kShort 32 4" and cfg = "config_Half RowMajor RowMajor"
      and cols = 32]
  have 1: "structured_sparse_linear example_env
        ((example_tensor kHalf 32 5) \<lparr>sizes := [sizes (example_tensor kHalf 32 5) ! 0, 32]\<rparr>)
        (example_tensor kHalf 64 8) (example_tensor kShort 32 4)
      = structured_sparse_linear example_env (example_tensor kHalf 32 5)
          (example_tensor kHalf 64 8) (example_tensor kShort 32 4)"
    using t [THEN conjunct1] c(5) by blast
  have 2: "hd (fst (structured_sparse_linear example_env (example_tensor kHalf 32 5)
                 (example_tensor kHalf 64 8) (example_tensor kShort 32 4))) = Alloc_tensor_d"
    using t [THEN conjunct2, THEN conjunct2] c(1-4) by blast
  have 3: "sizes (example_tensor kHalf 32 5) ! 1 \<noteq> sizes (example_tensor kHalf 64 8) ! 0 div 2"
    by (simp add: example_sizes)
  from 1 2 3 show ?thesis by blast
qed

end
